(* ===== verification/Prelude.thy ===== *)
theory Prelude
  imports Complex_Main "HOL-Library.Multiset"
begin

text \<open>
  Shared vocabulary of the development: the clock (Python \<open>datetime\<close> values as
  integer microseconds), Python's \<open>dict.get\<close> with a default, the JSON values that
  Flask's \<open>request.json\<close> delivers, Python's \<open>int()\<close> conversion of them, the
  exceptions and HTTP errors of the route handlers, and row updates of the database
  tables. The \<open>named_theorems\<close> collections gather the unfolding rules of the
  route handlers and the rewrite rules of row updates, so that component proofs say
  \<open>simp add: handler_defs\<close> or \<open>auto simp: row_simps\<close>.
\<close>

named_theorems handler_defs "unfolding rules of the route handlers of app.py"
named_theorems row_simps "rewrite rules for row updates of the database tables"

section \<open>Clock\<close>

text \<open>
  A \<open>datetime\<close> is a number of microseconds since the epoch (the resolution of
  Python's \<open>datetime\<close>). \<open>(a - b).days\<close> of a \<open>timedelta\<close> is the floor of the
  difference in days, which is \<open>div\<close> on \<open>int\<close>; \<open>d.date()\<close> is the day number.
\<close>

type_synonym datetime = int

definition us_per_day :: int where
  "us_per_day = 86400000000"

definition timedelta_days :: "datetime \<Rightarrow> datetime \<Rightarrow> int" where
  "timedelta_days a b = (a - b) div us_per_day"

definition date_of :: "datetime \<Rightarrow> int" where
  "date_of t = t div us_per_day"

text \<open>The range of \<open>datetime\<close>: \<open>datetime.min\<close> (0001-01-01, day -719162 of the
  epoch) to \<open>datetime.max\<close> (9999-12-31 23:59:59.999999); \<open>timedelta(days=d)\<close>
  accepts \<open>|d| \<le> 999999999\<close>. Leaving either range raises \<open>OverflowError\<close>.\<close>

definition datetime_min :: datetime where
  "datetime_min = - 719162 * us_per_day"

definition datetime_max :: datetime where
  "datetime_max = 2932897 * us_per_day - 1"

text \<open>\<open>now - timedelta(days=d)\<close>.\<close>

definition minus_days :: "datetime \<Rightarrow> int \<Rightarrow> datetime option" where
  "minus_days now d =
     (if 999999999 < \<bar>d\<bar> then None
      else let t = now - d * us_per_day in if t < datetime_min \<or> datetime_max < t then None else Some t)"

text \<open>The hour of the day, \<open>t.hour\<close>.\<close>

definition hour_of :: "datetime \<Rightarrow> int" where
  "hour_of t = (t mod us_per_day) div 3600000000"

section \<open>Python dictionaries with a default\<close>

text \<open>\<open>{k1: v1, ...}.get(k, d)\<close> on a literal dictionary.\<close>

definition dict_get :: "('k \<times> 'v) list \<Rightarrow> 'k \<Rightarrow> 'v \<Rightarrow> 'v" where
  "dict_get kvs k d = (case map_of kvs k of None \<Rightarrow> d | Some v \<Rightarrow> v)"

section \<open>JSON request bodies\<close>

text \<open>
  \<open>request.json\<close> is a JSON value. Numbers are integers here (the handlers only read
  integer fields; JSON fractions are not modelled). An object keeps its members in
  order, duplicates included: Python's \<open>json.loads\<close> keeps the last of duplicate
  keys, which \<open>map_of (rev kvs)\<close> reads.
\<close>

datatype jval =
    JNull
  | JBool bool
  | JInt int
  | JStr string
  | JArr "jval list"
  | JObj "(string \<times> jval) list"

text \<open>Python truthiness of the decoded value (\<open>if not x\<close>).\<close>

fun truthy :: "jval \<Rightarrow> bool" where
  "truthy JNull = False"
| "truthy (JBool b) = b"
| "truthy (JInt i) = (i \<noteq> 0)"
| "truthy (JStr s) = (s \<noteq> [])"
| "truthy (JArr xs) = (xs \<noteq> [])"
| "truthy (JObj kvs) = (kvs \<noteq> [])"

section \<open>Exceptions and HTTP errors\<close>

text \<open>
  Each route handler of app.py runs its body in \<open>try\<close>; every exception becomes
  a 500 response with the exception's text. A handler's explicit early returns are
  client errors with their status and message.
\<close>

datatype py_exc = AttributeError | TypeError | ValueError | KeyError | ZeroDivisionError | DatabaseError | OverflowError

datatype error = Client_error nat string | Server_error py_exc

fun status_of :: "error \<Rightarrow> nat" where
  "status_of (Client_error c _) = c"
| "status_of (Server_error _) = 500"

text \<open>\<open>data.get(k)\<close>: only a JSON object has \<open>get\<close>; on \<open>None\<close>, a list, a
  string or a number it raises \<open>AttributeError\<close>.\<close>

fun req_get :: "jval \<Rightarrow> string \<Rightarrow> error + jval option" where
  "req_get (JObj kvs) k = Inr (map_of (rev kvs) k)"
| "req_get _ k = Inl (Server_error AttributeError)"

text \<open>\<open>data[k]\<close> with a string key: a missing key raises \<open>KeyError\<close>; a list, a
  string, a number and \<open>None\<close> are not subscriptable by a string (\<open>TypeError\<close>).\<close>

fun py_getitem :: "jval \<Rightarrow> string \<Rightarrow> error + jval" where
  "py_getitem (JObj kvs) k = (case map_of (rev kvs) k of None \<Rightarrow> Inl (Server_error KeyError) | Some v \<Rightarrow> Inr v)"
| "py_getitem _ k = Inl (Server_error TypeError)"

text \<open>Sequencing of statements that may raise: the first exception ends the body.\<close>

definition sbind :: "error + 'a \<Rightarrow> ('a \<Rightarrow> error + 'b) \<Rightarrow> error + 'b" where
  "sbind m f = (case m of Inl e \<Rightarrow> Inl e | Inr a \<Rightarrow> f a)"

text \<open>SQLite's \<open>INTEGER\<close> is a signed 64-bit value. Binding a Python \<open>int\<close>
  outside \<open>[-2^63, 2^63 - 1]\<close> to a statement makes \<open>sqlite3\<close> raise
  \<open>OverflowError\<close> (``Python int too large to convert to SQLite INTEGER''), so an
  integer column written from the request is checked when the commit binds it.\<close>

definition int64_min :: int where
  "int64_min = - (2 ^ 63)"

definition int64_max :: int where
  "int64_max = 2 ^ 63 - 1"

definition in_int64 :: "int \<Rightarrow> bool" where
  "in_int64 i \<longleftrightarrow> int64_min \<le> i \<and> i \<le> int64_max"

definition sql_int :: "int \<Rightarrow> error + int" where
  "sql_int i = (if in_int64 i then Inr i else Inl (Server_error OverflowError))"

text \<open>\<open>data.get(k, d)\<close>.\<close>

definition req_get_default :: "jval \<Rightarrow> string \<Rightarrow> jval \<Rightarrow> error + jval" where
  "req_get_default data k d =
     (case req_get data k of Inl e \<Rightarrow> Inl e | Inr None \<Rightarrow> Inr d | Inr (Some v) \<Rightarrow> Inr v)"

section \<open>Python's == and in on JSON values\<close>

text \<open>
  Python's \<open>==\<close> on decoded JSON values, as \<open>x in a_list\<close> uses it: \<open>True == 1\<close> and \<open>False == 0\<close>; other values compare structurally (the
  comparison of a nested boolean with a number inside a list or dictionary, and the
  order-insensitivity of dictionary equality, are not modelled).
\<close>

fun py_num :: "jval \<Rightarrow> int option" where
  "py_num (JInt i) = Some i"
| "py_num (JBool b) = Some (if b then 1 else 0)"
| "py_num _ = None"

definition py_eq :: "jval \<Rightarrow> jval \<Rightarrow> bool" where
  "py_eq a b = (case (py_num a, py_num b) of (Some x, Some y) \<Rightarrow> x = y | _ \<Rightarrow> a = b)"

text \<open>\<open>t in s\<close> on two strings: \<open>t\<close> occurs in \<open>s\<close> as a contiguous piece.\<close>

fun str_contains :: "string \<Rightarrow> string \<Rightarrow> bool" where
  "str_contains t [] = (t = [])"
| "str_contains t (c # cs) = (take (length t) (c # cs) = t \<or> str_contains t cs)"

text \<open>
  \<open>b in c\<close> for decoded JSON values (a badge in the badge list, a key in a
  request body): membership in a list, a key of a dictionary (an unhashable list or dictionary raises
  \<open>TypeError\<close>; a number or \<open>None\<close> is never equal to a string key), a substring
  of a string (a non-string raises \<open>TypeError\<close>); a number, a boolean and \<open>None\<close>
  are not iterable (\<open>TypeError\<close>).
\<close>

fun py_contains :: "jval \<Rightarrow> jval \<Rightarrow> error + bool" where
  "py_contains b (JArr bs) = Inr (list_ex (py_eq b) bs)"
| "py_contains b (JObj kvs) =
     (case b of
        JStr k \<Rightarrow> Inr (k \<in> set (map fst kvs))
      | JArr _ \<Rightarrow> Inl (Server_error TypeError)
      | JObj _ \<Rightarrow> Inl (Server_error TypeError)
      | _ \<Rightarrow> Inr False)"
| "py_contains b (JStr s) =
     (case b of JStr t \<Rightarrow> Inr (str_contains t s) | _ \<Rightarrow> Inl (Server_error TypeError))"
| "py_contains b _ = Inl (Server_error TypeError)"

section \<open>Python's int() on JSON values\<close>

text \<open>
  \<open>int(s)\<close> on a string: surrounding white space (the characters \<open>str.isspace\<close>
  accepts in the range of \<open>char\<close>), an optional sign, decimal digits with single
  underscores between digits. Anything else raises \<open>ValueError\<close>.
\<close>

definition py_space :: "char \<Rightarrow> bool" where
  "py_space c \<longleftrightarrow> of_char c \<in> {9, 10, 11, 12, 13, 28, 29, 30, 31, 32, 133, 160 :: nat}"

definition digit_val :: "char \<Rightarrow> nat option" where
  "digit_val c = (let n = of_char c :: nat in if 48 \<le> n \<and> n \<le> 57 then Some (n - 48) else None)"

fun parse_digits :: "nat \<Rightarrow> char list \<Rightarrow> nat option" where
  "parse_digits acc [] = Some acc"
| "parse_digits acc (c # cs) =
     (case digit_val c of
        Some d \<Rightarrow> parse_digits (10 * acc + d) cs
      | None \<Rightarrow>
          if c = CHR ''_'' then
            (case cs of
               [] \<Rightarrow> None
             | c' # cs' \<Rightarrow>
                 (case digit_val c' of None \<Rightarrow> None | Some d \<Rightarrow> parse_digits (10 * acc + d) cs'))
          else None)"

definition parse_unsigned :: "char list \<Rightarrow> nat option" where
  "parse_unsigned cs =
     (case cs of [] \<Rightarrow> None | c # cs' \<Rightarrow> (case digit_val c of None \<Rightarrow> None | Some d \<Rightarrow> parse_digits d cs'))"

definition strip_space :: "string \<Rightarrow> string" where
  "strip_space s = rev (dropWhile py_space (rev (dropWhile py_space s)))"

definition py_int_of_string :: "string \<Rightarrow> int option" where
  "py_int_of_string s =
     (let t = strip_space s in
      if t \<noteq> [] \<and> hd t = CHR ''-'' then map_option (\<lambda>n. - int n) (parse_unsigned (tl t))
      else if t \<noteq> [] \<and> hd t = CHR ''+'' then map_option int (parse_unsigned (tl t))
      else map_option int (parse_unsigned t))"

text \<open>\<open>int(v)\<close> on a decoded JSON value: \<open>bool\<close> is a subclass of \<open>int\<close>;
  \<open>int(None)\<close>, \<open>int([])\<close> and \<open>int({})\<close> raise \<open>TypeError\<close>.\<close>

fun py_int :: "jval \<Rightarrow> error + int" where
  "py_int (JInt i) = Inr i"
| "py_int (JBool b) = Inr (if b then 1 else 0)"
| "py_int (JStr s) =
     (case py_int_of_string s of None \<Rightarrow> Inl (Server_error ValueError) | Some i \<Rightarrow> Inr i)"
| "py_int _ = Inl (Server_error TypeError)"

section \<open>Rows of a table\<close>

text \<open>
  A table is the list of its rows in row-id order, the order in which SQLite scans it
  when a query has no \<open>ORDER BY\<close>; \<open>query.filter_by(...).first()\<close> is
  \<open>find\<close>. An update of the rows a predicate selects:
\<close>

definition update_rows :: "('a \<Rightarrow> bool) \<Rightarrow> ('a \<Rightarrow> 'a) \<Rightarrow> 'a list \<Rightarrow> 'a list" where
  "update_rows P f xs = map (\<lambda>x. if P x then f x else x) xs"

section \<open>Lemmas\<close>

lemma us_per_day_pos [simp]: "0 < us_per_day"
  by (simp add: us_per_day_def)

lemma us_per_day_neq_0 [simp]: "us_per_day \<noteq> 0"
  by (simp add: us_per_day_def)

lemma timedelta_days_le_0:
  "a \<le> b \<Longrightarrow> timedelta_days a b \<le> 0"
  by (simp add: timedelta_days_def div_nonpos_pos_le0)

lemma timedelta_days_ge:
  "b + k * us_per_day \<le> a \<Longrightarrow> k \<le> timedelta_days a b"
proof -
  assume "b + k * us_per_day \<le> a"
  then have "k * us_per_day \<le> a - b" by simp
  then have "(k * us_per_day) div us_per_day \<le> (a - b) div us_per_day"
    by (rule zdiv_mono1) simp
  then show ?thesis by (simp add: timedelta_days_def)
qed

lemma sbind_Inl [simp]: "sbind (Inl e) f = Inl e"
  by (simp add: sbind_def)

lemma sbind_Inr [simp]: "sbind (Inr a) f = f a"
  by (simp add: sbind_def)

lemmas in_int64_iff = in_int64_def int64_min_def int64_max_def

lemma in_int64_level: "in_int64 t \<Longrightarrow> in_int64 (t div 100 + 1)"
proof -
  assume "in_int64 t"
  then have lo: "- (2 ^ 63) \<le> t" and hi: "t \<le> 2 ^ 63 - 1" by (simp_all add: in_int64_iff)
  have "(- (2 ^ 63)) div 100 \<le> t div (100::int)" using zdiv_mono1 [OF lo, of 100] by simp
  moreover have "t div 100 \<le> (2 ^ 63 - 1) div (100::int)" using zdiv_mono1 [OF hi, of 100] by simp
  ultimately show ?thesis by (simp add: in_int64_iff)
qed

lemma sql_int_eq_Inr [simp]: "sql_int i = Inr j \<longleftrightarrow> in_int64 i \<and> j = i"
  by (auto simp: sql_int_def)

lemma sql_int_in [simp]: "in_int64 i \<Longrightarrow> sql_int i = Inr i"
  by (simp add: sql_int_def)

lemma sql_int_out [simp]: "\<not> in_int64 i \<Longrightarrow> sql_int i = Inl (Server_error OverflowError)"
  by (simp add: sql_int_def)

lemma sbind_eq_Inr:
  "sbind m f = Inr b \<longleftrightarrow> (\<exists>a. m = Inr a \<and> f a = Inr b)"
  by (cases m) auto

lemma sbind_eq_Inl:
  "sbind m f = Inl e \<longleftrightarrow> m = Inl e \<or> (\<exists>a. m = Inr a \<and> f a = Inl e)"
  by (cases m) auto

lemma py_eq_sym: "py_eq a b = py_eq b a"
  by (auto simp: py_eq_def split: option.splits)

lemma py_eq_refl [simp]: "py_eq b b"
  by (simp add: py_eq_def split: option.splits)

lemma dict_get_in [simp]: "map_of kvs k = Some v \<Longrightarrow> dict_get kvs k d = v"
  by (simp add: dict_get_def)

lemma dict_get_notin [simp]: "map_of kvs k = None \<Longrightarrow> dict_get kvs k d = d"
  by (simp add: dict_get_def)

lemma dict_get_in_range: "dict_get kvs k d \<in> insert d (snd ` set kvs)"
  by (cases "map_of kvs k") (auto dest!: map_of_SomeD intro: rev_image_eqI)

lemma length_update_rows [simp, row_simps]: "length (update_rows P f xs) = length xs"
  by (simp add: update_rows_def)

lemma update_rows_Nil [simp, row_simps]: "update_rows P f [] = []"
  by (simp add: update_rows_def)

lemma update_rows_Cons [simp, row_simps]:
  "update_rows P f (x # xs) = (if P x then f x else x) # update_rows P f xs"
  by (simp add: update_rows_def)

lemma set_update_rows [row_simps]:
  "y \<in> set (update_rows P f xs) \<longleftrightarrow> (\<exists>x\<in>set xs. y = (if P x then f x else x))"
  by (auto simp: update_rows_def)

lemma update_rows_preserves:
  "(\<And>x. x \<in> set xs \<Longrightarrow> Q x) \<Longrightarrow> (\<And>x. x \<in> set xs \<Longrightarrow> P x \<Longrightarrow> Q (f x)) \<Longrightarrow>
   y \<in> set (update_rows P f xs) \<Longrightarrow> Q y"
  by (auto simp: update_rows_def)

lemma map_update_rows_frame [row_simps]:
  "(\<And>x. g (f x) = g x) \<Longrightarrow> map g (update_rows P f xs) = map g xs"
  by (induction xs) auto

lemma find_update_rows [row_simps]:
  "(\<And>x. P (f x) = P x) \<Longrightarrow> find P (update_rows P f xs) = map_option f (find P xs)"
  by (induction xs) auto

lemma find_update_rows_const:
  "P y \<Longrightarrow> find P (update_rows P (\<lambda>_. y) xs) = map_option (\<lambda>_. y) (find P xs)"
  by (induction xs) auto

lemma update_rows_other:
  "(\<And>y. y \<in> set xs \<Longrightarrow> P y \<Longrightarrow> \<not> Q y \<and> \<not> Q (f y)) \<Longrightarrow>
   filter Q (update_rows P f xs) = filter Q xs"
  by (induction xs) auto

lemma find_unique:
  "x \<in> set xs \<Longrightarrow> P x \<Longrightarrow> (\<And>y. y \<in> set xs \<Longrightarrow> P y \<Longrightarrow> y = x) \<Longrightarrow> find P xs = Some x"
proof (induction xs)
  case Nil
  then show ?case by simp
next
  case (Cons a xs)
  show ?case
  proof (cases "P a")
    case True
    then show ?thesis using Cons.prems(3) [of a] by simp
  next
    case False
    then have "x \<in> set xs" using Cons.prems(1,2) by auto
    moreover have "\<And>y. y \<in> set xs \<Longrightarrow> P y \<Longrightarrow> y = x" using Cons.prems(3) by simp
    ultimately have "find P xs = Some x" using Cons.IH Cons.prems(2) by blast
    then show ?thesis using False by simp
  qed
qed

lemma filter_filter_other:
  "(\<And>y. y \<in> set xs \<Longrightarrow> f y = c \<Longrightarrow> g y = d) \<Longrightarrow>
   filter (\<lambda>y. g y \<noteq> d) (filter (\<lambda>y. f y \<noteq> c) xs) = filter (\<lambda>y. g y \<noteq> d) xs"
  by (induction xs) auto

lemma find_append_None: "find P xs = None \<Longrightarrow> find P (xs @ ys) = find P ys"
  by (induction xs) auto

lemma find_Some_in_set [intro]: "find P xs = Some x \<Longrightarrow> x \<in> set xs"
  by (auto simp: find_Some_iff)

lemma find_Some_holds: "find P xs = Some x \<Longrightarrow> P x"
  by (auto simp: find_Some_iff)

lemma filter_distinct_key:
  "distinct (map f xs) \<Longrightarrow> x \<in> set xs \<Longrightarrow> filter (\<lambda>y. f y = f x) xs = [x]"
proof (induction xs)
  case Nil
  then show ?case by simp
next
  case (Cons y ys)
  then show ?case by (auto simp: filter_empty_conv image_iff)
qed

end
