(* ===== verification/Models.thy ===== *)
theory Models
  imports Prelude
begin

text \<open>
  The database models of app.py (\<open>User\<close>, \<open>Subject\<close>, \<open>Gamification\<close>) as
  records, the database as a record of tables, the lookups every handler starts with
  (\<open>User.query.filter_by(email=email).first()\<close> and the one-to-one relationship
  \<open>user.gamification\<close>), and the transaction discipline of the handlers:
  \<open>db.session.commit()\<close> at the end of the \<open>try\<close> body, \<open>db.session.rollback()\<close>
  in the \<open>except\<close> branch.
  Columns that no modelled handler reads are left out (\<open>Gamification.updated_at\<close>).
\<close>

record user =
  user_id :: nat
  user_name :: string
  email :: string
  password :: string
  user_created_at :: datetime

record subject =
  subject_id :: nat
  subject_user_id :: nat
  subject_name :: string
  chapters :: int
  completed_chapters :: int
  difficulty :: string
  priority :: string
  deadline :: datetime
  sessions_completed :: int
  total_time_minutes :: int
  subject_created_at :: datetime
  subject_updated_at :: datetime
  is_deleted :: bool
  deleted_at :: "datetime option"

record gamification =
  gam_id :: nat
  gam_user_id :: nat
  xp :: int
  level :: int
  streak :: int
  total_minutes_studied :: int
  last_study_date :: "datetime option"
  badges_earned :: string
  current_mode :: string

text \<open>\<open>StudySession\<close>, \<open>Reflection\<close> and \<open>StudyMood\<close>. The nullable foreign keys and
  the columns \<open>record_mood\<close> fills from the request without \<open>int()\<close> hold the JSON
  value as it was bound (SQLite's conversion of numeric text in an integer column is not
  modelled).\<close>

record study_session =
  session_id :: nat
  session_user_id :: nat
  session_subject_id :: jval
  duration_minutes :: int
  session_date :: datetime
  pomodoro_count :: int

record reflection =
  reflection_id :: nat
  reflection_user_id :: nat
  reflection_subject_id :: jval
  reason_idx :: int
  reason_text :: string
  reflection_date :: datetime

record study_mood =
  mood_id :: nat
  mood_user_id :: nat
  mood :: string
  mood_time :: datetime
  mood_duration_minutes :: jval
  effectiveness :: jval
  mood_session_id :: jval

record db =
  users :: "user list"
  subjects :: "subject list"
  gamifications :: "gamification list"
  study_sessions :: "study_session list"
  reflections :: "reflection list"
  study_moods :: "study_mood list"

text \<open>A database whose activity tables (sessions, reflections, moods) are empty, as
  the concrete databases of the examples are built.\<close>

definition db_of :: "user list \<Rightarrow> subject list \<Rightarrow> gamification list \<Rightarrow> db" where
  "db_of us ss gs =
     \<lparr>users = us, subjects = ss, gamifications = gs, study_sessions = [], reflections = [],
      study_moods = []\<rparr>"

text \<open>\<open>User.query.filter_by(email=email).first()\<close>\<close>

definition find_user :: "db \<Rightarrow> string \<Rightarrow> user option" where
  "find_user s e = find (\<lambda>u. email u = e) (users s)"

text \<open>\<open>user.gamification\<close> (\<open>uselist=False\<close>, unique \<open>user_id\<close>)\<close>

definition user_gamification :: "db \<Rightarrow> user \<Rightarrow> gamification option" where
  "user_gamification s u = find (\<lambda>g. gam_user_id g = user_id u) (gamifications s)"

text \<open>Writing back the gamification row of a user.\<close>

definition put_gamification :: "nat \<Rightarrow> (gamification \<Rightarrow> gamification) \<Rightarrow> db \<Rightarrow> db" where
  "put_gamification uid f s =
     s\<lparr>gamifications := update_rows (\<lambda>g. gam_user_id g = uid) f (gamifications s)\<rparr>"

text \<open>
  A handler body either fails (an early return or an exception) or returns its
  response with the state it commits. \<open>run_tx\<close> is the \<open>try\<close>/\<open>except\<close> around
  it: on failure the session is rolled back, so the database is the one before.
\<close>

definition run_tx :: "(db \<Rightarrow> error + ('a \<times> db)) \<Rightarrow> db \<Rightarrow> (error + 'a) \<times> db" where
  "run_tx body s = (case body s of Inl e \<Rightarrow> (Inl e, s) | Inr (r, s') \<Rightarrow> (Inr r, s'))"

section \<open>Lemmas\<close>

lemma db_of_simps [simp]:
  "users (db_of us ss gs) = us" "subjects (db_of us ss gs) = ss" "gamifications (db_of us ss gs) = gs"
  "study_sessions (db_of us ss gs) = []" "reflections (db_of us ss gs) = []" "study_moods (db_of us ss gs) = []"
  by (simp_all add: db_of_def)

lemma run_tx_Inl [simp]: "body s = Inl e \<Longrightarrow> run_tx body s = (Inl e, s)"
  by (simp add: run_tx_def)

lemma run_tx_Inr [simp]: "body s = Inr (r, s') \<Longrightarrow> run_tx body s = (Inr r, s')"
  by (simp add: run_tx_def)

lemma run_tx_rollback: "fst (run_tx body s) = Inl e \<Longrightarrow> snd (run_tx body s) = s"
  by (auto simp: run_tx_def split: sum.splits)

lemma run_tx_commit:
  "run_tx body s = (Inr r, s') \<Longrightarrow> body s = Inr (r, s')"
  by (auto simp: run_tx_def split: sum.splits)

lemma run_tx_preserves:
  "Q s \<Longrightarrow> (\<And>r s'. body s = Inr (r, s') \<Longrightarrow> Q s') \<Longrightarrow> Q (snd (run_tx body s))"
  by (auto simp: run_tx_def split: sum.splits)

lemma find_user_in_users: "find_user s e = Some u \<Longrightarrow> user_id u \<in> user_id ` set (users s)"
  by (auto simp: find_user_def)

lemma user_gamification_in_set:
  "user_gamification s u = Some g \<Longrightarrow> g \<in> set (gamifications s)"
  by (auto simp: user_gamification_def)

lemma user_gamification_owner:
  "user_gamification s u = Some g \<Longrightarrow> gam_user_id g = user_id u"
  by (auto simp: user_gamification_def dest: find_Some_holds)

lemma put_gamification_other [simp]:
  "users (put_gamification uid f s) = users s"
  "subjects (put_gamification uid f s) = subjects s"
  by (simp_all add: put_gamification_def)

lemma put_gamification_find:
  "(\<And>g. gam_user_id (f g) = gam_user_id g) \<Longrightarrow>
   user_gamification (put_gamification (user_id u) f s) u = map_option f (user_gamification s u)"
  by (simp add: user_gamification_def put_gamification_def find_update_rows)

end
