(* ===== verification/Planner.thy ===== *)
theory Planner
  imports Models
begin

text \<open>
  The weekly auto-planner of app.py, \<open>generate_weekly_plan\<close> (route
  \<open>POST /api/v1/planner/generate\<close>): the urgency score of a subject
  (\<open>subject_score\<close>), the ranking by \<open>sorted(..., key=subject_score, reverse=True)\<close>,
  and the distribution of the ranked subjects over the first six days of a seven-day
  plan. Scores are exact rationals: Python computes them in floating point, whose
  rounding is not modelled (it could only change the order of subjects whose exact
  scores are equal or very close).
\<close>

section \<open>Urgency score\<close>

definition days_left :: "datetime \<Rightarrow> subject \<Rightarrow> int" where
  "days_left now subj = max 1 (timedelta_days (deadline subj) now)"

definition chapters_left :: "subject \<Rightarrow> int" where
  "chapters_left subj = chapters subj - completed_chapters subj"

definition difficulty_weight :: "string \<Rightarrow> int" where
  "difficulty_weight d = dict_get [(''easy'', 1), (''medium'', 2), (''hard'', 3)] d 2"

definition priority_weight :: "string \<Rightarrow> int" where
  "priority_weight p = dict_get [(''low'', 1), (''medium'', 2), (''high'', 3)] p 2"

definition subject_score :: "datetime \<Rightarrow> subject \<Rightarrow> rat" where
  "subject_score now subj =
     (let urgency = of_int (chapters_left subj) / of_int (days_left now subj)
      in urgency * of_int (difficulty_weight (difficulty subj)) * of_int (priority_weight (priority subj)))"

section \<open>Ranking\<close>

text \<open>
  \<open>sorted(xs, key=k, reverse=True)\<close>: CPython's list sort with \<open>reverse\<close> reverses
  the list, sorts it stably in ascending order of the keys and reverses the result,
  so that elements with equal keys keep their input order. \<open>sort_key\<close> is HOL's
  stable insertion sort.
\<close>

definition py_sorted_reverse :: "('a \<Rightarrow> 'k::linorder) \<Rightarrow> 'a list \<Rightarrow> 'a list" where
  "py_sorted_reverse k xs = rev (sort_key k (rev xs))"

section \<open>The plan\<close>

text \<open>
  \<open>plan = {day: [] for day in [...]}\<close> is a dictionary from the seven day names to
  lists of entries, in insertion order; an entry is the dictionary the loop appends.
\<close>

record plan_entry =
  pe_subject_name :: string
  pe_subject_id :: nat
  pe_chapters :: int
  pe_difficulty :: string
  pe_priority :: string
  pe_recommended_duration_mins :: int

type_synonym plan = "(string \<times> plan_entry list) list"

definition week_days :: "string list" where
  "week_days = [''Monday'', ''Tuesday'', ''Wednesday'', ''Thursday'', ''Friday'', ''Saturday'', ''Sunday'']"

definition empty_plan :: plan where
  "empty_plan = map (\<lambda>day. (day, [])) week_days"

text \<open>\<open>days_list = list(plan.keys())\<close>\<close>

definition days_list :: "string list" where
  "days_list = map fst empty_plan"

text \<open>\<open>plan[day].append(entry)\<close>\<close>

definition plan_append :: "string \<Rightarrow> plan_entry \<Rightarrow> plan \<Rightarrow> plan" where
  "plan_append day e p = map (\<lambda>(d, es). if d = day then (d, es @ [e]) else (d, es)) p"

text \<open>The entry the loop builds for a subject with chapters left.\<close>

definition plan_entry_of :: "subject \<Rightarrow> plan_entry" where
  "plan_entry_of subj =
     (let daily_chapters = max 1 (chapters_left subj div 2)
      in \<lparr>pe_subject_name = subject_name subj, pe_subject_id = subject_id subj,
          pe_chapters = daily_chapters, pe_difficulty = difficulty subj,
          pe_priority = priority subj, pe_recommended_duration_mins = daily_chapters * 30\<rparr>)"

text \<open>
  \<open>for idx, subject in enumerate(sorted_subjects)\<close>: a subject with no chapters left
  is skipped (\<open>continue\<close>), but its index is still consumed; the others go to day
  \<open>idx % 6\<close>, so that Sunday is left free.
\<close>

fun distribute :: "nat \<Rightarrow> subject list \<Rightarrow> plan \<Rightarrow> plan" where
  "distribute idx [] p = p"
| "distribute idx (subj # ss) p =
     (if chapters_left subj \<le> 0 then distribute (Suc idx) ss p
      else distribute (Suc idx) ss (plan_append (days_list ! (idx mod 6)) (plan_entry_of subj) p))"

definition sorted_subjects :: "datetime \<Rightarrow> subject list \<Rightarrow> subject list" where
  "sorted_subjects now ss = py_sorted_reverse (subject_score now) ss"

definition generate_plan :: "datetime \<Rightarrow> subject list \<Rightarrow> plan" where
  "generate_plan now ss = distribute 0 (sorted_subjects now ss) empty_plan"

section \<open>The route handler\<close>

text \<open>
  The handler loads the user's subjects that are not soft-deleted. With none it
  answers \<open>{'plan': []}\<close> with status 200; otherwise the plan and the number of
  subjects (skipped ones included) with status 201. \<open>generated_at\<close> and the fixed
  \<open>optimization_notes\<close> text are not modelled. A token whose user no longer exists
  makes \<open>user.id\<close> raise \<open>AttributeError\<close>: status 500.
\<close>

datatype planner_response = Plan_empty | Plan_generated plan nat

fun planner_status :: "planner_response \<Rightarrow> nat" where
  "planner_status Plan_empty = 200"
| "planner_status (Plan_generated _ _) = 201"

definition active_subjects :: "db \<Rightarrow> nat \<Rightarrow> subject list" where
  "active_subjects s uid = filter (\<lambda>subj. subject_user_id subj = uid \<and> \<not> is_deleted subj) (subjects s)"

definition generate_weekly_plan :: "datetime \<Rightarrow> string \<Rightarrow> db \<Rightarrow> error + planner_response" where
  "generate_weekly_plan now e s =
     (case find_user s e of
        None \<Rightarrow> Inl (Server_error AttributeError)
      | Some u \<Rightarrow>
          (let ss = active_subjects s (user_id u) in
           if ss = [] then Inr Plan_empty
           else Inr (Plan_generated (generate_plan now ss) (length ss))))"

section \<open>Specification of the plan\<close>

text \<open>
  What the planner promises, stated without the loop: the entry of the subject at
  rank \<open>k\<close> of the ranking is on day \<open>k mod 6\<close> when it has chapters left, and
  the entries of a day are in rank order. Day \<open>i\<close> of the week is position \<open>i\<close>.
\<close>

definition day_entries :: "nat \<Rightarrow> nat \<Rightarrow> subject list \<Rightarrow> plan_entry list" where
  "day_entries i idx ss =
     map (plan_entry_of \<circ> snd) (filter (\<lambda>(k, subj). 0 < chapters_left subj \<and> k mod 6 = i) (enumerate idx ss))"

definition plan_spec :: "datetime \<Rightarrow> subject list \<Rightarrow> plan" where
  "plan_spec now ss =
     map (\<lambda>(i, day). (day, day_entries i 0 (sort_key (\<lambda>subj. - subject_score now subj) ss)))
         (enumerate 0 week_days)"

text \<open>All entries of a plan, day after day.\<close>

definition plan_entries :: "plan \<Rightarrow> plan_entry list" where
  "plan_entries p = concat (map snd p)"

section \<open>Lemmas\<close>

subsection \<open>The shape of a plan\<close>

lemma length_week_days: "length week_days = 7"
  by (simp add: week_days_def)

lemma distinct_week_days: "distinct week_days"
  by (simp add: week_days_def)

lemma days_list_eq: "days_list = week_days"
  by (simp add: days_list_def empty_plan_def comp_def)

lemma map_fst_empty_plan: "map fst empty_plan = week_days"
  by (simp add: empty_plan_def comp_def)

lemma week_day_eq_iff:
  "i < 7 \<Longrightarrow> j < 7 \<Longrightarrow> week_days ! i = week_days ! j \<longleftrightarrow> i = j"
  using distinct_week_days by (simp add: nth_eq_iff_index_eq length_week_days)

lemma map_of_plan_nth:
  "map fst p = week_days \<Longrightarrow> j < 7 \<Longrightarrow> map_of p (week_days ! j) = Some (snd (p ! j))"
  using distinct_week_days
  by (metis length_map length_week_days map_of_eq_Some_iff nth_map nth_mem prod.collapse)

lemma map_fst_plan_append [simp]: "map fst (plan_append d e p) = map fst p"
  by (induction p) (auto simp: plan_append_def)

lemma plan_append_nth:
  "j < length p \<Longrightarrow>
   plan_append d e p ! j = (fst (p ! j), snd (p ! j) @ (if fst (p ! j) = d then [e] else []))"
  by (cases "p ! j") (simp add: plan_append_def)

lemma plan_append_notin: "d \<notin> set (map fst p) \<Longrightarrow> plan_append d e p = p"
  by (induction p) (auto simp: plan_append_def)

lemma mset_plan_entries_append:
  "distinct (map fst p) \<Longrightarrow> d \<in> set (map fst p) \<Longrightarrow>
   mset (plan_entries (plan_append d e p)) = add_mset e (mset (plan_entries p))"
proof (induction p)
  case Nil
  then show ?case by simp
next
  case (Cons de p)
  obtain k es where de: "de = (k, es)" by fastforce
  show ?case
  proof (cases "k = d")
    case True
    with Cons.prems de have "plan_append d e p = p" by (simp add: plan_append_notin)
    with True de show ?thesis
      by (simp add: plan_append_def plan_entries_def)
  next
    case False
    with Cons de show ?thesis
      by (simp add: plan_append_def plan_entries_def)
  qed
qed

lemma plan_entries_empty_plan [simp]: "plan_entries empty_plan = []"
  by (simp add: plan_entries_def empty_plan_def)

subsection \<open>The distribution loop\<close>

lemma map_fst_distribute [simp]: "map fst (distribute idx ss p) = map fst p"
  by (induction idx ss p rule: distribute.induct) simp_all

lemma length_distribute [simp]: "length (distribute idx ss p) = length p"
  by (metis length_map map_fst_distribute)

lemma day_entries_Nil [simp]: "day_entries i idx [] = []"
  by (simp add: day_entries_def)

lemma day_entries_Cons:
  "day_entries i idx (subj # ss) =
     (if 0 < chapters_left subj \<and> idx mod 6 = i then [plan_entry_of subj] else []) @ day_entries i (Suc idx) ss"
  by (simp add: day_entries_def)

lemma day_entries_Sunday [simp]: "day_entries 6 idx ss = []"
proof -
  have "\<And>k::nat. k mod 6 \<noteq> 6" by simp
  then show ?thesis by (auto simp: day_entries_def filter_empty_conv)
qed

lemma distribute_nth:
  "map fst p = week_days \<Longrightarrow> j < 7 \<Longrightarrow>
   snd (distribute idx ss p ! j) = snd (p ! j) @ day_entries j idx ss"
proof (induction idx ss p rule: distribute.induct)
  case (1 idx p)
  then show ?case by simp
next
  case (2 idx subj ss p)
  have len: "length p = 7" using "2.prems"(1) by (metis length_map length_week_days)
  have fst_j: "fst (p ! j) = week_days ! j" using "2.prems" len by (metis nth_map)
  show ?case
  proof (cases "chapters_left subj \<le> 0")
    case True
    with "2.IH"(1) "2.prems" show ?thesis by (simp add: day_entries_Cons)
  next
    case False
    let ?p' = "plan_append (days_list ! (idx mod 6)) (plan_entry_of subj) p"
    have day: "fst (p ! j) = days_list ! (idx mod 6) \<longleftrightarrow> idx mod 6 = j"
      using fst_j "2.prems"(2) week_day_eq_iff [of j "idx mod 6"] by (auto simp: days_list_eq)
    have "snd (distribute (Suc idx) ss ?p' ! j) = snd (?p' ! j) @ day_entries j (Suc idx) ss"
      using "2.IH"(2) False "2.prems" by simp
    with False day len "2.prems"(2) show ?thesis
      by (simp add: plan_append_nth day_entries_Cons)
  qed
qed

lemma mset_plan_entries_distribute:
  "map fst p = week_days \<Longrightarrow>
   mset (plan_entries (distribute idx ss p)) =
     mset (plan_entries p) + mset (map plan_entry_of (filter (\<lambda>subj. 0 < chapters_left subj) ss))"
proof (induction idx ss p rule: distribute.induct)
  case (1 idx p)
  then show ?case by simp
next
  case (2 idx subj ss p)
  show ?case
  proof (cases "chapters_left subj \<le> 0")
    case True
    with "2.IH"(1) "2.prems" show ?thesis by simp
  next
    case False
    have "days_list ! (idx mod 6) \<in> set (map fst p)"
      using "2.prems" by (simp add: days_list_eq length_week_days)
    then have "mset (plan_entries (plan_append (days_list ! (idx mod 6)) (plan_entry_of subj) p)) =
               add_mset (plan_entry_of subj) (mset (plan_entries p))"
      using "2.prems" distinct_week_days by (simp add: mset_plan_entries_append)
    with "2.IH"(2) False "2.prems" show ?thesis by simp
  qed
qed

subsection \<open>Ranking and entries\<close>

lemma py_sorted_reverse_eq_sort_key:
  fixes k :: "'a \<Rightarrow> 'k::linordered_ab_group_add"
  shows "py_sorted_reverse k xs = sort_key (\<lambda>x. - k x) xs"
proof (rule properties_for_sort_key [symmetric])
  show "mset (py_sorted_reverse k xs) = mset xs"
    by (simp add: py_sorted_reverse_def)
next
  fix c
  have "filter (\<lambda>x. k x = k c) (sort_key k (rev xs)) = filter (\<lambda>x. k x = k c) (rev xs)"
    by (rule sort_key_stable)
  then have "filter (\<lambda>x. k x = k c) (py_sorted_reverse k xs) = filter (\<lambda>x. k x = k c) xs"
    by (simp add: py_sorted_reverse_def rev_filter [symmetric])
  then show "filter (\<lambda>x. - k c = - k x) (py_sorted_reverse k xs) = filter (\<lambda>x. - k c = - k x) xs"
    by (simp add: eq_commute [of "k c"])
next
  have "sorted (map k (sort_key k (rev xs)))" by simp
  then show "sorted (map (\<lambda>x. - k x) (py_sorted_reverse k xs))"
    by (simp add: py_sorted_reverse_def sorted_wrt_rev sorted_wrt_map rev_map [symmetric])
qed

lemma sorted_subjects_eq:
  "sorted_subjects now ss = sort_key (\<lambda>subj. - subject_score now subj) ss"
  by (simp add: sorted_subjects_def py_sorted_reverse_eq_sort_key)

lemma mset_plan_entries_generate_plan:
  "mset (plan_entries (generate_plan now ss)) =
     mset (map plan_entry_of (filter (\<lambda>subj. 0 < chapters_left subj) ss))"
  by (simp add: generate_plan_def mset_plan_entries_distribute map_fst_empty_plan sorted_subjects_def
      py_sorted_reverse_def mset_filter)

lemma plan_entry_of_laws:
  "0 < chapters_left subj \<Longrightarrow>
   pe_recommended_duration_mins (plan_entry_of subj) = pe_chapters (plan_entry_of subj) * 30 \<and>
   1 \<le> pe_chapters (plan_entry_of subj) \<and> pe_chapters (plan_entry_of subj) \<le> chapters_left subj \<and>
   pe_subject_id (plan_entry_of subj) = subject_id subj"
  by (auto simp: plan_entry_of_def Let_def)

lemma in_plan_entries_generate_plan:
  "e \<in> set (plan_entries (generate_plan now ss)) \<Longrightarrow>
   \<exists>subj\<in>set ss. 0 < chapters_left subj \<and> e = plan_entry_of subj"
proof -
  assume "e \<in> set (plan_entries (generate_plan now ss))"
  then have "e \<in># mset (plan_entries (generate_plan now ss))" by simp
  then have "e \<in> set (map plan_entry_of (filter (\<lambda>subj. 0 < chapters_left subj) ss))"
    by (simp only: mset_plan_entries_generate_plan set_mset_mset)
  then show ?thesis by auto
qed

subsection \<open>Scores\<close>

lemma weight_bounds:
  "1 \<le> difficulty_weight d" "difficulty_weight d \<le> 3"
  "1 \<le> priority_weight p" "priority_weight p \<le> 3"
  using dict_get_in_range [of "[(''easy'', 1), (''medium'', 2), (''hard'', 3 :: int)]" d 2]
        dict_get_in_range [of "[(''low'', 1), (''medium'', 2), (''high'', 3 :: int)]" p 2]
  by (auto simp: difficulty_weight_def priority_weight_def)

lemma days_left_overdue: "deadline subj \<le> now \<Longrightarrow> days_left now subj = 1"
  using timedelta_days_le_0 [of "deadline subj" now] by (simp add: days_left_def)

lemma days_left_ge: "now + k * us_per_day \<le> deadline subj \<Longrightarrow> max 1 k \<le> days_left now subj"
  using timedelta_days_ge [of now k "deadline subj"] by (simp add: days_left_def)

lemma subject_score_eq:
  "subject_score now subj =
     of_int (chapters_left subj) / of_int (days_left now subj) *
     (of_int (difficulty_weight (difficulty subj) * priority_weight (priority subj)))"
  by (simp add: subject_score_def Let_def)

section \<open>Properties of the planner\<close>

text \<open>C1. The planner implements its specification: the plan \<open>generate_plan\<close> builds with the loop of \<open>generate_weekly_plan\<close> is \<open>plan_spec\<close>, in which the subject at rank \<open>k\<close> of the stable descending ranking is on day \<open>k mod 6\<close> when it has chapters left, in rank order within the day; skipped subjects consume their index.\<close>

theorem generate_plan_refines_spec:
  "generate_plan now ss = plan_spec now ss"
proof (rule nth_equalityI)
  show "length (generate_plan now ss) = length (plan_spec now ss)"
    by (simp add: generate_plan_def plan_spec_def empty_plan_def)
next
  fix j
  assume "j < length (generate_plan now ss)"
  then have j: "j < 7"
    by (metis generate_plan_def length_map length_week_days map_fst_distribute map_fst_empty_plan)
  let ?r = "sorted_subjects now ss"
  have fst_eq: "fst (generate_plan now ss ! j) = week_days ! j"
    using j map_fst_distribute [of 0 ?r empty_plan]
    by (metis generate_plan_def length_map length_week_days map_fst_empty_plan nth_map)
  have snd_eq: "snd (generate_plan now ss ! j) = day_entries j 0 ?r"
    using distribute_nth [OF map_fst_empty_plan j, of 0 ?r] j
    by (simp add: generate_plan_def empty_plan_def length_week_days)
  have spec: "plan_spec now ss ! j = (week_days ! j, day_entries j 0 ?r)"
    using j by (simp add: plan_spec_def length_week_days nth_enumerate_eq sorted_subjects_eq)
  show "generate_plan now ss ! j = plan_spec now ss ! j"
    using fst_eq snd_eq spec by (simp add: prod_eq_iff)
qed

text \<open>C2. The plan always has exactly the seven keys Monday to Sunday, in that order, whatever the subjects.\<close>

theorem generate_plan_days: "map fst (generate_plan now ss) = week_days"
  by (simp add: generate_plan_def map_fst_empty_plan)

text \<open>C3. Among subjects with distinct ids, a subject with chapters left has exactly one entry in the whole plan, and an exhausted subject (\<open>completed_chapters \<ge> chapters\<close>) has none.\<close>

theorem generate_plan_one_entry_per_subject:
  assumes "distinct (map subject_id ss)" and "subj \<in> set ss"
  shows "length (filter (\<lambda>e. pe_subject_id e = subject_id subj) (plan_entries (generate_plan now ss))) =
         (if 0 < chapters_left subj then 1 else 0)"
proof -
  let ?P = "\<lambda>e. pe_subject_id e = subject_id subj"
  let ?el = "\<lambda>s. 0 < chapters_left s"
  have "mset (filter ?P (plan_entries (generate_plan now ss))) =
        mset (filter ?P (map plan_entry_of (filter ?el ss)))"
    by (simp add: mset_filter mset_plan_entries_generate_plan [of now ss, simplified])
  also have "filter ?P (map plan_entry_of (filter ?el ss)) =
             map plan_entry_of (filter ?el (filter (\<lambda>s. subject_id s = subject_id subj) ss))"
    by (simp add: filter_map comp_def plan_entry_of_def Let_def conj_commute)
  also have "filter (\<lambda>s. subject_id s = subject_id subj) ss = [subj]"
    using assms by (rule filter_distinct_key)
  finally have "length (filter ?P (plan_entries (generate_plan now ss))) = length (filter ?el [subj])"
    by (metis length_map size_mset)
  then show ?thesis by simp
qed

text \<open>C4. The distribution never assigns a subject to Sunday: Sunday's list is empty for every input, of any length.\<close>

theorem generate_plan_sunday_free: "map_of (generate_plan now ss) ''Sunday'' = Some []"
proof -
  have "map_of (generate_plan now ss) (week_days ! 6) = Some (snd (generate_plan now ss ! 6))"
    by (rule map_of_plan_nth) (simp_all add: generate_plan_def map_fst_empty_plan)
  moreover have "snd (generate_plan now ss ! 6) = []"
    using distribute_nth [OF map_fst_empty_plan, of 6]
    by (simp add: generate_plan_def empty_plan_def week_days_def)
  ultimately show ?thesis by (simp add: week_days_def)
qed

text \<open>C23. Every entry of the plan belongs to a subject of the input with chapters left; it assigns \<open>max 1 (chapters_left div 2)\<close> chapters, at least one and at most the chapters left, and recommends thirty minutes per chapter.\<close>

theorem generate_plan_entry_laws:
  assumes "x \<in> set (plan_entries (generate_plan now ss))"
  shows "pe_recommended_duration_mins x = pe_chapters x * 30 \<and> 1 \<le> pe_chapters x \<and>
         (\<exists>subj\<in>set ss. 0 < chapters_left subj \<and> pe_subject_id x = subject_id subj \<and>
            pe_chapters x = max 1 (chapters_left subj div 2) \<and> pe_chapters x \<le> chapters_left subj)"
proof -
  obtain subj where "subj \<in> set ss" "0 < chapters_left subj" "x = plan_entry_of subj"
    using in_plan_entries_generate_plan [OF assms] by blast
  then show ?thesis
    using plan_entry_of_laws [of subj] by (auto simp: plan_entry_of_def Let_def)
qed

text \<open>C24. The ranking is a stable sort by descending score: the scores are non-increasing along it, it is a permutation of the input, and subjects with equal scores keep their input order.\<close>

theorem sorted_subjects_ranking:
  "sorted_wrt (\<lambda>a b. subject_score now b \<le> subject_score now a) (sorted_subjects now ss) \<and>
   mset (sorted_subjects now ss) = mset ss \<and>
   (\<forall>c. filter (\<lambda>subj. subject_score now subj = c) (sorted_subjects now ss) =
         filter (\<lambda>subj. subject_score now subj = c) ss)"
proof (intro conjI allI)
  let ?k = "\<lambda>subj. - subject_score now subj"
  have "sorted (map ?k (sort_key ?k ss))" by (rule sorted_sort_key)
  then show "sorted_wrt (\<lambda>a b. subject_score now b \<le> subject_score now a) (sorted_subjects now ss)"
    by (simp add: sorted_subjects_eq sorted_wrt_map)
  show "mset (sorted_subjects now ss) = mset ss"
    by (simp add: sorted_subjects_eq)
  fix c
  have "filter (\<lambda>subj. ?k subj = - c) (sort_key ?k ss) = filter (\<lambda>subj. ?k subj = - c) ss"
    by (rule sort_key_stable)
  then show "filter (\<lambda>subj. subject_score now subj = c) (sorted_subjects now ss) =
             filter (\<lambda>subj. subject_score now subj = c) ss"
    by (simp add: sorted_subjects_eq)
qed

text \<open>C25. An overdue subject with chapters left scores strictly higher than the same subject with a deadline at least two days ahead (days left are clamped to one, not to zero or below).\<close>

theorem overdue_outranks:
  assumes "0 < chapters_left subj" and "deadline subj \<le> now" and "now + 2 * us_per_day \<le> d"
  shows "subject_score now (subj\<lparr>deadline := d\<rparr>) < subject_score now subj"
proof -
  let ?w = "of_int (difficulty_weight (difficulty subj) * priority_weight (priority subj)) :: rat"
  let ?c = "of_int (chapters_left subj) :: rat"
  have w: "0 < ?w" using weight_bounds(1) [of "difficulty subj"] weight_bounds(3) [of "priority subj"] by simp
  have c: "0 < ?c" using assms(1) by simp
  have "2 \<le> days_left now (subj\<lparr>deadline := d\<rparr>)"
    using days_left_ge [of now 2 "subj\<lparr>deadline := d\<rparr>"] assms(3) by simp
  then have "?c / of_int (days_left now (subj\<lparr>deadline := d\<rparr>)) < ?c / 1"
    using c by (intro divide_strict_left_mono) simp_all
  with w have "?c / of_int (days_left now (subj\<lparr>deadline := d\<rparr>)) * ?w < ?c / 1 * ?w"
    by (rule mult_strict_right_mono [rotated])
  then show ?thesis
    using days_left_overdue [OF assms(2)]
    by (simp add: subject_score_eq chapters_left_def)
qed

text \<open>C26. A user with no active subjects gets \<open>{'plan': []}\<close> with status 200, not a seven-day plan.\<close>

theorem generate_weekly_plan_empty:
  "find_user s e = Some u \<Longrightarrow> active_subjects s (user_id u) = [] \<Longrightarrow>
   generate_weekly_plan now e s = Inr Plan_empty \<and> planner_status Plan_empty = 200"
  by (simp add: generate_weekly_plan_def)

text \<open>C27. A generated plan (status 201) is the plan of the requesting user's subjects that are not soft-deleted, with their number; no entry comes from another user's or a deleted subject.\<close>

theorem generate_weekly_plan_generated:
  assumes "generate_weekly_plan now e s = Inr (Plan_generated p n)"
  shows "\<exists>u. find_user s e = Some u \<and> p = generate_plan now (active_subjects s (user_id u)) \<and>
             n = length (active_subjects s (user_id u)) \<and> 0 < n \<and> planner_status (Plan_generated p n) = 201 \<and>
             (\<forall>x\<in>set (plan_entries p). \<exists>subj\<in>set (subjects s).
                 subject_user_id subj = user_id u \<and> \<not> is_deleted subj \<and> x = plan_entry_of subj)"
proof -
  obtain u where u: "find_user s e = Some u"
    using assms by (cases "find_user s e") (simp_all add: generate_weekly_plan_def)
  let ?ss = "active_subjects s (user_id u)"
  have ne: "?ss \<noteq> []" and p: "p = generate_plan now ?ss" and n: "n = length ?ss"
    using assms u by (auto simp: generate_weekly_plan_def Let_def split: if_splits)
  have "\<forall>x\<in>set (plan_entries p). \<exists>subj\<in>set (subjects s).
          subject_user_id subj = user_id u \<and> \<not> is_deleted subj \<and> x = plan_entry_of subj"
    using p in_plan_entries_generate_plan by (fastforce simp: active_subjects_def)
  with u ne p n show ?thesis by auto
qed

text \<open>C28. A token whose user no longer exists makes the planner fail with \<open>AttributeError\<close> (status 500), not 404.\<close>

theorem generate_weekly_plan_no_user:
  "find_user s e = None \<Longrightarrow>
   generate_weekly_plan now e s = Inl (Server_error AttributeError) \<and>
   status_of (Server_error AttributeError) = 500"
  by (simp add: generate_weekly_plan_def)

section \<open>Witnesses\<close>

text \<open>Each property with a hypothesis, applied where the hypothesis holds: a user
  \<open>ann@x\<close> (id 1) with a hard, high-priority subject of ten chapters due in five
  days and an exhausted easy one.\<close>

lemma generate_plan_one_entry_per_subject_witness:
  "distinct (map subject_id [subject.make 1 1 ''Math'' 10 0 ''hard'' ''high'' 432000000000 0 0 0 0 False None,
                             subject.make 2 1 ''Art'' 4 4 ''easy'' ''low'' 0 0 0 0 0 False None]) \<and>
   subject.make 2 1 ''Art'' 4 4 ''easy'' ''low'' 0 0 0 0 0 False None \<in>
     set [subject.make 1 1 ''Math'' 10 0 ''hard'' ''high'' 432000000000 0 0 0 0 False None,
          subject.make 2 1 ''Art'' 4 4 ''easy'' ''low'' 0 0 0 0 0 False None] \<and>
   length (filter (\<lambda>e. pe_subject_id e = 2)
     (plan_entries (generate_plan 0 [subject.make 1 1 ''Math'' 10 0 ''hard'' ''high'' 432000000000 0 0 0 0 False None,
                                      subject.make 2 1 ''Art'' 4 4 ''easy'' ''low'' 0 0 0 0 0 False None]))) = 0"
  using generate_plan_one_entry_per_subject
    [of "[subject.make 1 1 ''Math'' 10 0 ''hard'' ''high'' 432000000000 0 0 0 0 False None,
          subject.make 2 1 ''Art'' 4 4 ''easy'' ''low'' 0 0 0 0 0 False None]"
        "subject.make 2 1 ''Art'' 4 4 ''easy'' ''low'' 0 0 0 0 0 False None" 0]
  by (simp add: subject.make_def chapters_left_def)

lemma generate_plan_entry_laws_witness:
  "plan_entry_of (subject.make 1 1 ''Math'' 10 0 ''hard'' ''high'' 432000000000 0 0 0 0 False None) \<in>
     set (plan_entries (generate_plan 0 [subject.make 1 1 ''Math'' 10 0 ''hard'' ''high'' 432000000000 0 0 0 0 False None])) \<and>
   pe_chapters (plan_entry_of (subject.make 1 1 ''Math'' 10 0 ''hard'' ''high'' 432000000000 0 0 0 0 False None)) \<le> 10 \<and>
   1 \<le> pe_chapters (plan_entry_of (subject.make 1 1 ''Math'' 10 0 ''hard'' ''high'' 432000000000 0 0 0 0 False None))"
proof -
  have m: "plan_entry_of (subject.make 1 1 ''Math'' 10 0 ''hard'' ''high'' 432000000000 0 0 0 0 False None) \<in>
     set (plan_entries (generate_plan 0 [subject.make 1 1 ''Math'' 10 0 ''hard'' ''high'' 432000000000 0 0 0 0 False None]))"
    by code_simp
  show ?thesis
    using m generate_plan_entry_laws [OF m] by (auto simp: subject.make_def chapters_left_def)
qed

lemma overdue_outranks_witness:
  "0 < chapters_left (subject.make 1 1 ''Math'' 10 0 ''hard'' ''high'' 0 0 0 0 0 False None) \<and>
   deadline (subject.make 1 1 ''Math'' 10 0 ''hard'' ''high'' 0 0 0 0 0 False None) \<le> 0 \<and>
   0 + 2 * us_per_day \<le> 432000000000 \<and>
   subject_score 0 ((subject.make 1 1 ''Math'' 10 0 ''hard'' ''high'' 0 0 0 0 0 False None)\<lparr>deadline := 432000000000\<rparr>)
     < subject_score 0 (subject.make 1 1 ''Math'' 10 0 ''hard'' ''high'' 0 0 0 0 0 False None)"
  using overdue_outranks [of "subject.make 1 1 ''Math'' 10 0 ''hard'' ''high'' 0 0 0 0 0 False None" 0 432000000000]
  by (simp add: subject.make_def chapters_left_def us_per_day_def)

lemma generate_weekly_plan_empty_witness:
  "find_user (db_of [user.make 1 ''Ann'' ''ann@x'' ''h'' 0] [] []) ''ann@x'' = Some (user.make 1 ''Ann'' ''ann@x'' ''h'' 0) \<and>
   active_subjects (db_of [user.make 1 ''Ann'' ''ann@x'' ''h'' 0] [] []) 1 = [] \<and>
   generate_weekly_plan 0 ''ann@x'' (db_of [user.make 1 ''Ann'' ''ann@x'' ''h'' 0] [] []) = Inr Plan_empty"
  using generate_weekly_plan_empty
    [of "db_of [user.make 1 ''Ann'' ''ann@x'' ''h'' 0] [] []" "''ann@x''" "user.make 1 ''Ann'' ''ann@x'' ''h'' 0" 0]
  by (simp add: find_user_def active_subjects_def db_of_def user.make_def)

lemma generate_weekly_plan_generated_witness:
  "generate_weekly_plan 0 ''ann@x''
     (db_of [user.make 1 ''Ann'' ''ann@x'' ''h'' 0]
        [subject.make 1 1 ''Math'' 10 0 ''hard'' ''high'' 432000000000 0 0 0 0 False None,
         subject.make 2 2 ''Law'' 8 0 ''hard'' ''high'' 0 0 0 0 0 False None] []) =
     Inr (Plan_generated (generate_plan 0 [subject.make 1 1 ''Math'' 10 0 ''hard'' ''high'' 432000000000 0 0 0 0 False None]) 1) \<and>
   pe_subject_id ` set (plan_entries (generate_plan 0 [subject.make 1 1 ''Math'' 10 0 ''hard'' ''high'' 432000000000 0 0 0 0 False None]))
     \<subseteq> {1}"
proof -
  have h: "generate_weekly_plan 0 ''ann@x''
     (db_of [user.make 1 ''Ann'' ''ann@x'' ''h'' 0]
        [subject.make 1 1 ''Math'' 10 0 ''hard'' ''high'' 432000000000 0 0 0 0 False None,
         subject.make 2 2 ''Law'' 8 0 ''hard'' ''high'' 0 0 0 0 0 False None] []) =
     Inr (Plan_generated (generate_plan 0 [subject.make 1 1 ''Math'' 10 0 ''hard'' ''high'' 432000000000 0 0 0 0 False None]) 1)"
    by (simp add: generate_weekly_plan_def find_user_def active_subjects_def db_of_def user.make_def subject.make_def)
  obtain u where u: "find_user (db_of [user.make 1 ''Ann'' ''ann@x'' ''h'' 0]
        [subject.make 1 1 ''Math'' 10 0 ''hard'' ''high'' 432000000000 0 0 0 0 False None,
         subject.make 2 2 ''Law'' 8 0 ''hard'' ''high'' 0 0 0 0 0 False None] []) ''ann@x'' = Some u"
    and own: "\<forall>x\<in>set (plan_entries (generate_plan 0 [subject.make 1 1 ''Math'' 10 0 ''hard'' ''high'' 432000000000 0 0 0 0 False None])).
      \<exists>subj\<in>set [subject.make 1 1 ''Math'' 10 0 ''hard'' ''high'' 432000000000 0 0 0 0 False None,
         subject.make 2 2 ''Law'' 8 0 ''hard'' ''high'' 0 0 0 0 0 False None].
        subject_user_id subj = user_id u \<and> \<not> is_deleted subj \<and> x = plan_entry_of subj"
    using generate_weekly_plan_generated [OF h] by (auto simp: db_of_def)
  have "user_id u = 1"
    using u by (auto simp: find_user_def db_of_def user.make_def)
  with own have "\<forall>x\<in>set (plan_entries (generate_plan 0 [subject.make 1 1 ''Math'' 10 0 ''hard'' ''high'' 432000000000 0 0 0 0 False None])).
      pe_subject_id x = 1"
    by (auto simp: subject.make_def plan_entry_of_def Let_def)
  with h show ?thesis by blast
qed

lemma generate_weekly_plan_no_user_witness:
  "find_user (db_of [user.make 1 ''Ann'' ''ann@x'' ''h'' 0] [] []) ''bob@x'' = None \<and>
   generate_weekly_plan 0 ''bob@x'' (db_of [user.make 1 ''Ann'' ''ann@x'' ''h'' 0] [] []) =
     Inl (Server_error AttributeError)"
  using generate_weekly_plan_no_user [of "db_of [user.make 1 ''Ann'' ''ann@x'' ''h'' 0] [] []" "''bob@x''" 0]
  by (simp add: find_user_def db_of_def user.make_def)

end
