(* ===== verification/Json.thy ===== *)
theory Json
  imports Prelude
begin

text \<open>
  Python's \<open>json.dumps\<close> with its default arguments (\<open>ensure_ascii=True\<close>,
  separators \<open>', '\<close> and \<open>': '\<close>) and \<open>json.loads\<close>, on the JSON values of
  \<open>jval\<close>. app.py stores the badges of a user as the text \<open>json.dumps(badges)\<close> in
  the column \<open>Gamification.badges_earned\<close> and reads them back with \<open>json.loads\<close>.
  A character is a code point below 256; the decoder rejects \<open>\u\<close> escapes above
  that range and numbers with a fraction or an exponent (Python would return a
  \<open>float\<close>, which \<open>jval\<close> does not model).
\<close>

section \<open>Encoder: json.dumps\<close>

definition hex_digit :: "nat \<Rightarrow> char" where
  "hex_digit n = (if n < 10 then char_of (48 + n) else char_of (87 + n))"

text \<open>\<open>ESCAPE_ASCII\<close>: \<open>\"\<close> and \<open>\\\<close>, the short escapes of \<open>ESCAPE_DCT\<close>,
  the printable ASCII characters as they are, everything else as \<open>\u00xx\<close>.\<close>

definition escape_char :: "char \<Rightarrow> string" where
  "escape_char c =
     (let n = of_char c :: nat in
      if n = 34 then [CHR 0x5C, CHR 0x22]
      else if n = 92 then [CHR 0x5C, CHR 0x5C]
      else if n = 8 then [CHR 0x5C, CHR ''b'']
      else if n = 12 then [CHR 0x5C, CHR ''f'']
      else if n = 10 then [CHR 0x5C, CHR ''n'']
      else if n = 13 then [CHR 0x5C, CHR ''r'']
      else if n = 9 then [CHR 0x5C, CHR ''t'']
      else if 32 \<le> n \<and> n \<le> 126 then [c]
      else [CHR 0x5C, CHR ''u'', CHR ''0'', CHR ''0'', hex_digit (n div 16), hex_digit (n mod 16)])"

definition encode_string :: "string \<Rightarrow> string" where
  "encode_string s = CHR 0x22 # concat (map escape_char s) @ [CHR 0x22]"

fun nat_repr :: "nat \<Rightarrow> string" where
  "nat_repr n = (if n < 10 then [char_of (48 + n)] else nat_repr (n div 10) @ [char_of (48 + n mod 10)])"

declare nat_repr.simps [simp del]

definition int_repr :: "int \<Rightarrow> string" where
  "int_repr i = (if i < 0 then CHR ''-'' # nat_repr (nat (- i)) else nat_repr (nat i))"

fun join_with :: "string \<Rightarrow> string list \<Rightarrow> string" where
  "join_with sep [] = []"
| "join_with sep [x] = x"
| "join_with sep (x # y # zs) = x @ sep @ join_with sep (y # zs)"

fun json_dumps :: "jval \<Rightarrow> string" where
  "json_dumps JNull = ''null''"
| "json_dumps (JBool b) = (if b then ''true'' else ''false'')"
| "json_dumps (JInt i) = int_repr i"
| "json_dumps (JStr s) = encode_string s"
| "json_dumps (JArr vs) = CHR ''['' # join_with '', '' (map json_dumps vs) @ '']''"
| "json_dumps (JObj kvs) =
     CHR ''{'' # join_with '', '' (map (\<lambda>(k, v). encode_string k @ '': '' @ json_dumps v) kvs) @ ''}''"

section \<open>Decoder: json.loads\<close>

definition json_ws :: "char \<Rightarrow> bool" where
  "json_ws c \<longleftrightarrow> c \<in> {CHR '' '', CHR 0x09, CHR 0x0A, CHR 0x0D}"

definition skip_ws :: "string \<Rightarrow> string" where
  "skip_ws s = dropWhile json_ws s"

definition hex_val :: "char \<Rightarrow> nat option" where
  "hex_val c =
     (let n = of_char c :: nat in
      if 48 \<le> n \<and> n \<le> 57 then Some (n - 48)
      else if 97 \<le> n \<and> n \<le> 102 then Some (n - 87)
      else if 65 \<le> n \<and> n \<le> 70 then Some (n - 55) else None)"

definition hex4 :: "char \<Rightarrow> char \<Rightarrow> char \<Rightarrow> char \<Rightarrow> nat option" where
  "hex4 a b c d =
     (case (hex_val a, hex_val b, hex_val c, hex_val d) of
        (Some w, Some x, Some y, Some z) \<Rightarrow> Some (((w * 16 + x) * 16 + y) * 16 + z)
      | _ \<Rightarrow> None)"

text \<open>The simple escapes of \<open>BACKSLASH\<close> in \<open>json.decoder\<close>.\<close>

definition unescape :: "char \<Rightarrow> char option" where
  "unescape e =
     (let n = of_char e :: nat in
      if n = 34 \<or> n = 92 \<or> n = 47 then Some e
      else if e = CHR ''b'' then Some (CHR 0x08)
      else if e = CHR ''f'' then Some (CHR 0x0C)
      else if e = CHR ''n'' then Some (CHR 0x0A)
      else if e = CHR ''r'' then Some (CHR 0x0D)
      else if e = CHR ''t'' then Some (CHR 0x09) else None)"

text \<open>\<open>py_scanstring\<close> (strict): the characters after the opening quote up to the
  closing one; a raw control character is an error.\<close>

fun parse_string :: "string \<Rightarrow> string \<Rightarrow> (string \<times> string) option" where
  "parse_string acc [] = None"
| "parse_string acc (c # cs) =
     (if c = CHR 0x22 then Some (rev acc, cs)
      else if c = CHR 0x5C then
        (case cs of
           [] \<Rightarrow> None
         | e # cs' \<Rightarrow>
             if e = CHR ''u'' then
               (case cs' of
                  a # b # c' # d # rest \<Rightarrow>
                    (case hex4 a b c' d of
                       Some n \<Rightarrow> if n < 256 then parse_string (char_of n # acc) rest else None
                     | None \<Rightarrow> None)
                | _ \<Rightarrow> None)
             else (case unescape e of Some u \<Rightarrow> parse_string (u # acc) cs' | None \<Rightarrow> None))
      else if (of_char c :: nat) < 32 then None
      else parse_string (c # acc) cs)"

definition is_digit :: "char \<Rightarrow> bool" where
  "is_digit c \<longleftrightarrow> digit_val c \<noteq> None"

definition digits_value :: "string \<Rightarrow> nat" where
  "digits_value ds = foldl (\<lambda>acc c. 10 * acc + (of_char c - 48)) 0 ds"

text \<open>\<open>NUMBER_RE\<close>: \<open>-?(0|[1-9][0-9]*)\<close>; a following fraction or exponent makes a
  \<open>float\<close>, which is not modelled.\<close>

definition parse_int_part :: "string \<Rightarrow> (nat \<times> string) option" where
  "parse_int_part r =
     (let ds = takeWhile is_digit r;
          ip = (if ds \<noteq> [] \<and> hd ds = CHR ''0'' then [CHR ''0''] else ds);
          rest = drop (length ip) r
      in if ip = [] then None
         else if rest \<noteq> [] \<and> hd rest \<in> {CHR ''.'', CHR ''e'', CHR ''E''} then None
         else Some (digits_value ip, rest))"

definition parse_number :: "string \<Rightarrow> (jval \<times> string) option" where
  "parse_number cs =
     (if cs \<noteq> [] \<and> hd cs = CHR ''-'' then map_option (\<lambda>(n, r). (JInt (- int n), r)) (parse_int_part (tl cs))
      else map_option (\<lambda>(n, r). (JInt (int n), r)) (parse_int_part cs))"

fun parse_value :: "nat \<Rightarrow> string \<Rightarrow> (jval \<times> string) option"
and parse_elems :: "nat \<Rightarrow> jval list \<Rightarrow> string \<Rightarrow> (jval list \<times> string) option"
and parse_members :: "nat \<Rightarrow> (string \<times> jval) list \<Rightarrow> string \<Rightarrow> ((string \<times> jval) list \<times> string) option"
where
  "parse_value 0 cs = None"
| "parse_value (Suc n) cs =
     (case skip_ws cs of
        [] \<Rightarrow> None
      | c # r \<Rightarrow>
          if c = CHR ''n'' \<and> take 3 r = ''ull'' then Some (JNull, drop 3 r)
          else if c = CHR ''t'' \<and> take 3 r = ''rue'' then Some (JBool True, drop 3 r)
          else if c = CHR ''f'' \<and> take 4 r = ''alse'' then Some (JBool False, drop 4 r)
          else if c = CHR 0x22 then map_option (\<lambda>(s, r'). (JStr s, r')) (parse_string [] r)
          else if c = CHR ''['' then
            (case skip_ws r of
               c' # r' \<Rightarrow> if c' = CHR '']'' then Some (JArr [], r')
                          else map_option (\<lambda>(vs, r''). (JArr vs, r'')) (parse_elems n [] r)
             | [] \<Rightarrow> None)
          else if c = CHR ''{'' then
            (case skip_ws r of
               c' # r' \<Rightarrow> if c' = CHR ''}'' then Some (JObj [], r')
                          else map_option (\<lambda>(kvs, r''). (JObj kvs, r'')) (parse_members n [] r)
             | [] \<Rightarrow> None)
          else if c = CHR ''-'' \<or> is_digit c then parse_number (c # r)
          else None)"
| "parse_elems 0 acc cs = None"
| "parse_elems (Suc n) acc cs =
     (case parse_value n cs of
        None \<Rightarrow> None
      | Some (v, r) \<Rightarrow>
          (case skip_ws r of
             [] \<Rightarrow> None
           | c # r' \<Rightarrow>
               if c = CHR '','' then parse_elems n (v # acc) r'
               else if c = CHR '']'' then Some (rev (v # acc), r')
               else None))"
| "parse_members 0 acc cs = None"
| "parse_members (Suc n) acc cs =
     (case skip_ws cs of
        c # r \<Rightarrow>
          if c \<noteq> CHR 0x22 then None
          else (case parse_string [] r of
                  None \<Rightarrow> None
                | Some (k, r2) \<Rightarrow>
                    (case skip_ws r2 of
                       c2 # r3 \<Rightarrow>
                         if c2 \<noteq> CHR '':'' then None
                         else (case parse_value n r3 of
                                 None \<Rightarrow> None
                               | Some (v, r4) \<Rightarrow>
                                   (case skip_ws r4 of
                                      c4 # r5 \<Rightarrow>
                                        if c4 = CHR '','' then parse_members n ((k, v) # acc) r5
                                        else if c4 = CHR ''}'' then Some (rev ((k, v) # acc), r5)
                                        else None
                                    | [] \<Rightarrow> None))
                     | [] \<Rightarrow> None))
      | [] \<Rightarrow> None)"

text \<open>What may follow a value inside a container or at the end of the text.\<close>

definition json_delim :: "string \<Rightarrow> bool" where
  "json_delim r \<longleftrightarrow> r = [] \<or> hd r \<in> {CHR '','', CHR '']'', CHR ''}''}"

definition json_loads :: "string \<Rightarrow> jval option" where
  "json_loads s =
     (case parse_value (Suc (length s)) s of
        Some (v, r) \<Rightarrow> if skip_ws r = [] then Some v else None
      | None \<Rightarrow> None)"

section \<open>Lemmas\<close>

lemma char_eq_via_of_char: "c = d \<longleftrightarrow> (of_char c :: nat) = of_char d"
  by simp

lemma of_char_lt_256: "(of_char c :: nat) < 256"
  using of_char_mod_256 [of c] by (metis mod_less_divisor zero_less_numeral)

lemma is_digit_iff: "is_digit c \<longleftrightarrow> 48 \<le> (of_char c :: nat) \<and> (of_char c :: nat) \<le> 57"
  by (simp add: is_digit_def digit_val_def Let_def)

lemma of_char_digit [simp]: "n < 10 \<Longrightarrow> (of_char (char_of (48 + n)) :: nat) = 48 + n"
  by simp

lemma nat_repr_ne [simp]: "nat_repr n \<noteq> []"
  by (induction n rule: nat_repr.induct) (subst nat_repr.simps, simp)

lemma nat_repr_digits: "c \<in> set (nat_repr n) \<Longrightarrow> is_digit c"
proof (induction n rule: nat_repr.induct)
  case (1 n)
  show ?case
  proof (cases "n < 10")
    case True
    with "1.prems" show ?thesis by (simp add: nat_repr.simps [of n] is_digit_iff)
  next
    case False
    with "1.prems" "1.IH" show ?thesis by (auto simp: nat_repr.simps [of n] is_digit_iff)
  qed
qed

lemma hd_nat_repr: "0 < n \<Longrightarrow> hd (nat_repr n) \<noteq> CHR ''0''"
proof (induction n rule: nat_repr.induct)
  case (1 n)
  show ?case
  proof (cases "n < 10")
    case True
    with "1.prems" show ?thesis by (simp add: nat_repr.simps [of n] char_eq_via_of_char)
  next
    case False
    then have "0 < n div 10" by simp
    with False "1.IH" show ?thesis by (simp add: nat_repr.simps [of n])
  qed
qed

lemma digits_value_snoc: "digits_value (xs @ [c]) = 10 * digits_value xs + (of_char c - 48)"
  by (simp add: digits_value_def)

lemma digits_value_nat_repr: "digits_value (nat_repr n) = n"
proof (induction n rule: nat_repr.induct)
  case (1 n)
  show ?case
  proof (cases "n < 10")
    case True
    then show ?thesis by (simp add: nat_repr.simps [of n] digits_value_def)
  next
    case False
    with "1.IH" show ?thesis by (simp add: nat_repr.simps [of n] digits_value_snoc)
  qed
qed

lemma takeWhile_digits_nat_repr:
  "json_delim rest \<Longrightarrow> takeWhile is_digit (nat_repr n @ rest) = nat_repr n"
  using nat_repr_digits [of _ n]
  by (cases rest) (auto simp: json_delim_def takeWhile_append2 is_digit_iff)

lemma parse_int_part_digits:
  assumes z: "hd ds = CHR ''0'' \<Longrightarrow> ds = [CHR ''0'']" and ne: "ds \<noteq> []"
    and tw: "takeWhile is_digit (ds @ rest) = ds" and d: "json_delim rest"
  shows "parse_int_part (ds @ rest) = Some (digits_value ds, rest)"
proof -
  have ip: "(if ds \<noteq> [] \<and> hd ds = CHR ''0'' then [CHR ''0''] else ds) = ds"
    using z by auto
  have nr: "\<not> (rest \<noteq> [] \<and> hd rest \<in> {CHR ''.'', CHR ''e'', CHR ''E''})"
    using d by (auto simp: json_delim_def)
  show ?thesis
    unfolding parse_int_part_def Let_def tw ip using ne nr by simp
qed

lemma parse_number_int_repr:
  assumes "json_delim rest"
  shows "parse_number (int_repr i @ rest) = Some (JInt i, rest)"
proof -
  let ?ds = "nat_repr (nat \<bar>i\<bar>)"
  have z: "hd ?ds = CHR ''0'' \<Longrightarrow> ?ds = [CHR ''0'']"
    using hd_nat_repr [of "nat \<bar>i\<bar>"] by (cases "nat \<bar>i\<bar> = 0") (simp_all add: nat_repr.simps [of 0])
  have p: "parse_int_part (?ds @ rest) = Some (nat \<bar>i\<bar>, rest)"
    using parse_int_part_digits [OF z nat_repr_ne takeWhile_digits_nat_repr [OF assms] assms]
    by (simp add: digits_value_nat_repr)
  have h: "hd (?ds @ rest) \<noteq> CHR ''-''"
    using nat_repr_digits [of "hd ?ds" "nat \<bar>i\<bar>"] by (auto simp: is_digit_iff)
  show ?thesis
    using p h by (cases "i < 0") (auto simp: int_repr_def parse_number_def)
qed

lemma hex_val_hex_digit: "k < 16 \<Longrightarrow> hex_val (hex_digit k) = Some k"
  by (simp add: hex_val_def hex_digit_def Let_def)

lemma hex_val_zero: "hex_val (CHR ''0'') = Some 0"
  by (simp add: hex_val_def)

lemma hex4_escape: "n < 256 \<Longrightarrow> hex4 (CHR ''0'') (CHR ''0'') (hex_digit (n div 16)) (hex_digit (n mod 16)) = Some n"
  by (simp add: hex4_def hex_val_hex_digit hex_val_zero)

lemma char_of_escaped:
  "char_of (34::nat) = CHR 0x22" "char_of (92::nat) = CHR 0x5C" "char_of (8::nat) = CHR 0x08"
  "char_of (12::nat) = CHR 0x0C" "char_of (10::nat) = CHR 0x0A" "char_of (13::nat) = CHR 0x0D"
  "char_of (9::nat) = CHR 0x09"
  by (simp_all add: char_eq_via_of_char del: of_char_eq_iff)

lemma parse_string_escape_char:
  "parse_string acc (escape_char c @ r) = parse_string (c # acc) r"
proof -
  define n where "n = (of_char c :: nat)"
  have c: "c = char_of n" by (simp add: n_def)
  have n256: "n < 256" using of_char_lt_256 by (simp add: n_def)
  consider "n = 34" | "n = 92" | "n = 8" | "n = 12" | "n = 10" | "n = 13" | "n = 9"
    | "n \<notin> {34, 92, 8, 12, 10, 13, 9}" "32 \<le> n" "n \<le> 126"
    | "n \<notin> {34, 92, 8, 12, 10, 13, 9}" "\<not> (32 \<le> n \<and> n \<le> 126)"
    by blast
  then show ?thesis
  proof cases
    case 8
    then show ?thesis
      using n256 by (simp add: c escape_char_def char_eq_via_of_char del: of_char_eq_iff)
  next
    case 9
    then show ?thesis
      using n256 hex4_escape [OF n256]
      by (simp add: c escape_char_def char_eq_via_of_char del: of_char_eq_iff)
  qed (simp_all add: c escape_char_def unescape_def char_eq_via_of_char char_of_escaped del: of_char_eq_iff)
qed

lemma parse_string_encode:
  "parse_string acc (concat (map escape_char s) @ CHR 0x22 # rest) = Some (rev acc @ s, rest)"
  by (induction s arbitrary: acc) (simp_all add: parse_string_escape_char)

lemma skip_ws_ws: "json_ws c \<Longrightarrow> skip_ws (c # X) = skip_ws X"
  by (simp add: skip_ws_def)

lemma skip_ws_non_ws: "\<not> json_ws c \<Longrightarrow> skip_ws (c # X) = c # X"
  by (simp add: skip_ws_def)

lemma parse_value_ws: "json_ws c \<Longrightarrow> parse_value n (c # X) = parse_value n X"
  by (cases n) (simp_all add: skip_ws_ws)

lemma parse_elems_ws: "json_ws c \<Longrightarrow> parse_elems n acc (c # X) = parse_elems n acc X"
  by (cases n) (simp_all add: parse_value_ws)

lemma parse_members_ws: "json_ws c \<Longrightarrow> parse_members n acc (c # X) = parse_members n acc X"
  by (cases n) (simp_all add: skip_ws_ws)

lemma json_dumps_ne: "json_dumps v \<noteq> []"
  by (cases v) (simp_all add: int_repr_def encode_string_def)

lemma hd_int_repr: "hd (int_repr i) = CHR ''-'' \<or> is_digit (hd (int_repr i))"
  using nat_repr_digits [of "hd (nat_repr (nat i))" "nat i"] by (auto simp: int_repr_def)

lemma hd_json_dumps:
  "hd (json_dumps v) \<in> {CHR ''n'', CHR ''t'', CHR ''f'', CHR 0x22, CHR ''['', CHR ''{''} \<or>
   hd (json_dumps v) = CHR ''-'' \<or> is_digit (hd (json_dumps v))"
  using hd_int_repr by (cases v) (auto simp: encode_string_def)

lemma hd_json_dumps_not:
  "\<not> json_ws (hd (json_dumps v)) \<and> hd (json_dumps v) \<noteq> CHR '']'' \<and> hd (json_dumps v) \<noteq> CHR ''}''"
  using hd_json_dumps [of v]
  by (auto simp: json_ws_def is_digit_iff char_eq_via_of_char del: of_char_eq_iff)

lemma json_dumps_Cons: "\<exists>c r. json_dumps v = c # r \<and> c = hd (json_dumps v)"
  using json_dumps_ne [of v] by (cases "json_dumps v") auto

lemma parse_value_number:
  "c = CHR ''-'' \<or> is_digit c \<Longrightarrow> parse_value (Suc m) (c # r) = parse_number (c # r)"
  by (auto simp: skip_ws_def json_ws_def is_digit_iff char_eq_via_of_char del: of_char_eq_iff)

lemma skip_ws_json_dumps: "skip_ws (json_dumps v @ X) = json_dumps v @ X"
proof (cases "json_dumps v")
  case Nil
  then show ?thesis using json_dumps_ne by simp
next
  case (Cons c r)
  then show ?thesis using hd_json_dumps_not [of v] by (simp add: skip_ws_non_ws)
qed

lemma parse_elems_join:
  assumes IH: "\<And>w n rest. w \<in> set vs \<Longrightarrow> length (json_dumps w) < n \<Longrightarrow> json_delim rest \<Longrightarrow>
                 parse_value n (json_dumps w @ rest) = Some (w, rest)"
    and ne: "vs \<noteq> []" and len: "Suc (length (join_with '', '' (map json_dumps vs))) < n"
  shows "parse_elems n acc (join_with '', '' (map json_dumps vs) @ CHR '']'' # rest) = Some (rev acc @ vs, rest)"
  using IH ne len
proof (induction vs arbitrary: acc n rule: induct_list012)
  case 1
  then show ?case by simp
next
  case (2 w)
  obtain m where n: "n = Suc m" using "2.prems"(3) by (cases n) auto
  have "parse_value m (json_dumps w @ CHR '']'' # rest) = Some (w, CHR '']'' # rest)"
    using "2.prems"(1) [of w m "CHR '']'' # rest"] "2.prems"(3) n by (simp add: json_delim_def)
  then show ?case by (simp add: n skip_ws_non_ws json_ws_def)
next
  case (3 w y zs)
  obtain m where n: "n = Suc m" using "3.prems"(3) by (cases n) auto
  let ?tl = "join_with '', '' (map json_dumps (y # zs)) @ CHR '']'' # rest"
  have pv: "parse_value m (json_dumps w @ CHR '','' # CHR '' '' # ?tl) = Some (w, CHR '','' # CHR '' '' # ?tl)"
    using "3.prems"(1) [of w m "CHR '','' # CHR '' '' # ?tl"] "3.prems"(3) n by (simp add: json_delim_def)
  have "parse_elems m (w # acc) ?tl = Some (rev (w # acc) @ y # zs, rest)"
    using "3.IH"(2) [of m "w # acc"] "3.prems" n by simp
  then show ?case
    using pv by (simp add: n skip_ws_non_ws json_ws_def parse_elems_ws)
qed

lemma join_with_Cons:
  "join_with sep (x # xs) = x @ (if xs = [] then [] else sep @ join_with sep xs)"
  by (cases xs) simp_all

lemma encode_string_append:
  "encode_string k @ X = CHR 0x22 # concat (map escape_char k) @ CHR 0x22 # X"
  by (simp add: encode_string_def)

lemma parse_member_step:
  assumes pv: "parse_value m (json_dumps w @ T) = Some (w, T)"
  shows "parse_members (Suc m) acc (encode_string k @ '': '' @ json_dumps w @ T) =
           (case skip_ws T of
              c4 # r5 \<Rightarrow> if c4 = CHR '','' then parse_members m ((k, w) # acc) r5
                         else if c4 = CHR ''}'' then Some (rev ((k, w) # acc), r5) else None
            | [] \<Rightarrow> None)"
proof -
  have ps: "parse_string [] (concat (map escape_char k) @ CHR 0x22 # '': '' @ json_dumps w @ T) =
            Some (k, '': '' @ json_dumps w @ T)"
    using parse_string_encode [of "[]" k] by simp
  have "parse_value m (CHR '' '' # json_dumps w @ T) = Some (w, T)"
    using pv by (simp add: parse_value_ws json_ws_def)
  then show ?thesis
    using ps by (simp add: encode_string_append skip_ws_non_ws json_ws_def)
qed

lemma parse_members_join:
  assumes IH: "\<And>k w n rest. (k, w) \<in> set kvs \<Longrightarrow> length (json_dumps w) < n \<Longrightarrow> json_delim rest \<Longrightarrow>
                 parse_value n (json_dumps w @ rest) = Some (w, rest)"
    and ne: "kvs \<noteq> []"
    and len: "Suc (length (join_with '', '' (map (\<lambda>(k, v). encode_string k @ '': '' @ json_dumps v) kvs))) < n"
  shows "parse_members n acc (join_with '', '' (map (\<lambda>(k, v). encode_string k @ '': '' @ json_dumps v) kvs)
            @ CHR ''}'' # rest) = Some (rev acc @ kvs, rest)"
  using IH ne len
proof (induction kvs arbitrary: acc n rule: induct_list012)
  case 1
  then show ?case by simp
next
  case (2 kw)
  obtain k w where kw: "kw = (k, w)" by fastforce
  obtain m where n: "n = Suc m" using "2.prems"(3) by (cases n) auto
  have "parse_value m (json_dumps w @ CHR ''}'' # rest) = Some (w, CHR ''}'' # rest)"
    using "2.prems"(1) [of k w m "CHR ''}'' # rest"] "2.prems"(3) n kw by (simp add: json_delim_def)
  from parse_member_step [OF this, of acc k] show ?case
    by (simp add: n kw skip_ws_non_ws json_ws_def)
next
  case (3 kw y zs)
  obtain k w where kw: "kw = (k, w)" by fastforce
  obtain m where n: "n = Suc m" using "3.prems"(3) by (cases n) auto
  let ?tl = "join_with '', '' (map (\<lambda>(k, v). encode_string k @ '': '' @ json_dumps v) (y # zs)) @ CHR ''}'' # rest"
  have "parse_value m (json_dumps w @ CHR '','' # CHR '' '' # ?tl) = Some (w, CHR '','' # CHR '' '' # ?tl)"
    using "3.prems"(1) [of k w m "CHR '','' # CHR '' '' # ?tl"] "3.prems"(3) n kw by (simp add: json_delim_def)
  note step = parse_member_step [OF this, of acc k]
  have ih: "\<And>k' w' n' rest'. (k', w') \<in> set (y # zs) \<Longrightarrow> length (json_dumps w') < n' \<Longrightarrow>
              json_delim rest' \<Longrightarrow> parse_value n' (json_dumps w' @ rest') = Some (w', rest')"
    by (rule "3.prems"(1)) auto
  have len2: "Suc (length (join_with '', '' (map (\<lambda>(k, v). encode_string k @ '': '' @ json_dumps v) (y # zs)))) < m"
    using "3.prems"(3) n kw by simp
  have "parse_members m ((k, w) # acc) ?tl = Some (rev ((k, w) # acc) @ y # zs, rest)"
    using "3.IH"(2) [where acc = "(k, w) # acc" and n = m, OF ih _ len2] by simp
  then show ?case
    using step by (simp add: n kw skip_ws_non_ws json_ws_def parse_members_ws)
qed

lemma parse_value_json_dumps:
  "length (json_dumps v) < n \<Longrightarrow> json_delim rest \<Longrightarrow> parse_value n (json_dumps v @ rest) = Some (v, rest)"
proof (induction v arbitrary: n rest)
  case JNull
  then obtain m where "n = Suc m" by (cases n) auto
  then show ?case by (simp add: skip_ws_def json_ws_def)
next
  case (JBool b)
  then obtain m where "n = Suc m" by (cases n) auto
  then show ?case by (cases b) (simp_all add: skip_ws_def json_ws_def)
next
  case (JInt i)
  then obtain m where n: "n = Suc m" by (cases n) auto
  obtain c r where cr: "int_repr i = c # r"
    using json_dumps_ne [of "JInt i"] by (cases "int_repr i") auto
  have "c = CHR ''-'' \<or> is_digit c" using hd_int_repr [of i] cr by simp
  then have "parse_value n (int_repr i @ rest) = parse_number (int_repr i @ rest)"
    unfolding n cr append_Cons by (rule parse_value_number)
  then show ?case using parse_number_int_repr [OF JInt.prems(2)] by simp
next
  case (JStr s)
  then obtain m where "n = Suc m" by (cases n) auto
  then show ?case
    using parse_string_encode [of "[]" s rest] by (simp add: encode_string_def skip_ws_def json_ws_def)
next
  case (JArr vs)
  then obtain m where n: "n = Suc m" by (cases n) auto
  show ?case
  proof (cases vs)
    case Nil
    then show ?thesis by (simp add: n skip_ws_def json_ws_def)
  next
    case (Cons w ws)
    let ?j = "join_with '', '' (map json_dumps vs)"
    have start: "skip_ws (?j @ CHR '']'' # rest) = ?j @ CHR '']'' # rest \<and> hd (?j @ CHR '']'' # rest) \<noteq> CHR '']''"
      using Cons skip_ws_json_dumps [of w] hd_json_dumps_not [of w] json_dumps_ne [of w]
      by (simp add: join_with_Cons)
    have el: "parse_elems m [] (?j @ CHR '']'' # rest) = Some (vs, rest)"
      using parse_elems_join [of vs m "[]" rest] JArr.IH JArr.prems Cons n by simp
    obtain c r where "?j @ CHR '']'' # rest = c # r"
      by (cases "?j @ CHR '']'' # rest") auto
    then show ?thesis
      using start el by (simp add: n skip_ws_non_ws json_ws_def)
  qed
next
  case (JObj kvs)
  then obtain m where n: "n = Suc m" by (cases n) auto
  show ?case
  proof (cases kvs)
    case Nil
    then show ?thesis by (simp add: n skip_ws_def json_ws_def)
  next
    case (Cons kw ws)
    obtain k w where kw: "kw = (k, w)" by fastforce
    let ?j = "join_with '', '' (map (\<lambda>(k, v). encode_string k @ '': '' @ json_dumps v) kvs)"
    have start: "skip_ws (?j @ CHR ''}'' # rest) = ?j @ CHR ''}'' # rest \<and> hd (?j @ CHR ''}'' # rest) \<noteq> CHR ''}''"
      using Cons kw by (simp add: join_with_Cons encode_string_def skip_ws_non_ws json_ws_def)
    have ih: "\<And>k w n rest. (k, w) \<in> set kvs \<Longrightarrow> length (json_dumps w) < n \<Longrightarrow> json_delim rest \<Longrightarrow>
                 parse_value n (json_dumps w @ rest) = Some (w, rest)"
      using JObj.IH by fastforce
    have el: "parse_members m [] (?j @ CHR ''}'' # rest) = Some (kvs, rest)"
      using parse_members_join [where kvs = kvs and n = m and acc = "[]" and rest = rest, OF ih] JObj.prems Cons n by simp
    obtain c r where "?j @ CHR ''}'' # rest = c # r"
      by (cases "?j @ CHR ''}'' # rest") auto
    then show ?thesis
      using start el by (simp add: n skip_ws_non_ws json_ws_def)
  qed
qed

text \<open>\<open>json.loads\<close> inverts \<open>json.dumps\<close>: every JSON value the code writes
  (the badge list of \<open>add_badge\<close>) is read back unchanged by \<open>get_badges\<close>.\<close>

theorem json_loads_dumps: "json_loads (json_dumps v) = Some v"
  using parse_value_json_dumps [of v "Suc (length (json_dumps v))" "[]"]
  by (simp add: json_loads_def json_delim_def skip_ws_def)

end
