(* ===== verification/Gamification.thy ===== *)
theory Gamification
  imports Models Json
begin

text \<open>
  The gamification row of a user (\<open>Gamification\<close> in app.py, lines 107--142) and
  the handlers of \<open>/api/gamification\<close> (lines 425--583): \<open>get_gamification\<close>,
  \<open>add_xp\<close>, \<open>update_streak\<close>, \<open>award_badge\<close> and \<open>set_mode\<close>. Each
  handler is a body of type \<open>db \<Rightarrow> error + (response \<times> db)\<close> run inside
  \<open>run_tx\<close> (commit on success, rollback on an exception). The row operations
  (\<open>gain_xp\<close>, \<open>streak_step\<close>, \<open>add_badge\<close>) are the statements of the
  handlers that change the row. Badges are stored as the JSON text of a list
  (\<open>badges_earned\<close>) and read back with \<open>json.loads\<close>.
\<close>

section \<open>The row and its methods\<close>

text \<open>The row \<open>Gamification(user=user)\<close> that \<open>register\<close> creates: the column
  defaults.\<close>

definition new_gamification :: "nat \<Rightarrow> nat \<Rightarrow> gamification" where
  "new_gamification gid uid =
     \<lparr>gam_id = gid, gam_user_id = uid, xp = 0, level = 1, streak = 0, total_minutes_studied = 0,
      last_study_date = None, badges_earned = ''[]'', current_mode = ''normal''\<rparr>"

text \<open>\<open>get_badges\<close>: \<open>json.loads(self.badges_earned) if self.badges_earned else []\<close>;
  a text that does not decode raises \<open>JSONDecodeError\<close>, a \<open>ValueError\<close>.\<close>

definition get_badges :: "gamification \<Rightarrow> error + jval" where
  "get_badges g =
     (if badges_earned g = [] then Inr (JArr [])
      else (case json_loads (badges_earned g) of
              None \<Rightarrow> Inl (Server_error ValueError)
            | Some v \<Rightarrow> Inr v))"

text \<open>\<open>add_badge\<close>: \<open>badges = self.get_badges()\<close>; if the badge is not in it,
  \<open>badges.append(badge_id)\<close> (only a list has \<open>append\<close>) and
  \<open>self.badges_earned = json.dumps(badges)\<close>.\<close>

definition add_badge :: "jval \<Rightarrow> gamification \<Rightarrow> error + gamification" where
  "add_badge b g =
     (case get_badges g of
        Inl e \<Rightarrow> Inl e
      | Inr c \<Rightarrow>
          (case py_contains b c of
             Inl e \<Rightarrow> Inl e
           | Inr True \<Rightarrow> Inr g
           | Inr False \<Rightarrow>
               (case c of
                  JArr bs \<Rightarrow> Inr (g\<lparr>badges_earned := json_dumps (JArr (bs @ [b]))\<rparr>)
                | _ \<Rightarrow> Inl (Server_error AttributeError))))"

text \<open>\<open>add_xp\<close>: \<open>gamif.xp += xp_earned\<close>, \<open>new_level = gamif.xp // 100 + 1\<close>,
  \<open>leveled_up = new_level > gamif.level\<close>, \<open>gamif.level = new_level\<close>.\<close>

definition gain_xp :: "int \<Rightarrow> gamification \<Rightarrow> bool \<times> gamification" where
  "gain_xp earned g =
     (let total = xp g + earned; new_level = total div 100 + 1
      in (level g < new_level, g\<lparr>xp := total, level := new_level\<rparr>))"

text \<open>\<open>update_streak\<close>: \<open>today = datetime.utcnow().date()\<close>; a last study date on
  the same day is the early return \<open>None\<close> (no change, no commit); the next day
  continues the streak (\<open>streak += 1\<close>); any other date, or no date, restarts it
  (\<open>streak = 1\<close>); then \<open>last_study_date = datetime.utcnow()\<close>, a second reading of
  the clock (\<open>stamp\<close>).\<close>

definition streak_step :: "datetime \<Rightarrow> datetime \<Rightarrow> gamification \<Rightarrow> gamification option" where
  "streak_step now stamp g =
     (let today = date_of now in
      case last_study_date g of
        Some prev \<Rightarrow>
          if date_of prev = today then None
          else if today - date_of prev = 1
          then Some (g\<lparr>streak := streak g + 1, last_study_date := Some stamp\<rparr>)
          else Some (g\<lparr>streak := 1, last_study_date := Some stamp\<rparr>)
      | None \<Rightarrow> Some (g\<lparr>streak := 1, last_study_date := Some stamp\<rparr>))"

section \<open>The handlers\<close>

text \<open>Every gamification handler starts with
  \<open>if not user or not user.gamification: return 404\<close>. A changed row is written
  back to the user's row of the table (\<open>store\<close>), which \<open>commit\<close> makes
  durable.\<close>

definition with_gamification ::
  "string \<Rightarrow> string \<Rightarrow> db \<Rightarrow> (user \<Rightarrow> gamification \<Rightarrow> error + ('a \<times> db)) \<Rightarrow> error + ('a \<times> db)" where
  "with_gamification msg e s k =
     (case find_user s e of
        None \<Rightarrow> Inl (Client_error 404 msg)
      | Some u \<Rightarrow> (case user_gamification s u of
                     None \<Rightarrow> Inl (Client_error 404 msg)
                   | Some g \<Rightarrow> k u g))"

definition store :: "user \<Rightarrow> gamification \<Rightarrow> db \<Rightarrow> db" where
  "store u g' = put_gamification (user_id u) (\<lambda>_. g')"

text \<open>\<open>GET /api/gamification\<close>: \<open>to_dict\<close> of the row, whose \<open>get_badges\<close> may
  raise; read only.\<close>

definition get_gamification_body :: "string \<Rightarrow> db \<Rightarrow> error + ((gamification \<times> jval) \<times> db)" where
  "get_gamification_body e s =
     with_gamification ''Gamification data not found'' e s (\<lambda>u g.
       (case get_badges g of Inl err \<Rightarrow> Inl err | Inr bs \<Rightarrow> Inr ((g, bs), s)))"

definition get_gamification :: "string \<Rightarrow> db \<Rightarrow> (error + (gamification \<times> jval)) \<times> db" where
  "get_gamification e = run_tx (get_gamification_body e)"

record xp_response =
  xp_earned :: int
  total_xp :: int
  xp_level :: int
  leveled_up :: bool

text \<open>\<open>POST /api/gamification/xp\<close>: the commit binds the changed \<open>xp\<close> and
  \<open>level\<close>, each within 64 bits.\<close>

definition add_xp_body :: "string \<Rightarrow> jval \<Rightarrow> db \<Rightarrow> error + (xp_response \<times> db)" where
  "add_xp_body e data s =
     with_gamification ''User not found'' e s (\<lambda>u g.
       (case req_get_default data ''xp'' (JInt 0) of
          Inl err \<Rightarrow> Inl err
        | Inr v \<Rightarrow>
            (case py_int v of
               Inl err \<Rightarrow> Inl err
             | Inr earned \<Rightarrow>
                 (case gain_xp earned g of (up, g') \<Rightarrow>
                    sbind (sql_int (xp g')) (\<lambda>_. sbind (sql_int (level g')) (\<lambda>_.
                    Inr (\<lparr>xp_earned = earned, total_xp = xp g', xp_level = level g', leveled_up = up\<rparr>,
                         store u g' s)))))))"

definition add_xp :: "string \<Rightarrow> jval \<Rightarrow> db \<Rightarrow> (error + xp_response) \<times> db" where
  "add_xp e data = run_tx (add_xp_body e data)"

datatype streak_response = Already_today int | Streak int

text \<open>\<open>POST /api/gamification/streak\<close>; the early return answers 200 without a
  commit, so the database is unchanged.\<close>

definition update_streak_body ::
  "datetime \<Rightarrow> datetime \<Rightarrow> string \<Rightarrow> db \<Rightarrow> error + (streak_response \<times> db)" where
  "update_streak_body now stamp e s =
     with_gamification ''User not found'' e s (\<lambda>u g.
       (case streak_step now stamp g of
          None \<Rightarrow> Inr (Already_today (streak g), s)
        | Some g' \<Rightarrow> Inr (Streak (streak g'), store u g' s)))"

definition update_streak ::
  "datetime \<Rightarrow> datetime \<Rightarrow> string \<Rightarrow> db \<Rightarrow> (error + streak_response) \<times> db" where
  "update_streak now stamp e = run_tx (update_streak_body now stamp e)"

text \<open>\<open>POST /api/gamification/badges\<close>: \<open>badge_id = data.get('badge_id')\<close>,
  \<open>if not badge_id: return 400\<close>, \<open>add_badge\<close>, commit, and the badges read back.\<close>

definition award_badge_body :: "string \<Rightarrow> jval \<Rightarrow> db \<Rightarrow> error + (jval \<times> db)" where
  "award_badge_body e data s =
     with_gamification ''User not found'' e s (\<lambda>u g.
       (case req_get data ''badge_id'' of
          Inl err \<Rightarrow> Inl err
        | Inr None \<Rightarrow> Inl (Client_error 400 ''Badge ID required'')
        | Inr (Some b) \<Rightarrow>
            if \<not> truthy b then Inl (Client_error 400 ''Badge ID required'')
            else (case add_badge b g of
                    Inl err \<Rightarrow> Inl err
                  | Inr g' \<Rightarrow>
                      (case get_badges g' of
                         Inl err \<Rightarrow> Inl err
                       | Inr bs \<Rightarrow> Inr (bs, store u g' s)))))"

definition award_badge :: "string \<Rightarrow> jval \<Rightarrow> db \<Rightarrow> (error + jval) \<times> db" where
  "award_badge e data = run_tx (award_badge_body e data)"

text \<open>\<open>POST /api/gamification/mode\<close>: \<open>mode = data.get('mode', 'normal')\<close>,
  \<open>if mode not in ['normal', 'exam']: return 400\<close>.\<close>

definition set_mode_body :: "string \<Rightarrow> jval \<Rightarrow> db \<Rightarrow> error + (string \<times> db)" where
  "set_mode_body e data s =
     with_gamification ''User not found'' e s (\<lambda>u g.
       (case req_get_default data ''mode'' (JStr ''normal'') of
          Inl err \<Rightarrow> Inl err
        | Inr (JStr m) \<Rightarrow>
            if m \<in> {''normal'', ''exam''} then Inr (m, store u (g\<lparr>current_mode := m\<rparr>) s)
            else Inl (Client_error 400 ''Invalid mode'')
        | Inr _ \<Rightarrow> Inl (Client_error 400 ''Invalid mode'')))"

definition set_mode :: "string \<Rightarrow> jval \<Rightarrow> db \<Rightarrow> (error + string) \<times> db" where
  "set_mode e data = run_tx (set_mode_body e data)"

section \<open>Requests and the invariant of the rows\<close>

text \<open>The gamification requests, as one datatype with the step they make on the
  database.\<close>

datatype gam_request =
    Req_add_xp string jval
  | Req_update_streak datetime datetime string
  | Req_award_badge string jval
  | Req_set_mode string jval

fun gam_step :: "gam_request \<Rightarrow> db \<Rightarrow> db" where
  "gam_step (Req_add_xp e data) s = snd (add_xp e data s)"
| "gam_step (Req_update_streak now stamp e) s = snd (update_streak now stamp e s)"
| "gam_step (Req_award_badge e data) s = snd (award_badge e data s)"
| "gam_step (Req_set_mode e data) s = snd (set_mode e data s)"

fun gam_run :: "gam_request list \<Rightarrow> db \<Rightarrow> db" where
  "gam_run [] s = s"
| "gam_run (r # rs) s = gam_run rs (gam_step r s)"

text \<open>No two badges of the list are equal in Python's sense.\<close>

fun no_dup_badges :: "jval list \<Rightarrow> bool" where
  "no_dup_badges [] = True"
| "no_dup_badges (b # bs) = (\<not> list_ex (py_eq b) bs \<and> no_dup_badges bs)"

text \<open>
  The invariant of a row: the level is the one \<open>add_xp\<close> computes from the XP; a row
  with a last study date has a streak of at least one, and one without has none; the
  badge column decodes to a list without duplicates; the mode is one of the two that
  \<open>set_mode\<close> accepts.
\<close>

definition gam_inv :: "gamification \<Rightarrow> bool" where
  "gam_inv g \<longleftrightarrow>
     level g = xp g div 100 + 1 \<and>
     (case last_study_date g of None \<Rightarrow> streak g = 0 | Some _ \<Rightarrow> 1 \<le> streak g) \<and>
     (\<exists>bs. json_loads (badges_earned g) = Some (JArr bs) \<and> no_dup_badges bs) \<and>
     current_mode g \<in> {''normal'', ''exam''}"

definition db_gam_inv :: "db \<Rightarrow> bool" where
  "db_gam_inv s \<longleftrightarrow> list_all gam_inv (gamifications s)"

section \<open>Lemmas\<close>

lemma store_other [simp]:
  "users (store u g' s) = users s"
  "subjects (store u g' s) = subjects s"
  by (simp_all add: store_def)

lemma user_gamification_store:
  "user_gamification s u = Some g \<Longrightarrow> gam_user_id g' = user_id u \<Longrightarrow>
   user_gamification (store u g' s) u = Some g'"
  by (simp add: user_gamification_def store_def put_gamification_def find_update_rows_const)

lemma with_gamification_found [simp]:
  "find_user s e = Some u \<Longrightarrow> user_gamification s u = Some g \<Longrightarrow> with_gamification msg e s k = k u g"
  by (simp add: with_gamification_def)

lemma with_gamification_Inr:
  "with_gamification msg e s k = Inr x \<Longrightarrow>
   \<exists>u g. find_user s e = Some u \<and> user_gamification s u = Some g \<and> k u g = Inr x"
  by (auto simp: with_gamification_def split: option.splits)

lemma db_gam_inv_store:
  "db_gam_inv s \<Longrightarrow> gam_inv g' \<Longrightarrow> db_gam_inv (store u g' s)"
  by (auto simp: db_gam_inv_def store_def put_gamification_def list_all_iff
           intro: update_rows_preserves)

lemma gam_inv_found:
  "db_gam_inv s \<Longrightarrow> user_gamification s u = Some g \<Longrightarrow> gam_inv g"
  by (auto simp: db_gam_inv_def list_all_iff dest: user_gamification_in_set)

lemma get_badges_dumps:
  "get_badges (g\<lparr>badges_earned := json_dumps v\<rparr>) = Inr v"
  using parse_value_json_dumps [of v "Suc (length (json_dumps v))" "[]"]
  by (simp add: get_badges_def json_dumps_ne json_loads_def json_delim_def skip_ws_def)

lemma no_dup_badges_snoc:
  "no_dup_badges (bs @ [b]) \<longleftrightarrow> no_dup_badges bs \<and> \<not> list_ex (py_eq b) bs"
  by (induction bs) (auto simp: py_eq_sym)

lemma json_loads_Nil: "json_loads [] = None"
  by (simp add: json_loads_def skip_ws_def)

lemma gam_inv_badges:
  "gam_inv g \<Longrightarrow> \<exists>bs. get_badges g = Inr (JArr bs) \<and> no_dup_badges bs"
  by (auto simp: gam_inv_def get_badges_def json_loads_Nil)

lemma gam_inv_gain_xp: "gam_inv g \<Longrightarrow> gam_inv (snd (gain_xp x g))"
  by (simp add: gam_inv_def gain_xp_def Let_def split: option.splits)

lemma gam_inv_streak_step:
  "gam_inv g \<Longrightarrow> streak_step now stamp g = Some g' \<Longrightarrow> gam_inv g'"
  by (auto simp: gam_inv_def streak_step_def Let_def split: option.splits if_splits)

lemma gam_inv_add_badge:
  assumes "gam_inv g" "add_badge b g = Inr g'"
  shows "gam_inv g'"
proof -
  obtain bs where bs: "get_badges g = Inr (JArr bs)" "no_dup_badges bs"
    using gam_inv_badges [OF assms(1)] by blast
  show ?thesis
  proof (cases "list_ex (py_eq b) bs")
    case True
    then show ?thesis using assms bs by (simp add: add_badge_def)
  next
    case False
    then have "g' = g\<lparr>badges_earned := json_dumps (JArr (bs @ [b]))\<rparr>"
      using assms(2) bs by (simp add: add_badge_def)
    moreover have "json_loads (json_dumps (JArr (bs @ [b]))) = Some (JArr (bs @ [b]))"
      using get_badges_dumps [where g = g and v = "JArr (bs @ [b])"] by (simp add: get_badges_def split: if_splits option.splits)
    ultimately show ?thesis
      using assms(1) bs(2) False by (simp add: gam_inv_def no_dup_badges_snoc split: option.splits)
  qed
qed

lemma gain_xp_snd_inv:
  "gain_xp x g = (up, g') \<Longrightarrow> gam_inv g \<Longrightarrow> gam_inv g'"
  using gam_inv_gain_xp [of g x] by simp

lemma with_gamification_inv:
  assumes "db_gam_inv s" "with_gamification msg e s k = Inr (r, s')"
    and "\<And>u g. gam_inv g \<Longrightarrow> user_gamification s u = Some g \<Longrightarrow> k u g = Inr (r, s') \<Longrightarrow> db_gam_inv s'"
  shows "db_gam_inv s'"
  using assms gam_inv_found by (auto dest!: with_gamification_Inr)

lemma gam_inv_set_mode:
  "gam_inv g \<Longrightarrow> m \<in> {''normal'', ''exam''} \<Longrightarrow> gam_inv (g\<lparr>current_mode := m\<rparr>)"
  by (simp add: gam_inv_def split: option.splits)

lemma add_xp_body_inv:
  assumes inv: "db_gam_inv s" and ok: "add_xp_body e data s = Inr (r, s')"
  shows "db_gam_inv s'"
  using ok unfolding add_xp_body_def
  by (rule with_gamification_inv [OF inv])
     (auto simp: sbind_eq_Inr split: sum.splits prod.splits intro!: db_gam_inv_store [OF inv] dest: gain_xp_snd_inv)

lemma update_streak_body_inv:
  assumes inv: "db_gam_inv s" and ok: "update_streak_body now stamp e s = Inr (r, s')"
  shows "db_gam_inv s'"
  using ok unfolding update_streak_body_def
  by (rule with_gamification_inv [OF inv])
     (insert inv, auto split: option.splits intro!: db_gam_inv_store [OF inv] dest: gam_inv_streak_step)

lemma award_badge_body_inv:
  assumes inv: "db_gam_inv s" and ok: "award_badge_body e data s = Inr (r, s')"
  shows "db_gam_inv s'"
  using ok unfolding award_badge_body_def
  by (rule with_gamification_inv [OF inv])
     (auto split: sum.splits option.splits if_splits intro!: db_gam_inv_store [OF inv] dest: gam_inv_add_badge)

lemma set_mode_body_inv:
  assumes inv: "db_gam_inv s" and ok: "set_mode_body e data s = Inr (r, s')"
  shows "db_gam_inv s'"
  using ok unfolding set_mode_body_def
  by (rule with_gamification_inv [OF inv])
     (auto split: sum.splits jval.splits if_splits intro!: db_gam_inv_store [OF inv] gam_inv_set_mode)

lemma gam_step_inv: "db_gam_inv s \<Longrightarrow> db_gam_inv (gam_step r s)"
  by (cases r) (auto simp: add_xp_def update_streak_def award_badge_def set_mode_def
                     intro: run_tx_preserves add_xp_body_inv update_streak_body_inv
                            award_badge_body_inv set_mode_body_inv)

text \<open>C5. Every sequence of gamification requests (add XP, update the streak, award a badge,
  set the mode), each committed or rolled back, keeps every row's invariant: the level is
  the one the XP gives, the streak is positive exactly when a study date is recorded, the
  badge column decodes to a list without duplicates, and the mode is normal or exam.\<close>

theorem gam_run_preserves_inv: "db_gam_inv s \<Longrightarrow> db_gam_inv (gam_run rs s)"
  by (induction rs arbitrary: s) (auto intro: gam_step_inv)

lemma store_store [simp]: "store u g' (store u g' s) = store u g' s"
  by (simp add: store_def put_gamification_def update_rows_def comp_def)

lemma add_badge_Inr:
  "add_badge b g = Inr g' \<Longrightarrow>
   g' = g \<or> (\<exists>bs. get_badges g = Inr (JArr bs) \<and> \<not> list_ex (py_eq b) bs \<and>
                  g' = g\<lparr>badges_earned := json_dumps (JArr (bs @ [b]))\<rparr>)"
  by (auto simp: add_badge_def simp del: json_dumps.simps split: sum.splits bool.splits jval.splits)

lemma add_badge_idem: "add_badge b g = Inr g' \<Longrightarrow> add_badge b g' = Inr g'"
  by (frule add_badge_Inr)
     (auto simp: add_badge_def get_badges_dumps simp del: json_dumps.simps)

lemma add_badge_owner: "add_badge b g = Inr g' \<Longrightarrow> gam_user_id g' = gam_user_id g"
  by (drule add_badge_Inr) auto

lemma find_user_store [simp]: "find_user (store u g' s) e = find_user s e"
  by (simp add: find_user_def)

text \<open>C29. \<open>add_xp\<close> with a valid amount adds it to the XP, sets the level to
  \<open>xp // 100 + 1\<close>, reports a level-up exactly when that level exceeds the old one,
  and commits the changed row.\<close>

theorem add_xp_success:
  assumes "find_user s e = Some u" "user_gamification s u = Some g"
    and "req_get_default data ''xp'' (JInt 0) = Inr v" "py_int v = Inr x"
    and "in_int64 (xp g + x)"
  shows "add_xp e data s =
           (Inr \<lparr>xp_earned = x, total_xp = xp g + x, xp_level = (xp g + x) div 100 + 1,
                 leveled_up = level g < (xp g + x) div 100 + 1\<rparr>,
            store u (g\<lparr>xp := xp g + x, level := (xp g + x) div 100 + 1\<rparr>) s)"
  using assms in_int64_level [OF assms(5)] by (simp add: add_xp_def add_xp_body_def gain_xp_def Let_def)

text \<open>C30. Awarding the same badge twice leaves the database as awarding it once.\<close>

theorem award_badge_idempotent:
  "snd (award_badge e data (snd (award_badge e data s))) = snd (award_badge e data s)"
proof (cases "award_badge_body e data s")
  case (Inl err)
  then show ?thesis by (simp add: award_badge_def)
next
  case (Inr rs)
  then obtain r s1 where ok: "award_badge_body e data s = Inr (r, s1)" by (cases rs) auto
  then obtain u g b g' where
    u: "find_user s e = Some u" and g: "user_gamification s u = Some g"
    and b: "req_get data ''badge_id'' = Inr (Some b)" "truthy b"
    and g': "add_badge b g = Inr g'" "get_badges g' = Inr r" and s1: "s1 = store u g' s"
    by (auto simp: award_badge_body_def dest!: with_gamification_Inr
             split: sum.splits option.splits if_splits)
  have "user_gamification s1 u = Some g'"
    using s1 g add_badge_owner [OF g'(1)] user_gamification_owner [OF g]
    by (simp add: user_gamification_store)
  then have "award_badge_body e data s1 = Inr (r, s1)"
    using u b g' s1 add_badge_idem [OF g'(1)] by (simp add: award_badge_body_def)
  then show ?thesis using ok by (simp add: award_badge_def)
qed

lemma update_streak_found:
  "find_user s e = Some u \<Longrightarrow> user_gamification s u = Some g \<Longrightarrow>
   update_streak now stamp e s =
     (case streak_step now stamp g of
        None \<Rightarrow> (Inr (Already_today (streak g)), s)
      | Some g' \<Rightarrow> (Inr (Streak (streak g')), store u g' s))"
  by (simp add: update_streak_def update_streak_body_def run_tx_def split: option.splits)

text \<open>C31. \<open>update_streak\<close> on the day of the last study date answers the streak and
  changes nothing.\<close>

theorem update_streak_same_day:
  assumes "find_user s e = Some u" "user_gamification s u = Some g"
    and "last_study_date g = Some p" "date_of p = date_of now"
  shows "update_streak now stamp e s = (Inr (Already_today (streak g)), s)"
  using assms by (simp add: update_streak_found streak_step_def)

text \<open>C32. \<open>update_streak\<close> on the day after the last study date continues the
  streak by one and records the second clock reading as the new study date.\<close>

theorem update_streak_next_day:
  assumes "find_user s e = Some u" "user_gamification s u = Some g"
    and "last_study_date g = Some p" "date_of now = date_of p + 1"
  shows "update_streak now stamp e s =
           (Inr (Streak (streak g + 1)),
            store u (g\<lparr>streak := streak g + 1, last_study_date := Some stamp\<rparr>) s)"
  using assms by (simp add: update_streak_found streak_step_def)

text \<open>\<open>update_streak\<close> with no study date, or one that is neither today nor
  yesterday, restarts the streak at one.\<close>

theorem update_streak_restart:
  assumes "find_user s e = Some u" "user_gamification s u = Some g"
    and "case last_study_date g of None \<Rightarrow> True | Some p \<Rightarrow> date_of now - date_of p \<notin> {0, 1}"
  shows "update_streak now stamp e s =
           (Inr (Streak 1), store u (g\<lparr>streak := 1, last_study_date := Some stamp\<rparr>) s)"
  using assms by (auto simp: update_streak_found streak_step_def split: option.splits)

text \<open>C33. \<open>award_badge\<close> with a truthy badge appends it to the stored list when no
  equal badge is there (and leaves the list alone otherwise), stores the list as its JSON
  text and answers the list.\<close>

theorem award_badge_adds:
  assumes "find_user s e = Some u" "user_gamification s u = Some g"
    and "req_get data ''badge_id'' = Inr (Some b)" "truthy b"
    and "get_badges g = Inr (JArr bs)"
  shows "award_badge e data s =
           (if list_ex (py_eq b) bs then (Inr (JArr bs), store u g s)
            else (Inr (JArr (bs @ [b])),
                  store u (g\<lparr>badges_earned := json_dumps (JArr (bs @ [b]))\<rparr>) s))"
  using assms
  by (simp add: award_badge_def award_badge_body_def add_badge_def get_badges_dumps
           del: json_dumps.simps)

text \<open>\<open>set_mode\<close> with a mode other than the strings normal and exam answers 400
  Invalid mode and leaves the database unchanged.\<close>

theorem set_mode_invalid:
  assumes "find_user s e = Some u" "user_gamification s u = Some g"
    and "req_get_default data ''mode'' (JStr ''normal'') = Inr m"
    and "m \<notin> {JStr ''normal'', JStr ''exam''}"
  shows "set_mode e data s = (Inl (Client_error 400 ''Invalid mode''), s)"
  using assms by (auto simp: set_mode_def set_mode_body_def split: jval.splits)

text \<open>C34. Every gamification handler answers 404 and leaves the database unchanged when
  no user has the token's e-mail.\<close>

theorem gamification_no_user:
  assumes "find_user s e = None"
  shows "get_gamification e s = (Inl (Client_error 404 ''Gamification data not found''), s) \<and>
         add_xp e data s = (Inl (Client_error 404 ''User not found''), s) \<and>
         update_streak now stamp e s = (Inl (Client_error 404 ''User not found''), s) \<and>
         award_badge e data s = (Inl (Client_error 404 ''User not found''), s) \<and>
         set_mode e data s = (Inl (Client_error 404 ''User not found''), s)"
  using assms
  by (simp add: get_gamification_def get_gamification_body_def add_xp_def add_xp_body_def
                update_streak_def update_streak_body_def award_badge_def award_badge_body_def
                set_mode_def set_mode_body_def with_gamification_def)

text \<open>\<open>add_xp\<close> with an amount that \<open>int()\<close> rejects fails with that exception
  (a 500) and rolls back: the database is unchanged.\<close>

theorem add_xp_invalid:
  assumes "find_user s e = Some u" "user_gamification s u = Some g"
    and "req_get_default data ''xp'' (JInt 0) = Inr v" "py_int v = Inl err"
  shows "add_xp e data s = (Inl err, s)"
  using assms by (simp add: add_xp_def add_xp_body_def)

theorem gam_run_preserves_inv_witness:
  "db_gam_inv (db_of [user.make 1 ''ann'' ''ann@x.org'' ''h'' 0] [] [new_gamification 1 1]) \<and>
   db_gam_inv (gam_run [Req_add_xp ''ann@x.org'' (JObj [(''xp'', JInt 150)]),
                        Req_update_streak 0 1 ''ann@x.org'',
                        Req_award_badge ''ann@x.org'' (JObj [(''badge_id'', JStr ''first'')]),
                        Req_set_mode ''ann@x.org'' (JObj [(''mode'', JStr ''exam'')])] (db_of [user.make 1 ''ann'' ''ann@x.org'' ''h'' 0] [] [new_gamification 1 1]))"
proof -
  have inv: "db_gam_inv (db_of [user.make 1 ''ann'' ''ann@x.org'' ''h'' 0] [] [new_gamification 1 1])"
    by (simp add: db_gam_inv_def gam_inv_def new_gamification_def db_of_def json_loads_def skip_ws_def json_ws_def)
  show ?thesis using gam_run_preserves_inv [OF inv] inv by blast
qed

theorem add_xp_success_witness:
  "find_user (db_of [user.make 1 ''ann'' ''ann@x.org'' ''h'' 0] [] [new_gamification 1 1]) ''ann@x.org'' = Some (user.make 1 ''ann'' ''ann@x.org'' ''h'' 0) \<and> user_gamification (db_of [user.make 1 ''ann'' ''ann@x.org'' ''h'' 0] [] [new_gamification 1 1]) (user.make 1 ''ann'' ''ann@x.org'' ''h'' 0) = Some (new_gamification 1 1) \<and>
   in_int64 (xp (new_gamification 1 1) + 150) \<and>
   add_xp ''ann@x.org'' (JObj [(''xp'', JInt 150)]) (db_of [user.make 1 ''ann'' ''ann@x.org'' ''h'' 0] [] [new_gamification 1 1]) =
     (Inr \<lparr>xp_earned = 150, total_xp = 150, xp_level = 2, leveled_up = True\<rparr>,
      store (user.make 1 ''ann'' ''ann@x.org'' ''h'' 0) ((new_gamification 1 1)\<lparr>xp := 150, level := 2\<rparr>) (db_of [user.make 1 ''ann'' ''ann@x.org'' ''h'' 0] [] [new_gamification 1 1]))"
  using add_xp_success [of "(db_of [user.make 1 ''ann'' ''ann@x.org'' ''h'' 0] [] [new_gamification 1 1])" "''ann@x.org''" "(user.make 1 ''ann'' ''ann@x.org'' ''h'' 0)" "(new_gamification 1 1)" "JObj [(''xp'', JInt 150)]" "JInt 150" 150]
  by (simp add: find_user_def user_gamification_def new_gamification_def db_of_def user.defs req_get_default_def in_int64_iff)

theorem update_streak_same_day_witness:
  "find_user (db_of [(user.make 1 ''ann'' ''ann@x.org'' ''h'' 0)] [] [((new_gamification 1 1)\<lparr>streak := 3, last_study_date := Some 0\<rparr>)]) ''ann@x.org'' = Some (user.make 1 ''ann'' ''ann@x.org'' ''h'' 0) \<and> user_gamification (db_of [(user.make 1 ''ann'' ''ann@x.org'' ''h'' 0)] [] [((new_gamification 1 1)\<lparr>streak := 3, last_study_date := Some 0\<rparr>)]) (user.make 1 ''ann'' ''ann@x.org'' ''h'' 0) = Some ((new_gamification 1 1)\<lparr>streak := 3, last_study_date := Some 0\<rparr>) \<and>
   update_streak 5 7 ''ann@x.org'' (db_of [(user.make 1 ''ann'' ''ann@x.org'' ''h'' 0)] [] [((new_gamification 1 1)\<lparr>streak := 3, last_study_date := Some 0\<rparr>)]) = (Inr (Already_today 3), (db_of [(user.make 1 ''ann'' ''ann@x.org'' ''h'' 0)] [] [((new_gamification 1 1)\<lparr>streak := 3, last_study_date := Some 0\<rparr>)]))"
  using update_streak_same_day [of "(db_of [(user.make 1 ''ann'' ''ann@x.org'' ''h'' 0)] [] [((new_gamification 1 1)\<lparr>streak := 3, last_study_date := Some 0\<rparr>)])" "''ann@x.org''" "(user.make 1 ''ann'' ''ann@x.org'' ''h'' 0)" "((new_gamification 1 1)\<lparr>streak := 3, last_study_date := Some 0\<rparr>)" 0 5 7]
  by (simp add: find_user_def user_gamification_def new_gamification_def db_of_def user.defs date_of_def us_per_day_def)

theorem update_streak_next_day_witness:
  "find_user (db_of [(user.make 1 ''ann'' ''ann@x.org'' ''h'' 0)] [] [((new_gamification 1 1)\<lparr>streak := 3, last_study_date := Some 0\<rparr>)]) ''ann@x.org'' = Some (user.make 1 ''ann'' ''ann@x.org'' ''h'' 0) \<and> user_gamification (db_of [(user.make 1 ''ann'' ''ann@x.org'' ''h'' 0)] [] [((new_gamification 1 1)\<lparr>streak := 3, last_study_date := Some 0\<rparr>)]) (user.make 1 ''ann'' ''ann@x.org'' ''h'' 0) = Some ((new_gamification 1 1)\<lparr>streak := 3, last_study_date := Some 0\<rparr>) \<and>
   update_streak (86400000000 + 5) 86400000007 ''ann@x.org'' (db_of [(user.make 1 ''ann'' ''ann@x.org'' ''h'' 0)] [] [((new_gamification 1 1)\<lparr>streak := 3, last_study_date := Some 0\<rparr>)]) =
     (Inr (Streak 4), store (user.make 1 ''ann'' ''ann@x.org'' ''h'' 0) (((new_gamification 1 1)\<lparr>streak := 3, last_study_date := Some 0\<rparr>)\<lparr>streak := 4, last_study_date := Some 86400000007\<rparr>) (db_of [(user.make 1 ''ann'' ''ann@x.org'' ''h'' 0)] [] [((new_gamification 1 1)\<lparr>streak := 3, last_study_date := Some 0\<rparr>)]))"
  using update_streak_next_day [of "(db_of [(user.make 1 ''ann'' ''ann@x.org'' ''h'' 0)] [] [((new_gamification 1 1)\<lparr>streak := 3, last_study_date := Some 0\<rparr>)])" "''ann@x.org''" "(user.make 1 ''ann'' ''ann@x.org'' ''h'' 0)" "((new_gamification 1 1)\<lparr>streak := 3, last_study_date := Some 0\<rparr>)" 0 "86400000000 + 5" 86400000007]
  by (simp add: find_user_def user_gamification_def new_gamification_def db_of_def user.defs date_of_def us_per_day_def)

theorem update_streak_restart_witness:
  "find_user (db_of [(user.make 1 ''ann'' ''ann@x.org'' ''h'' 0)] [] [((new_gamification 1 1)\<lparr>streak := 3, last_study_date := Some 0\<rparr>)]) ''ann@x.org'' = Some (user.make 1 ''ann'' ''ann@x.org'' ''h'' 0) \<and> user_gamification (db_of [(user.make 1 ''ann'' ''ann@x.org'' ''h'' 0)] [] [((new_gamification 1 1)\<lparr>streak := 3, last_study_date := Some 0\<rparr>)]) (user.make 1 ''ann'' ''ann@x.org'' ''h'' 0) = Some ((new_gamification 1 1)\<lparr>streak := 3, last_study_date := Some 0\<rparr>) \<and>
   update_streak 259200000000 259200000001 ''ann@x.org'' (db_of [(user.make 1 ''ann'' ''ann@x.org'' ''h'' 0)] [] [((new_gamification 1 1)\<lparr>streak := 3, last_study_date := Some 0\<rparr>)]) =
     (Inr (Streak 1), store (user.make 1 ''ann'' ''ann@x.org'' ''h'' 0) (((new_gamification 1 1)\<lparr>streak := 3, last_study_date := Some 0\<rparr>)\<lparr>streak := 1, last_study_date := Some 259200000001\<rparr>) (db_of [(user.make 1 ''ann'' ''ann@x.org'' ''h'' 0)] [] [((new_gamification 1 1)\<lparr>streak := 3, last_study_date := Some 0\<rparr>)]))"
  using update_streak_restart [of "(db_of [(user.make 1 ''ann'' ''ann@x.org'' ''h'' 0)] [] [((new_gamification 1 1)\<lparr>streak := 3, last_study_date := Some 0\<rparr>)])" "''ann@x.org''" "(user.make 1 ''ann'' ''ann@x.org'' ''h'' 0)" "((new_gamification 1 1)\<lparr>streak := 3, last_study_date := Some 0\<rparr>)" 259200000000 259200000001]
  by (simp add: find_user_def user_gamification_def new_gamification_def db_of_def user.defs date_of_def us_per_day_def)

theorem award_badge_adds_witness:
  "find_user (db_of [(user.make 1 ''ann'' ''ann@x.org'' ''h'' 0)] [] [new_gamification 1 1]) ''ann@x.org'' = Some (user.make 1 ''ann'' ''ann@x.org'' ''h'' 0) \<and> user_gamification (db_of [(user.make 1 ''ann'' ''ann@x.org'' ''h'' 0)] [] [new_gamification 1 1]) (user.make 1 ''ann'' ''ann@x.org'' ''h'' 0) = Some (new_gamification 1 1) \<and>
   award_badge ''ann@x.org'' (JObj [(''badge_id'', JStr ''first'')]) (db_of [(user.make 1 ''ann'' ''ann@x.org'' ''h'' 0)] [] [new_gamification 1 1]) =
     (Inr (JArr [JStr ''first'']),
      store (user.make 1 ''ann'' ''ann@x.org'' ''h'' 0) ((new_gamification 1 1)\<lparr>badges_earned := json_dumps (JArr [JStr ''first''])\<rparr>) (db_of [(user.make 1 ''ann'' ''ann@x.org'' ''h'' 0)] [] [new_gamification 1 1]))"
  using award_badge_adds [of "(db_of [(user.make 1 ''ann'' ''ann@x.org'' ''h'' 0)] [] [new_gamification 1 1])" "''ann@x.org''" "(user.make 1 ''ann'' ''ann@x.org'' ''h'' 0)" "(new_gamification 1 1)" "JObj [(''badge_id'', JStr ''first'')]" "JStr ''first''" "[]"]
  by (simp add: find_user_def user_gamification_def new_gamification_def db_of_def user.defs get_badges_def json_loads_def skip_ws_def json_ws_def del: json_dumps.simps)

theorem set_mode_invalid_witness:
  "find_user (db_of [(user.make 1 ''ann'' ''ann@x.org'' ''h'' 0)] [] [new_gamification 1 1]) ''ann@x.org'' = Some (user.make 1 ''ann'' ''ann@x.org'' ''h'' 0) \<and> user_gamification (db_of [(user.make 1 ''ann'' ''ann@x.org'' ''h'' 0)] [] [new_gamification 1 1]) (user.make 1 ''ann'' ''ann@x.org'' ''h'' 0) = Some (new_gamification 1 1) \<and>
   set_mode ''ann@x.org'' (JObj [(''mode'', JStr ''holiday'')]) (db_of [(user.make 1 ''ann'' ''ann@x.org'' ''h'' 0)] [] [new_gamification 1 1]) = (Inl (Client_error 400 ''Invalid mode''), (db_of [(user.make 1 ''ann'' ''ann@x.org'' ''h'' 0)] [] [new_gamification 1 1]))"
  using set_mode_invalid [of "(db_of [(user.make 1 ''ann'' ''ann@x.org'' ''h'' 0)] [] [new_gamification 1 1])" "''ann@x.org''" "(user.make 1 ''ann'' ''ann@x.org'' ''h'' 0)" "(new_gamification 1 1)" "JObj [(''mode'', JStr ''holiday'')]" "JStr ''holiday''"]
  by (simp add: find_user_def user_gamification_def new_gamification_def db_of_def user.defs req_get_default_def)

theorem gamification_no_user_witness:
  "find_user (db_of [(user.make 1 ''ann'' ''ann@x.org'' ''h'' 0)] [] [new_gamification 1 1]) ''bob@x.org'' = None \<and>
   add_xp ''bob@x.org'' (JObj []) (db_of [(user.make 1 ''ann'' ''ann@x.org'' ''h'' 0)] [] [new_gamification 1 1]) = (Inl (Client_error 404 ''User not found''), (db_of [(user.make 1 ''ann'' ''ann@x.org'' ''h'' 0)] [] [new_gamification 1 1]))"
  using gamification_no_user [of "(db_of [(user.make 1 ''ann'' ''ann@x.org'' ''h'' 0)] [] [new_gamification 1 1])" "''bob@x.org''" "JObj []"]
  by (simp add: find_user_def user_gamification_def new_gamification_def db_of_def user.defs)

theorem add_xp_invalid_witness:
  "find_user (db_of [(user.make 1 ''ann'' ''ann@x.org'' ''h'' 0)] [] [new_gamification 1 1]) ''ann@x.org'' = Some (user.make 1 ''ann'' ''ann@x.org'' ''h'' 0) \<and> user_gamification (db_of [(user.make 1 ''ann'' ''ann@x.org'' ''h'' 0)] [] [new_gamification 1 1]) (user.make 1 ''ann'' ''ann@x.org'' ''h'' 0) = Some (new_gamification 1 1) \<and>
   add_xp ''ann@x.org'' (JObj [(''xp'', JStr ''ten'')]) (db_of [(user.make 1 ''ann'' ''ann@x.org'' ''h'' 0)] [] [new_gamification 1 1]) = (Inl (Server_error ValueError), (db_of [(user.make 1 ''ann'' ''ann@x.org'' ''h'' 0)] [] [new_gamification 1 1]))"
  using add_xp_invalid [of "(db_of [(user.make 1 ''ann'' ''ann@x.org'' ''h'' 0)] [] [new_gamification 1 1])" "''ann@x.org''" "(user.make 1 ''ann'' ''ann@x.org'' ''h'' 0)" "(new_gamification 1 1)" "JObj [(''xp'', JStr ''ten'')]" "JStr ''ten''"]
  by (simp add: find_user_def user_gamification_def new_gamification_def db_of_def user.defs req_get_default_def py_int_of_string_def strip_space_def py_space_def
                parse_unsigned_def digit_val_def)

text \<open>XP may be negative: \<open>add_xp\<close> accepts a negative amount, and a total
  below zero gives a level below one (here -1), which no branch of the code prevents.\<close>

theorem add_xp_negative_level:
  "fst (add_xp ''ann@x.org'' (JObj [(''xp'', JInt (-150))])
          (db_of [user.make 1 ''ann'' ''ann@x.org'' ''h'' 0] [] [new_gamification 1 1])) =
   Inr \<lparr>xp_earned = -150, total_xp = -150, xp_level = -1, leveled_up = False\<rparr>"
  by (simp add: add_xp_def add_xp_body_def with_gamification_def gain_xp_def find_user_def
                user_gamification_def new_gamification_def req_get_default_def run_tx_def db_of_def user.defs
                in_int64_iff)

end
