(* ===== verification/Subjects.thy ===== *)
theory Subjects
  imports Models Json
begin

text \<open>
  The subject rows and the handlers of \<open>/api/subjects\<close> (app.py lines 66--104 and
  297--420): \<open>Subject.to_dict\<close>, \<open>get_subjects\<close>, \<open>add_subject\<close>,
  \<open>update_subject\<close> and \<open>delete_subject\<close>. Each handler is a body of type
  \<open>db \<Rightarrow> error + (response \<times> db)\<close> under \<open>run_tx\<close>. The clock reading
  \<open>datetime.utcnow()\<close> is the parameter \<open>now\<close>; \<open>datetime.fromisoformat\<close>, a
  library parser, is the parameter \<open>parse_iso\<close> (\<open>None\<close> where it raises).
  Values of the request body are written to the text columns of SQLite, whose column
  affinity turns a number into its decimal text and a boolean into \<open>1\<close> or \<open>0\<close>;
  a list or an object cannot be bound as a parameter and the commit fails.
\<close>

section \<open>Subject.to_dict\<close>

text \<open>Python's \<open>round(x, 1)\<close>: the nearest multiple of one tenth, ties to the even
  multiple. Scores and percentages are exact rationals (float rounding before the
  \<open>round\<close> is not modelled).\<close>

definition py_round1 :: "rat \<Rightarrow> rat" where
  "py_round1 q =
     (let y = q * 10; f = \<lfloor>y\<rfloor>; d = y - of_int f;
          r = (if d < 1/2 then f else if 1/2 < d then f + 1 else if even f then f else f + 1)
      in of_int r / 10)"

definition completion_percentage :: "subject \<Rightarrow> rat" where
  "completion_percentage x =
     (if 0 < chapters x
      then py_round1 (of_int (completed_chapters x) / of_int (chapters x) * 100)
      else 0)"

record subject_view =
  sv_id :: nat
  sv_name :: string
  sv_chapters :: int
  sv_completed_chapters :: int
  sv_difficulty :: string
  sv_priority :: string
  sv_deadline :: datetime
  sv_days_left :: int
  sv_sessions_completed :: int
  sv_total_time_minutes :: int
  sv_completion_percentage :: rat

definition subject_to_dict :: "datetime \<Rightarrow> subject \<Rightarrow> subject_view" where
  "subject_to_dict now x =
     \<lparr>sv_id = subject_id x, sv_name = subject_name x, sv_chapters = chapters x,
      sv_completed_chapters = completed_chapters x, sv_difficulty = difficulty x,
      sv_priority = priority x, sv_deadline = deadline x,
      sv_days_left = max 0 (timedelta_days (deadline x) now),
      sv_sessions_completed = sessions_completed x, sv_total_time_minutes = total_time_minutes x,
      sv_completion_percentage = completion_percentage x\<rparr>"

section \<open>Values written to the columns\<close>

text \<open>
  A request value bound to a text column. \<open>None\<close> violates the \<open>NOT NULL\<close> of
  \<open>name\<close> and \<open>difficulty\<close>; the nullable \<open>priority\<close> stores SQL \<open>NULL\<close>,
  which the model writes as the empty string (the planner's \<open>priority_map.get\<close> gives
  both the default weight). An integer is bound as a 64-bit \<open>INTEGER\<close> and
  converted to text by the column's affinity, so it too must be within 64 bits.
\<close>

fun text_column :: "bool \<Rightarrow> jval \<Rightarrow> error + string" where
  "text_column nullable (JStr t) = Inr t"
| "text_column nullable (JInt i) = sbind (sql_int i) (\<lambda>j. Inr (int_repr j))"
| "text_column nullable (JBool b) = Inr (if b then ''1'' else ''0'')"
| "text_column nullable JNull = (if nullable then Inr [] else Inl (Server_error DatabaseError))"
| "text_column nullable _ = Inl (Server_error DatabaseError)"

text \<open>\<open>datetime.fromisoformat(v)\<close>: only a string is accepted.\<close>

fun py_fromisoformat :: "(string \<Rightarrow> datetime option) \<Rightarrow> jval \<Rightarrow> error + datetime" where
  "py_fromisoformat parse_iso (JStr t) = (case parse_iso t of None \<Rightarrow> Inl (Server_error ValueError) | Some d \<Rightarrow> Inr d)"
| "py_fromisoformat parse_iso _ = Inl (Server_error TypeError)"

section \<open>The handlers\<close>

text \<open>\<open>GET /api/subjects\<close>: \<open>Subject.query.filter_by(user_id=user.id).all()\<close>,
  soft-deleted rows included.\<close>

definition user_subjects :: "db \<Rightarrow> user \<Rightarrow> subject list" where
  "user_subjects s u = filter (\<lambda>x. subject_user_id x = user_id u) (subjects s)"

definition get_subjects_body ::
  "datetime \<Rightarrow> string \<Rightarrow> db \<Rightarrow> error + ((subject_view list \<times> nat) \<times> db)" where
  "get_subjects_body now e s =
     (case find_user s e of
        None \<Rightarrow> Inl (Client_error 404 ''User not found'')
      | Some u \<Rightarrow> Inr ((map (subject_to_dict now) (user_subjects s u), length (user_subjects s u)), s))"

definition get_subjects :: "datetime \<Rightarrow> string \<Rightarrow> db \<Rightarrow> (error + (subject_view list \<times> nat)) \<times> db" where
  "get_subjects now e = run_tx (get_subjects_body now e)"

text \<open>\<open>all(data.get(field) for field in required)\<close>: stops at the first falsy
  value; \<open>get\<close> on a body that is not an object raises.\<close>

definition subject_required :: "string list" where
  "subject_required = [''name'', ''chapters'', ''difficulty'', ''deadline'', ''priority'']"

fun all_present :: "jval \<Rightarrow> string list \<Rightarrow> error + bool" where
  "all_present data [] = Inr True"
| "all_present data (f # fs) =
     (case req_get data f of
        Inl err \<Rightarrow> Inl err
      | Inr None \<Rightarrow> Inr False
      | Inr (Some v) \<Rightarrow> if truthy v then all_present data fs else Inr False)"

text \<open>The primary key SQLite gives a new row: one more than the largest in the
  table.\<close>

definition next_subject_id :: "db \<Rightarrow> nat" where
  "next_subject_id s = Suc (foldr max (map subject_id (subjects s)) 0)"

text \<open>\<open>Subject(user_id=..., name=..., chapters=..., difficulty=..., priority=...,
  deadline=...)\<close> with the column defaults (\<open>completed_chapters\<close>,
  \<open>sessions_completed\<close>, \<open>total_time_minutes\<close> zero, \<open>created_at\<close> and
  \<open>updated_at\<close> the clock, not deleted).\<close>

definition new_subject ::
  "nat \<Rightarrow> nat \<Rightarrow> string \<Rightarrow> int \<Rightarrow> string \<Rightarrow> string \<Rightarrow> datetime \<Rightarrow> datetime \<Rightarrow> subject" where
  "new_subject sid uid nm ch diff prio dl now =
     \<lparr>subject_id = sid, subject_user_id = uid, subject_name = nm, chapters = ch,
      completed_chapters = 0, difficulty = diff, priority = prio, deadline = dl,
      sessions_completed = 0, total_time_minutes = 0, subject_created_at = now,
      subject_updated_at = now, is_deleted = False, deleted_at = None\<rparr>"

text \<open>\<open>POST /api/subjects\<close>: the keyword arguments are evaluated in order
  (\<open>int(data['chapters'])\<close> before \<open>fromisoformat\<close>); the commit binds the
  columns in table order: \<open>name\<close>, \<open>chapters\<close> (within 64 bits, \<open>sql_int\<close>),
  \<open>difficulty\<close>, \<open>priority\<close>.\<close>

definition add_subject_body ::
  "(string \<Rightarrow> datetime option) \<Rightarrow> datetime \<Rightarrow> string \<Rightarrow> jval \<Rightarrow> db \<Rightarrow> error + (subject_view \<times> db)" where
  "add_subject_body parse_iso now e data s =
     (case find_user s e of
        None \<Rightarrow> Inl (Client_error 404 ''User not found'')
      | Some u \<Rightarrow>
          sbind (all_present data subject_required) (\<lambda>ok.
          if \<not> ok then Inl (Client_error 400 ''Missing required fields'') else
          sbind (py_getitem data ''name'') (\<lambda>nm.
          sbind (sbind (py_getitem data ''chapters'') py_int) (\<lambda>ch.
          sbind (py_getitem data ''difficulty'') (\<lambda>diff.
          sbind (py_getitem data ''priority'') (\<lambda>prio.
          sbind (sbind (py_getitem data ''deadline'') (py_fromisoformat parse_iso)) (\<lambda>dl.
          sbind (text_column False nm) (\<lambda>nm'.
          sbind (sql_int ch) (\<lambda>_.
          sbind (text_column False diff) (\<lambda>diff'.
          sbind (text_column True prio) (\<lambda>prio'.
            (let x = new_subject (next_subject_id s) (user_id u) nm' ch diff' prio' dl now
             in Inr (subject_to_dict now x, s\<lparr>subjects := subjects s @ [x]\<rparr>)))))))))))))"

definition add_subject ::
  "(string \<Rightarrow> datetime option) \<Rightarrow> datetime \<Rightarrow> string \<Rightarrow> jval \<Rightarrow> db \<Rightarrow> (error + subject_view) \<times> db" where
  "add_subject parse_iso now e data = run_tx (add_subject_body parse_iso now e data)"

text \<open>\<open>Subject.query.filter_by(id=subject_id, user_id=user.id).first()\<close>; with no
  user, \<open>user.id\<close> raises \<open>AttributeError\<close>.\<close>

definition owned_subject :: "db \<Rightarrow> string \<Rightarrow> nat \<Rightarrow> error + subject option" where
  "owned_subject s e sid =
     (case find_user s e of
        None \<Rightarrow> Inl (Server_error AttributeError)
      | Some u \<Rightarrow> Inr (find (\<lambda>x. subject_id x = sid \<and> subject_user_id x = user_id u) (subjects s)))"

text \<open>\<open>if k in data: ... data[k]\<close>: the value of an optional field, and a
  conversion applied to it when present.\<close>

definition opt_field :: "jval \<Rightarrow> string \<Rightarrow> error + jval option" where
  "opt_field data k =
     sbind (py_contains (JStr k) data) (\<lambda>b.
       if b then sbind (py_getitem data k) (\<lambda>v. Inr (Some v)) else Inr None)"

definition opt_conv :: "('a \<Rightarrow> error + 'v) \<Rightarrow> 'a option \<Rightarrow> error + 'v option" where
  "opt_conv conv v = (case v of None \<Rightarrow> Inr None | Some w \<Rightarrow> sbind (conv w) (\<lambda>c. Inr (Some c)))"

definition opt_or :: "'v option \<Rightarrow> 'v \<Rightarrow> 'v" where
  "opt_or v d = (case v of None \<Rightarrow> d | Some w \<Rightarrow> w)"

text \<open>The five optional updates of \<open>update_subject\<close> in the order of the code
  (\<open>int()\<close> on the integer fields as they are read), then \<open>updated_at\<close>; the
  commit that follows binds the changed columns in table order, the integers within
  64 bits.\<close>

definition apply_updates :: "datetime \<Rightarrow> jval \<Rightarrow> subject \<Rightarrow> error + subject" where
  "apply_updates now data x =
     sbind (sbind (opt_field data ''completed_chapters'') (opt_conv py_int)) (\<lambda>cc.
     sbind (opt_field data ''difficulty'') (\<lambda>df.
     sbind (opt_field data ''priority'') (\<lambda>pr.
     sbind (sbind (opt_field data ''sessions_completed'') (opt_conv py_int)) (\<lambda>sc.
     sbind (sbind (opt_field data ''total_time_minutes'') (opt_conv py_int)) (\<lambda>tt.
     sbind (opt_conv sql_int cc) (\<lambda>_.
     sbind (opt_conv (text_column False) df) (\<lambda>df'.
     sbind (opt_conv (text_column True) pr) (\<lambda>pr'.
     sbind (opt_conv sql_int sc) (\<lambda>_.
     sbind (opt_conv sql_int tt) (\<lambda>_.
       Inr (x\<lparr>completed_chapters := opt_or cc (completed_chapters x),
              difficulty := opt_or df' (difficulty x),
              priority := opt_or pr' (priority x),
              sessions_completed := opt_or sc (sessions_completed x),
              total_time_minutes := opt_or tt (total_time_minutes x),
              subject_updated_at := now\<rparr>)))))))))))"

text \<open>\<open>PUT /api/subjects/<id>\<close>.\<close>

definition update_subject_body ::
  "datetime \<Rightarrow> string \<Rightarrow> nat \<Rightarrow> jval \<Rightarrow> db \<Rightarrow> error + (subject_view \<times> db)" where
  "update_subject_body now e sid data s =
     sbind (owned_subject s e sid) (\<lambda>found.
       case found of
         None \<Rightarrow> Inl (Client_error 404 ''Subject not found'')
       | Some x \<Rightarrow>
           sbind (apply_updates now data x) (\<lambda>x'.
             Inr (subject_to_dict now x',
                  s\<lparr>subjects := update_rows (\<lambda>y. subject_id y = subject_id x) (\<lambda>_. x') (subjects s)\<rparr>)))"

definition update_subject ::
  "datetime \<Rightarrow> string \<Rightarrow> nat \<Rightarrow> jval \<Rightarrow> db \<Rightarrow> (error + subject_view) \<times> db" where
  "update_subject now e sid data = run_tx (update_subject_body now e sid data)"

text \<open>\<open>DELETE /api/subjects/<id>\<close>: \<open>db.session.delete(subject)\<close> removes the row;
  \<open>is_deleted\<close> is never set.\<close>

definition delete_subject_body :: "string \<Rightarrow> nat \<Rightarrow> db \<Rightarrow> error + (unit \<times> db)" where
  "delete_subject_body e sid s =
     sbind (owned_subject s e sid) (\<lambda>found.
       case found of
         None \<Rightarrow> Inl (Client_error 404 ''Subject not found'')
       | Some x \<Rightarrow> Inr ((), s\<lparr>subjects := filter (\<lambda>y. subject_id y \<noteq> subject_id x) (subjects s)\<rparr>))"

definition delete_subject :: "string \<Rightarrow> nat \<Rightarrow> db \<Rightarrow> (error + unit) \<times> db" where
  "delete_subject e sid = run_tx (delete_subject_body e sid)"

text \<open>The subject requests and the table invariant: row ids are distinct (the primary
  key) and every row belongs to a registered user.\<close>

datatype subject_request =
    Req_add_subject datetime string jval
  | Req_update_subject datetime string nat jval
  | Req_delete_subject string nat

fun subject_step :: "(string \<Rightarrow> datetime option) \<Rightarrow> subject_request \<Rightarrow> db \<Rightarrow> db" where
  "subject_step parse_iso (Req_add_subject now e data) s = snd (add_subject parse_iso now e data s)"
| "subject_step parse_iso (Req_update_subject now e sid data) s = snd (update_subject now e sid data s)"
| "subject_step parse_iso (Req_delete_subject e sid) s = snd (delete_subject e sid s)"

fun subject_run :: "(string \<Rightarrow> datetime option) \<Rightarrow> subject_request list \<Rightarrow> db \<Rightarrow> db" where
  "subject_run parse_iso [] s = s"
| "subject_run parse_iso (r # rs) s = subject_run parse_iso rs (subject_step parse_iso r s)"

definition subjects_inv :: "db \<Rightarrow> bool" where
  "subjects_inv s \<longleftrightarrow>
     distinct (map subject_id (subjects s)) \<and>
     set (map subject_user_id (subjects s)) \<subseteq> set (map user_id (users s))"

section \<open>Lemmas\<close>

lemma foldr_max_ge: "y \<in> set ys \<Longrightarrow> y \<le> foldr max ys (0::nat)"
  by (induction ys) auto

lemma next_subject_id_fresh: "next_subject_id s \<notin> subject_id ` set (subjects s)"
  using foldr_max_ge [of _ "map subject_id (subjects s)"]
  by (fastforce simp: next_subject_id_def)

lemma owned_subject_Some:
  "owned_subject s e sid = Inr (Some x) \<Longrightarrow>
   \<exists>u. find_user s e = Some u \<and> x \<in> set (subjects s) \<and> subject_id x = sid \<and> subject_user_id x = user_id u"
  by (auto simp: owned_subject_def split: option.splits dest: find_Some_holds)

lemma opt_conv_Inr:
  "opt_conv conv v = Inr c \<Longrightarrow> (v = None \<and> c = None) \<or> (\<exists>w c'. v = Some w \<and> conv w = Inr c' \<and> c = Some c')"
  by (auto simp: opt_conv_def sbind_eq_Inr split: option.splits)

lemma apply_updates_keys:
  "apply_updates now data x = Inr x' \<Longrightarrow>
   subject_id x' = subject_id x \<and> subject_user_id x' = subject_user_id x"
  by (auto simp: apply_updates_def sbind_eq_Inr)

lemma new_subject_keys [simp]:
  "subject_id (new_subject sid uid nm ch diff prio dl now) = sid"
  "subject_user_id (new_subject sid uid nm ch diff prio dl now) = uid"
  by (simp_all add: new_subject_def)

lemma add_subject_body_Inr:
  "add_subject_body parse_iso now e data s = Inr (r, s') \<Longrightarrow>
   \<exists>u nm ch diff prio dl. find_user s e = Some u \<and>
      s' = s\<lparr>subjects := subjects s @ [new_subject (next_subject_id s) (user_id u) nm ch diff prio dl now]\<rparr>"
  by (auto simp: add_subject_body_def sbind_eq_Inr Let_def split: option.splits if_splits) blast

lemma update_subject_body_Inr:
  "update_subject_body now e sid data s = Inr (r, s') \<Longrightarrow>
   \<exists>x x'. owned_subject s e sid = Inr (Some x) \<and> apply_updates now data x = Inr x' \<and>
          s' = s\<lparr>subjects := update_rows (\<lambda>y. subject_id y = subject_id x) (\<lambda>_. x') (subjects s)\<rparr>"
  by (auto simp: update_subject_body_def sbind_eq_Inr split: option.splits)

lemma delete_subject_body_Inr:
  "delete_subject_body e sid s = Inr (r, s') \<Longrightarrow>
   \<exists>x. owned_subject s e sid = Inr (Some x) \<and>
        s' = s\<lparr>subjects := filter (\<lambda>y. subject_id y \<noteq> subject_id x) (subjects s)\<rparr>"
  by (auto simp: delete_subject_body_def sbind_eq_Inr split: option.splits)

lemma map_update_rows_same_key:
  "f y = f x \<Longrightarrow> map f (update_rows (\<lambda>z. f z = f x) (\<lambda>_. y) xs) = map f xs"
  by (induction xs) auto

lemma subjects_inv_add:
  "subjects_inv s \<Longrightarrow> add_subject_body parse_iso now e data s = Inr (r, s') \<Longrightarrow> subjects_inv s'"
  by (drule add_subject_body_Inr)
     (force simp: subjects_inv_def next_subject_id_fresh dest: find_user_in_users)

lemma subjects_inv_update:
  assumes inv: "subjects_inv s" and ok: "update_subject_body now e sid data s = Inr (r, s')"
  shows "subjects_inv s'"
proof -
  obtain x x' where x: "owned_subject s e sid = Inr (Some x)" "apply_updates now data x = Inr x'"
    and s': "s' = s\<lparr>subjects := update_rows (\<lambda>y. subject_id y = subject_id x) (\<lambda>_. x') (subjects s)\<rparr>"
    using update_subject_body_Inr [OF ok] by blast
  have k: "subject_id x' = subject_id x" "subject_user_id x' = subject_user_id x"
    using apply_updates_keys [OF x(2)] by auto
  have ids: "map subject_id (subjects s') = map subject_id (subjects s)"
    using k(1) by (simp add: s' map_update_rows_same_key)
  have "subject_user_id y \<in> set (map user_id (users s))" if "y \<in> set (subjects s')" for y
    using that inv owned_subject_Some [OF x(1)] k(2)
    by (force simp: s' subjects_inv_def set_update_rows)
  then show ?thesis
    using inv ids by (auto simp: subjects_inv_def s')
qed

lemma subjects_inv_delete:
  "subjects_inv s \<Longrightarrow> delete_subject_body e sid s = Inr (r, s') \<Longrightarrow> subjects_inv s'"
  by (drule delete_subject_body_Inr) (force simp: subjects_inv_def distinct_map_filter)

lemma subject_step_inv: "subjects_inv s \<Longrightarrow> subjects_inv (subject_step parse_iso r s)"
  by (cases r) (auto simp: add_subject_def update_subject_def delete_subject_def
                     intro: run_tx_preserves subjects_inv_add subjects_inv_update subjects_inv_delete)

lemma py_round1_bounds:
  assumes "0 \<le> q" "q \<le> 100"
  shows "0 \<le> py_round1 q \<and> py_round1 q \<le> 100"
proof -
  define y where "y = q * 10"
  define f where "f = \<lfloor>y\<rfloor>"
  have y: "0 \<le> y" "y \<le> 1000" using assms by (simp_all add: y_def)
  have f: "0 \<le> f" "of_int f \<le> y" "y < of_int f + 1"
    using y floor_correct [of y] by (simp_all add: f_def)
  have "f \<le> 1000" using f(2) y(2) by linarith
  have up: "f + 1 \<le> 1000" if "1/2 \<le> y - of_int f"
  proof -
    have "of_int (f + 1) \<le> y + 1/2" using that by simp
    then have "of_int (f + 1) < (1001 :: rat)" using y(2) by linarith
    then show ?thesis by linarith
  qed
  show ?thesis
    using f(1) \<open>f \<le> 1000\<close> up
    by (auto simp: py_round1_def Let_def y_def [symmetric] f_def [symmetric])
qed

text \<open>C6. Every sequence of subject requests (add, update, delete), each committed or
  rolled back, keeps the subject table's invariant: row ids are distinct and every row
  belongs to a registered user. In particular the id a new row receives is fresh.\<close>

theorem subject_run_preserves_inv: "subjects_inv s \<Longrightarrow> subjects_inv (subject_run parse_iso rs s)"
  by (induction rs arbitrary: s) (auto intro: subject_step_inv)

lemma all_present_JObj:
  "all_present (JObj kvs) fs =
     Inr (list_all (\<lambda>f. case map_of (rev kvs) f of None \<Rightarrow> False | Some v \<Rightarrow> truthy v) fs)"
  by (induction fs) (auto split: option.splits)

lemma subjects_inv_id_unique:
  "subjects_inv s \<Longrightarrow> x \<in> set (subjects s) \<Longrightarrow> y \<in> set (subjects s) \<Longrightarrow>
   subject_id y = subject_id x \<Longrightarrow> y = x"
  by (auto simp: subjects_inv_def dest: inj_onD [OF distinct_map [THEN iffD1, THEN conjunct2]])

lemma find_owned:
  "subjects_inv s \<Longrightarrow> x \<in> set (subjects s) \<Longrightarrow> subject_user_id x = uid \<Longrightarrow>
   find (\<lambda>y. subject_id y = subject_id x \<and> subject_user_id y = uid) (subjects s) = Some x"
  by (intro find_unique) (blast dest: subjects_inv_id_unique)+

lemma owned_subject_unique:
  "subjects_inv s \<Longrightarrow> owned_subject s e sid = Inr (Some x) \<Longrightarrow> y \<in> set (subjects s) \<Longrightarrow>
   subject_id y = subject_id x \<Longrightarrow> y = x"
  by (blast dest: owned_subject_Some subjects_inv_id_unique)

text \<open>C35. \<open>add_subject\<close> with all five fields present and valid appends the new row
  (a fresh id, the requesting user, zero progress, the clock as creation time) and answers
  its \<open>to_dict\<close>.\<close>

theorem add_subject_success:
  assumes "find_user s e = Some u"
    and "data = JObj [(''name'', JStr nm), (''chapters'', JInt ch), (''difficulty'', JStr df),
                      (''deadline'', JStr t), (''priority'', JStr pr)]"
    and "nm \<noteq> []" "ch \<noteq> 0" "df \<noteq> []" "t \<noteq> []" "pr \<noteq> []" "parse_iso t = Some dl"
    and "in_int64 ch"
  shows "add_subject parse_iso now e data s =
           (Inr (subject_to_dict now (new_subject (next_subject_id s) (user_id u) nm ch df pr dl now)),
            s\<lparr>subjects := subjects s @ [new_subject (next_subject_id s) (user_id u) nm ch df pr dl now]\<rparr>)"
  using assms
  by (simp add: add_subject_def add_subject_body_def all_present_JObj subject_required_def Let_def)

text \<open>\<open>add_subject\<close> with a required field missing or falsy answers 400 Missing
  required fields and leaves the database unchanged.\<close>

theorem add_subject_missing_field:
  assumes "find_user s e = Some u" "f \<in> set subject_required"
    and "case map_of (rev kvs) f of None \<Rightarrow> True | Some v \<Rightarrow> \<not> truthy v"
  shows "add_subject parse_iso now e (JObj kvs) s = (Inl (Client_error 400 ''Missing required fields''), s)"
proof -
  have "\<not> list_all (\<lambda>f. case map_of (rev kvs) f of None \<Rightarrow> False | Some v \<Rightarrow> truthy v) subject_required"
    using assms(2,3) by (auto simp: list_all_iff split: option.splits intro!: bexI [of _ f])
  then show ?thesis
    using assms(1) by (simp add: add_subject_def add_subject_body_def all_present_JObj)
qed

text \<open>C7. \<open>update_subject\<close> and \<open>delete_subject\<close> never change a row that belongs
  to another user, whatever the request.\<close>

theorem subject_changes_isolated:
  assumes inv: "subjects_inv s" and u: "find_user s e = Some u"
  shows "filter (\<lambda>y. subject_user_id y \<noteq> user_id u) (subjects (snd (update_subject now e sid data s))) =
           filter (\<lambda>y. subject_user_id y \<noteq> user_id u) (subjects s) \<and>
         filter (\<lambda>y. subject_user_id y \<noteq> user_id u) (subjects (snd (delete_subject e sid s))) =
           filter (\<lambda>y. subject_user_id y \<noteq> user_id u) (subjects s)"
proof
  show "filter (\<lambda>y. subject_user_id y \<noteq> user_id u) (subjects (snd (update_subject now e sid data s))) =
          filter (\<lambda>y. subject_user_id y \<noteq> user_id u) (subjects s)"
  proof (cases "update_subject_body now e sid data s")
    case (Inr rs)
    then obtain r s' where ok: "update_subject_body now e sid data s = Inr (r, s')" by (cases rs) auto
    then obtain x x' where x: "owned_subject s e sid = Inr (Some x)" "apply_updates now data x = Inr x'"
      and s': "s' = s\<lparr>subjects := update_rows (\<lambda>y. subject_id y = subject_id x) (\<lambda>_. x') (subjects s)\<rparr>"
      using update_subject_body_Inr by blast
    have own: "subject_user_id x = user_id u"
      using owned_subject_Some [OF x(1)] u by auto
    have "filter (\<lambda>y. subject_user_id y \<noteq> user_id u) (subjects s') =
            filter (\<lambda>y. subject_user_id y \<noteq> user_id u) (subjects s)"
    proof (unfold s', simp, intro update_rows_other)
      fix y assume "y \<in> set (subjects s)" "subject_id y = subject_id x"
      then have "y = x" by (rule owned_subject_unique [OF inv x(1)])
      then show "\<not> subject_user_id y \<noteq> user_id u \<and> \<not> subject_user_id x' \<noteq> user_id u"
        using apply_updates_keys [OF x(2)] own by simp
    qed
    then show ?thesis using ok by (simp add: update_subject_def)
  qed (simp add: update_subject_def)
next
  show "filter (\<lambda>y. subject_user_id y \<noteq> user_id u) (subjects (snd (delete_subject e sid s))) =
          filter (\<lambda>y. subject_user_id y \<noteq> user_id u) (subjects s)"
  proof (cases "delete_subject_body e sid s")
    case (Inr rs)
    then obtain r s' where ok: "delete_subject_body e sid s = Inr (r, s')" by (cases rs) auto
    then obtain x where x: "owned_subject s e sid = Inr (Some x)"
      and s': "s' = s\<lparr>subjects := filter (\<lambda>y. subject_id y \<noteq> subject_id x) (subjects s)\<rparr>"
      using delete_subject_body_Inr by blast
    have own: "subject_user_id x = user_id u"
      using owned_subject_Some [OF x(1)] u by auto
    have "filter (\<lambda>y. subject_user_id y \<noteq> user_id u) (filter (\<lambda>y. subject_id y \<noteq> subject_id x) (subjects s)) =
            filter (\<lambda>y. subject_user_id y \<noteq> user_id u) (subjects s)"
      by (rule filter_filter_other) (use owned_subject_unique [OF inv x(1)] own in blast)
    then have "filter (\<lambda>y. subject_user_id y \<noteq> user_id u) (subjects s') =
            filter (\<lambda>y. subject_user_id y \<noteq> user_id u) (subjects s)"
      by (simp add: s')
    then show ?thesis using ok by (simp add: delete_subject_def)
  qed (simp add: delete_subject_def)
qed

text \<open>C10. \<open>delete_subject\<close> on a row of the requesting user removes exactly that row
  (a hard delete: \<open>is_deleted\<close> is never set).\<close>

theorem delete_subject_removes:
  assumes inv: "subjects_inv s" and u: "find_user s e = Some u"
    and x: "x \<in> set (subjects s)" "subject_user_id x = user_id u"
  shows "delete_subject e (subject_id x) s = (Inr (), s\<lparr>subjects := removeAll x (subjects s)\<rparr>)"
proof -
  have uniq: "y \<in> set (subjects s) \<Longrightarrow> subject_id y = subject_id x \<Longrightarrow> y = x" for y
    using inv x(1) by (rule subjects_inv_id_unique)
  have f: "find (\<lambda>y. subject_id y = subject_id x \<and> subject_user_id y = user_id u) (subjects s) = Some x"
    using inv x by (rule find_owned)
  have "filter (\<lambda>y. subject_id y \<noteq> subject_id x) (subjects s) = removeAll x (subjects s)"
    unfolding removeAll_filter_not_eq by (rule filter_cong) (use uniq in blast)+
  then show ?thesis
    using u f by (simp add: delete_subject_def delete_subject_body_def owned_subject_def)
qed

text \<open>C36. \<open>update_subject\<close> with only \<open>completed_chapters\<close> sets that column to
  \<open>int()\<close> of the value and \<open>updated_at\<close> to the clock, and leaves every other
  column and every other row alone.\<close>

theorem update_subject_completed:
  assumes "find_user s e = Some u" "x \<in> set (subjects s)" "subject_user_id x = user_id u"
    and "subjects_inv s" "py_int v = Inr c" "in_int64 c"
  shows "update_subject now e (subject_id x) (JObj [(''completed_chapters'', v)]) s =
           (Inr (subject_to_dict now (x\<lparr>completed_chapters := c, subject_updated_at := now\<rparr>)),
            s\<lparr>subjects := update_rows (\<lambda>y. subject_id y = subject_id x)
                             (\<lambda>_. x\<lparr>completed_chapters := c, subject_updated_at := now\<rparr>) (subjects s)\<rparr>)"
proof -
  have "find (\<lambda>y. subject_id y = subject_id x \<and> subject_user_id y = user_id u) (subjects s) = Some x"
    using assms(2,3,4) by (simp add: find_owned)
  then show ?thesis
    using assms(1,5,6)
    by (simp add: update_subject_def update_subject_body_def owned_subject_def apply_updates_def
                  opt_field_def opt_conv_def opt_or_def)
qed

text \<open>C37. Without a user for the token, \<open>get_subjects\<close> and \<open>add_subject\<close> answer
  404, while \<open>update_subject\<close> and \<open>delete_subject\<close> raise on \<open>user.id\<close> and
  answer 500; none changes the database.\<close>

theorem subject_handlers_no_user:
  assumes "find_user s e = None"
  shows "get_subjects now e s = (Inl (Client_error 404 ''User not found''), s) \<and>
         add_subject parse_iso now e data s = (Inl (Client_error 404 ''User not found''), s) \<and>
         update_subject now e sid data s = (Inl (Server_error AttributeError), s) \<and>
         delete_subject e sid s = (Inl (Server_error AttributeError), s)"
  using assms
  by (simp add: get_subjects_def get_subjects_body_def add_subject_def add_subject_body_def
                update_subject_def update_subject_body_def delete_subject_def delete_subject_body_def
                owned_subject_def)

text \<open>\<open>update_subject\<close> and \<open>delete_subject\<close> on an id that is not one of the
  requesting user's rows answer 404 and change nothing.\<close>

theorem subject_not_owned:
  assumes "find_user s e = Some u"
    and "sid \<notin> subject_id ` set (user_subjects s u)"
  shows "update_subject now e sid data s = (Inl (Client_error 404 ''Subject not found''), s) \<and>
         delete_subject e sid s = (Inl (Client_error 404 ''Subject not found''), s)"
proof -
  have "find (\<lambda>y. subject_id y = sid \<and> subject_user_id y = user_id u) (subjects s) = None"
    using assms(2) by (auto simp: find_None_iff user_subjects_def)
  then show ?thesis
    using assms(1)
    by (simp add: update_subject_def update_subject_body_def delete_subject_def delete_subject_body_def
                  owned_subject_def)
qed

text \<open>C38. For a row with \<open>0 \<le> completed_chapters \<le> chapters\<close>, \<open>to_dict\<close> reports a
  completion percentage between 0 and 100 and a non-negative number of days left.\<close>

theorem subject_to_dict_bounds:
  assumes "0 \<le> completed_chapters x" "completed_chapters x \<le> chapters x"
  shows "0 \<le> sv_completion_percentage (subject_to_dict now x) \<and>
         sv_completion_percentage (subject_to_dict now x) \<le> 100 \<and>
         0 \<le> sv_days_left (subject_to_dict now x)"
proof -
  have "0 \<le> of_int (completed_chapters x) / of_int (chapters x) * (100 :: rat) \<and>
        of_int (completed_chapters x) / of_int (chapters x) * (100 :: rat) \<le> 100" if "0 < chapters x"
    using assms that by (simp add: pos_divide_le_eq)
  then show ?thesis
    by (auto simp: subject_to_dict_def completion_percentage_def intro!: py_round1_bounds)
qed

theorem subject_run_preserves_inv_witness:
  "subjects_inv (db_of [(user.make 1 ''ann'' ''ann@x.org'' ''h'' 0), (user.make 2 ''bob'' ''bob@x.org'' ''h'' 0)] [(new_subject 1 1 ''Maths'' 10 ''hard'' ''high'' 100 0), (new_subject 2 2 ''Art'' 4 ''easy'' ''low'' 100 0)] []) \<and>
   subjects_inv (subject_run (\<lambda>t. if t = ''2026-12-01'' then Some 100 else None) [Req_add_subject 0 ''ann@x.org'' (JObj [(''name'', JStr ''Physics''), (''chapters'', JInt 12), (''difficulty'', JStr ''medium''), (''deadline'', JStr ''2026-12-01''), (''priority'', JStr ''high'')]), Req_update_subject 0 ''ann@x.org'' 1 (JObj [(''completed_chapters'', JInt 4)]), Req_delete_subject ''bob@x.org'' 2] (db_of [(user.make 1 ''ann'' ''ann@x.org'' ''h'' 0), (user.make 2 ''bob'' ''bob@x.org'' ''h'' 0)] [(new_subject 1 1 ''Maths'' 10 ''hard'' ''high'' 100 0), (new_subject 2 2 ''Art'' 4 ''easy'' ''low'' 100 0)] []))"
proof -
  have inv: "subjects_inv (db_of [(user.make 1 ''ann'' ''ann@x.org'' ''h'' 0), (user.make 2 ''bob'' ''bob@x.org'' ''h'' 0)] [(new_subject 1 1 ''Maths'' 10 ''hard'' ''high'' 100 0), (new_subject 2 2 ''Art'' 4 ''easy'' ''low'' 100 0)] [])" by (simp add: find_user_def db_of_def user.defs subjects_inv_def new_subject_def)
  show ?thesis using subject_run_preserves_inv [OF inv] inv by blast
qed

theorem add_subject_success_witness:
  "find_user (db_of [(user.make 1 ''ann'' ''ann@x.org'' ''h'' 0), (user.make 2 ''bob'' ''bob@x.org'' ''h'' 0)] [(new_subject 1 1 ''Maths'' 10 ''hard'' ''high'' 100 0), (new_subject 2 2 ''Art'' 4 ''easy'' ''low'' 100 0)] []) ''ann@x.org'' = Some (user.make 1 ''ann'' ''ann@x.org'' ''h'' 0) \<and> next_subject_id (db_of [(user.make 1 ''ann'' ''ann@x.org'' ''h'' 0), (user.make 2 ''bob'' ''bob@x.org'' ''h'' 0)] [(new_subject 1 1 ''Maths'' 10 ''hard'' ''high'' 100 0), (new_subject 2 2 ''Art'' 4 ''easy'' ''low'' 100 0)] []) = 3 \<and>
   in_int64 12 \<and>
   add_subject (\<lambda>t. if t = ''2026-12-01'' then Some 100 else None) 5 ''ann@x.org'' (JObj [(''name'', JStr ''Physics''), (''chapters'', JInt 12), (''difficulty'', JStr ''medium''), (''deadline'', JStr ''2026-12-01''), (''priority'', JStr ''high'')]) (db_of [(user.make 1 ''ann'' ''ann@x.org'' ''h'' 0), (user.make 2 ''bob'' ''bob@x.org'' ''h'' 0)] [(new_subject 1 1 ''Maths'' 10 ''hard'' ''high'' 100 0), (new_subject 2 2 ''Art'' 4 ''easy'' ''low'' 100 0)] []) =
     (Inr (subject_to_dict 5 (new_subject 3 1 ''Physics'' 12 ''medium'' ''high'' 100 5)),
      (db_of [(user.make 1 ''ann'' ''ann@x.org'' ''h'' 0), (user.make 2 ''bob'' ''bob@x.org'' ''h'' 0)] [(new_subject 1 1 ''Maths'' 10 ''hard'' ''high'' 100 0), (new_subject 2 2 ''Art'' 4 ''easy'' ''low'' 100 0)] [])\<lparr>subjects := subjects (db_of [(user.make 1 ''ann'' ''ann@x.org'' ''h'' 0), (user.make 2 ''bob'' ''bob@x.org'' ''h'' 0)] [(new_subject 1 1 ''Maths'' 10 ''hard'' ''high'' 100 0), (new_subject 2 2 ''Art'' 4 ''easy'' ''low'' 100 0)] []) @ [new_subject 3 1 ''Physics'' 12 ''medium'' ''high'' 100 5]\<rparr>)"
  using add_subject_success [of "(db_of [(user.make 1 ''ann'' ''ann@x.org'' ''h'' 0), (user.make 2 ''bob'' ''bob@x.org'' ''h'' 0)] [(new_subject 1 1 ''Maths'' 10 ''hard'' ''high'' 100 0), (new_subject 2 2 ''Art'' 4 ''easy'' ''low'' 100 0)] [])" "''ann@x.org''" "(user.make 1 ''ann'' ''ann@x.org'' ''h'' 0)" "(JObj [(''name'', JStr ''Physics''), (''chapters'', JInt 12), (''difficulty'', JStr ''medium''), (''deadline'', JStr ''2026-12-01''), (''priority'', JStr ''high'')])" "''Physics''" 12 "''medium''" "''2026-12-01''" "''high''" "(\<lambda>t. if t = ''2026-12-01'' then Some 100 else None)" 100 5]
  by (simp add: find_user_def db_of_def user.defs next_subject_id_def numeral_3_eq_3 in_int64_iff)

theorem add_subject_missing_field_witness:
  "find_user (db_of [(user.make 1 ''ann'' ''ann@x.org'' ''h'' 0), (user.make 2 ''bob'' ''bob@x.org'' ''h'' 0)] [(new_subject 1 1 ''Maths'' 10 ''hard'' ''high'' 100 0), (new_subject 2 2 ''Art'' 4 ''easy'' ''low'' 100 0)] []) ''ann@x.org'' = Some (user.make 1 ''ann'' ''ann@x.org'' ''h'' 0) \<and>
   add_subject (\<lambda>t. if t = ''2026-12-01'' then Some 100 else None) 5 ''ann@x.org'' (JObj [(''name'', JStr ''Physics''), (''chapters'', JInt 0)]) (db_of [(user.make 1 ''ann'' ''ann@x.org'' ''h'' 0), (user.make 2 ''bob'' ''bob@x.org'' ''h'' 0)] [(new_subject 1 1 ''Maths'' 10 ''hard'' ''high'' 100 0), (new_subject 2 2 ''Art'' 4 ''easy'' ''low'' 100 0)] []) =
     (Inl (Client_error 400 ''Missing required fields''), (db_of [(user.make 1 ''ann'' ''ann@x.org'' ''h'' 0), (user.make 2 ''bob'' ''bob@x.org'' ''h'' 0)] [(new_subject 1 1 ''Maths'' 10 ''hard'' ''high'' 100 0), (new_subject 2 2 ''Art'' 4 ''easy'' ''low'' 100 0)] []))"
  using add_subject_missing_field [of "(db_of [(user.make 1 ''ann'' ''ann@x.org'' ''h'' 0), (user.make 2 ''bob'' ''bob@x.org'' ''h'' 0)] [(new_subject 1 1 ''Maths'' 10 ''hard'' ''high'' 100 0), (new_subject 2 2 ''Art'' 4 ''easy'' ''low'' 100 0)] [])" "''ann@x.org''" "(user.make 1 ''ann'' ''ann@x.org'' ''h'' 0)" "''chapters''" "[(''name'', JStr ''Physics''), (''chapters'', JInt 0)]" "(\<lambda>t. if t = ''2026-12-01'' then Some 100 else None)" 5]
  by (simp add: find_user_def db_of_def user.defs subject_required_def)

theorem subject_changes_isolated_witness:
  "subjects_inv (db_of [(user.make 1 ''ann'' ''ann@x.org'' ''h'' 0), (user.make 2 ''bob'' ''bob@x.org'' ''h'' 0)] [(new_subject 1 1 ''Maths'' 10 ''hard'' ''high'' 100 0), (new_subject 2 2 ''Art'' 4 ''easy'' ''low'' 100 0)] []) \<and> find_user (db_of [(user.make 1 ''ann'' ''ann@x.org'' ''h'' 0), (user.make 2 ''bob'' ''bob@x.org'' ''h'' 0)] [(new_subject 1 1 ''Maths'' 10 ''hard'' ''high'' 100 0), (new_subject 2 2 ''Art'' 4 ''easy'' ''low'' 100 0)] []) ''ann@x.org'' = Some (user.make 1 ''ann'' ''ann@x.org'' ''h'' 0) \<and>
   filter (\<lambda>y. subject_user_id y \<noteq> 1) (subjects (snd (update_subject 5 ''ann@x.org'' 2 (JObj [(''priority'', JStr ''low'')]) (db_of [(user.make 1 ''ann'' ''ann@x.org'' ''h'' 0), (user.make 2 ''bob'' ''bob@x.org'' ''h'' 0)] [(new_subject 1 1 ''Maths'' 10 ''hard'' ''high'' 100 0), (new_subject 2 2 ''Art'' 4 ''easy'' ''low'' 100 0)] [])))) = [(new_subject 2 2 ''Art'' 4 ''easy'' ''low'' 100 0)] \<and>
   filter (\<lambda>y. subject_user_id y \<noteq> 1) (subjects (snd (delete_subject ''ann@x.org'' 2 (db_of [(user.make 1 ''ann'' ''ann@x.org'' ''h'' 0), (user.make 2 ''bob'' ''bob@x.org'' ''h'' 0)] [(new_subject 1 1 ''Maths'' 10 ''hard'' ''high'' 100 0), (new_subject 2 2 ''Art'' 4 ''easy'' ''low'' 100 0)] [])))) = [(new_subject 2 2 ''Art'' 4 ''easy'' ''low'' 100 0)]"
  using subject_changes_isolated [of "(db_of [(user.make 1 ''ann'' ''ann@x.org'' ''h'' 0), (user.make 2 ''bob'' ''bob@x.org'' ''h'' 0)] [(new_subject 1 1 ''Maths'' 10 ''hard'' ''high'' 100 0), (new_subject 2 2 ''Art'' 4 ''easy'' ''low'' 100 0)] [])" "''ann@x.org''" "(user.make 1 ''ann'' ''ann@x.org'' ''h'' 0)" 5 2 "JObj [(''priority'', JStr ''low'')]"]
  by (simp add: find_user_def db_of_def user.defs subjects_inv_def new_subject_def)

theorem delete_subject_removes_witness:
  "subjects_inv (db_of [(user.make 1 ''ann'' ''ann@x.org'' ''h'' 0), (user.make 2 ''bob'' ''bob@x.org'' ''h'' 0)] [(new_subject 1 1 ''Maths'' 10 ''hard'' ''high'' 100 0), (new_subject 2 2 ''Art'' 4 ''easy'' ''low'' 100 0)] []) \<and> find_user (db_of [(user.make 1 ''ann'' ''ann@x.org'' ''h'' 0), (user.make 2 ''bob'' ''bob@x.org'' ''h'' 0)] [(new_subject 1 1 ''Maths'' 10 ''hard'' ''high'' 100 0), (new_subject 2 2 ''Art'' 4 ''easy'' ''low'' 100 0)] []) ''ann@x.org'' = Some (user.make 1 ''ann'' ''ann@x.org'' ''h'' 0) \<and>
   delete_subject ''ann@x.org'' 1 (db_of [(user.make 1 ''ann'' ''ann@x.org'' ''h'' 0), (user.make 2 ''bob'' ''bob@x.org'' ''h'' 0)] [(new_subject 1 1 ''Maths'' 10 ''hard'' ''high'' 100 0), (new_subject 2 2 ''Art'' 4 ''easy'' ''low'' 100 0)] []) = (Inr (), (db_of [(user.make 1 ''ann'' ''ann@x.org'' ''h'' 0), (user.make 2 ''bob'' ''bob@x.org'' ''h'' 0)] [(new_subject 1 1 ''Maths'' 10 ''hard'' ''high'' 100 0), (new_subject 2 2 ''Art'' 4 ''easy'' ''low'' 100 0)] [])\<lparr>subjects := [(new_subject 2 2 ''Art'' 4 ''easy'' ''low'' 100 0)]\<rparr>)"
  using delete_subject_removes [of "(db_of [(user.make 1 ''ann'' ''ann@x.org'' ''h'' 0), (user.make 2 ''bob'' ''bob@x.org'' ''h'' 0)] [(new_subject 1 1 ''Maths'' 10 ''hard'' ''high'' 100 0), (new_subject 2 2 ''Art'' 4 ''easy'' ''low'' 100 0)] [])" "''ann@x.org''" "(user.make 1 ''ann'' ''ann@x.org'' ''h'' 0)" "(new_subject 1 1 ''Maths'' 10 ''hard'' ''high'' 100 0)"]
  by (simp add: find_user_def db_of_def user.defs subjects_inv_def new_subject_def)

theorem update_subject_completed_witness:
  "subjects_inv (db_of [(user.make 1 ''ann'' ''ann@x.org'' ''h'' 0), (user.make 2 ''bob'' ''bob@x.org'' ''h'' 0)] [(new_subject 1 1 ''Maths'' 10 ''hard'' ''high'' 100 0), (new_subject 2 2 ''Art'' 4 ''easy'' ''low'' 100 0)] []) \<and> find_user (db_of [(user.make 1 ''ann'' ''ann@x.org'' ''h'' 0), (user.make 2 ''bob'' ''bob@x.org'' ''h'' 0)] [(new_subject 1 1 ''Maths'' 10 ''hard'' ''high'' 100 0), (new_subject 2 2 ''Art'' 4 ''easy'' ''low'' 100 0)] []) ''ann@x.org'' = Some (user.make 1 ''ann'' ''ann@x.org'' ''h'' 0) \<and>
   in_int64 4 \<and>
   update_subject 5 ''ann@x.org'' 1 (JObj [(''completed_chapters'', JStr ''4'')]) (db_of [(user.make 1 ''ann'' ''ann@x.org'' ''h'' 0), (user.make 2 ''bob'' ''bob@x.org'' ''h'' 0)] [(new_subject 1 1 ''Maths'' 10 ''hard'' ''high'' 100 0), (new_subject 2 2 ''Art'' 4 ''easy'' ''low'' 100 0)] []) =
     (Inr (subject_to_dict 5 ((new_subject 1 1 ''Maths'' 10 ''hard'' ''high'' 100 0)\<lparr>completed_chapters := 4, subject_updated_at := 5\<rparr>)),
      (db_of [(user.make 1 ''ann'' ''ann@x.org'' ''h'' 0), (user.make 2 ''bob'' ''bob@x.org'' ''h'' 0)] [(new_subject 1 1 ''Maths'' 10 ''hard'' ''high'' 100 0), (new_subject 2 2 ''Art'' 4 ''easy'' ''low'' 100 0)] [])\<lparr>subjects := [(new_subject 1 1 ''Maths'' 10 ''hard'' ''high'' 100 0)\<lparr>completed_chapters := 4, subject_updated_at := 5\<rparr>, (new_subject 2 2 ''Art'' 4 ''easy'' ''low'' 100 0)]\<rparr>)"
  using update_subject_completed [of "(db_of [(user.make 1 ''ann'' ''ann@x.org'' ''h'' 0), (user.make 2 ''bob'' ''bob@x.org'' ''h'' 0)] [(new_subject 1 1 ''Maths'' 10 ''hard'' ''high'' 100 0), (new_subject 2 2 ''Art'' 4 ''easy'' ''low'' 100 0)] [])" "''ann@x.org''" "(user.make 1 ''ann'' ''ann@x.org'' ''h'' 0)" "(new_subject 1 1 ''Maths'' 10 ''hard'' ''high'' 100 0)" "JStr ''4''" 4 5]
  by (simp add: find_user_def db_of_def user.defs subjects_inv_def new_subject_def py_int_of_string_def strip_space_def py_space_def parse_unsigned_def digit_val_def in_int64_iff)

theorem subject_handlers_no_user_witness:
  "find_user (db_of [(user.make 1 ''ann'' ''ann@x.org'' ''h'' 0), (user.make 2 ''bob'' ''bob@x.org'' ''h'' 0)] [(new_subject 1 1 ''Maths'' 10 ''hard'' ''high'' 100 0), (new_subject 2 2 ''Art'' 4 ''easy'' ''low'' 100 0)] []) ''eve@x.org'' = None \<and>
   update_subject 5 ''eve@x.org'' 1 (JObj []) (db_of [(user.make 1 ''ann'' ''ann@x.org'' ''h'' 0), (user.make 2 ''bob'' ''bob@x.org'' ''h'' 0)] [(new_subject 1 1 ''Maths'' 10 ''hard'' ''high'' 100 0), (new_subject 2 2 ''Art'' 4 ''easy'' ''low'' 100 0)] []) = (Inl (Server_error AttributeError), (db_of [(user.make 1 ''ann'' ''ann@x.org'' ''h'' 0), (user.make 2 ''bob'' ''bob@x.org'' ''h'' 0)] [(new_subject 1 1 ''Maths'' 10 ''hard'' ''high'' 100 0), (new_subject 2 2 ''Art'' 4 ''easy'' ''low'' 100 0)] []))"
  using subject_handlers_no_user [of "(db_of [(user.make 1 ''ann'' ''ann@x.org'' ''h'' 0), (user.make 2 ''bob'' ''bob@x.org'' ''h'' 0)] [(new_subject 1 1 ''Maths'' 10 ''hard'' ''high'' 100 0), (new_subject 2 2 ''Art'' 4 ''easy'' ''low'' 100 0)] [])" "''eve@x.org''" 5 "(\<lambda>t. if t = ''2026-12-01'' then Some 100 else None)" "JObj []" 1]
  by (simp add: find_user_def db_of_def user.defs)

theorem subject_not_owned_witness:
  "find_user (db_of [(user.make 1 ''ann'' ''ann@x.org'' ''h'' 0), (user.make 2 ''bob'' ''bob@x.org'' ''h'' 0)] [(new_subject 1 1 ''Maths'' 10 ''hard'' ''high'' 100 0), (new_subject 2 2 ''Art'' 4 ''easy'' ''low'' 100 0)] []) ''ann@x.org'' = Some (user.make 1 ''ann'' ''ann@x.org'' ''h'' 0) \<and>
   delete_subject ''ann@x.org'' 2 (db_of [(user.make 1 ''ann'' ''ann@x.org'' ''h'' 0), (user.make 2 ''bob'' ''bob@x.org'' ''h'' 0)] [(new_subject 1 1 ''Maths'' 10 ''hard'' ''high'' 100 0), (new_subject 2 2 ''Art'' 4 ''easy'' ''low'' 100 0)] []) = (Inl (Client_error 404 ''Subject not found''), (db_of [(user.make 1 ''ann'' ''ann@x.org'' ''h'' 0), (user.make 2 ''bob'' ''bob@x.org'' ''h'' 0)] [(new_subject 1 1 ''Maths'' 10 ''hard'' ''high'' 100 0), (new_subject 2 2 ''Art'' 4 ''easy'' ''low'' 100 0)] []))"
  using subject_not_owned [of "(db_of [(user.make 1 ''ann'' ''ann@x.org'' ''h'' 0), (user.make 2 ''bob'' ''bob@x.org'' ''h'' 0)] [(new_subject 1 1 ''Maths'' 10 ''hard'' ''high'' 100 0), (new_subject 2 2 ''Art'' 4 ''easy'' ''low'' 100 0)] [])" "''ann@x.org''" "(user.make 1 ''ann'' ''ann@x.org'' ''h'' 0)" 2 5 "JObj []"]
  by (simp add: find_user_def db_of_def user.defs subjects_inv_def new_subject_def user_subjects_def)

theorem subject_to_dict_bounds_witness:
  "sv_completion_percentage (subject_to_dict 0 ((new_subject 1 1 ''Maths'' 10 ''hard'' ''high'' 100 0)\<lparr>completed_chapters := 3\<rparr>)) = 30 \<and>
   0 \<le> sv_days_left (subject_to_dict 0 ((new_subject 1 1 ''Maths'' 10 ''hard'' ''high'' 100 0)\<lparr>completed_chapters := 3\<rparr>))"
  using subject_to_dict_bounds [of "(new_subject 1 1 ''Maths'' 10 ''hard'' ''high'' 100 0)\<lparr>completed_chapters := 3\<rparr>" 0]
  by (simp add: new_subject_def subject_to_dict_def completion_percentage_def py_round1_def Let_def)

end
