(* ===== verification/Auth.thy ===== *)
theory Auth
  imports Gamification Subjects
begin

text \<open>
  Registration, login and the current user (app.py lines 36--63 and 207--292):
  \<open>User.set_password\<close>, \<open>User.check_password\<close>, \<open>User.to_dict\<close>,
  \<open>register\<close>, \<open>login\<close> and \<open>get_user\<close>. Werkzeug's salted password hash and
  its check, and JWT creation, are library calls: the hash is the parameter \<open>hash\<close>
  (a string to a string), its check the parameter \<open>check\<close>, and a token is
  represented by the identity it carries (\<open>create_access_token(identity=email)\<close>;
  \<open>get_jwt_identity()\<close> of a later request returns it). Request values compared
  with or written to the text columns \<open>email\<close> and \<open>name\<close> follow SQLite's
  column affinity (\<open>text_column\<close>).
\<close>

section \<open>The user row\<close>

text \<open>\<open>generate_password_hash(password)\<close> encodes its argument: anything but a
  string raises \<open>AttributeError\<close> (\<open>'int' object has no attribute 'encode'\<close>);
  so does \<open>check_password_hash\<close>.\<close>

definition set_password :: "(string \<Rightarrow> string) \<Rightarrow> jval \<Rightarrow> error + string" where
  "set_password hash v = (case v of JStr p \<Rightarrow> Inr (hash p) | _ \<Rightarrow> Inl (Server_error AttributeError))"

definition check_password ::
  "(string \<Rightarrow> string \<Rightarrow> bool) \<Rightarrow> user \<Rightarrow> jval \<Rightarrow> error + bool" where
  "check_password check u v =
     (case v of JStr p \<Rightarrow> Inr (check (password u) p) | _ \<Rightarrow> Inl (Server_error AttributeError))"

record user_view =
  uv_id :: nat
  uv_name :: string
  uv_email :: string
  uv_created_at :: datetime

definition user_to_dict :: "user \<Rightarrow> user_view" where
  "user_to_dict u =
     \<lparr>uv_id = user_id u, uv_name = user_name u, uv_email = email u, uv_created_at = user_created_at u\<rparr>"

text \<open>The primary keys SQLite gives the new rows.\<close>

definition next_user_id :: "db \<Rightarrow> nat" where
  "next_user_id s = Suc (foldr max (map user_id (users s)) 0)"

definition next_gam_id :: "db \<Rightarrow> nat" where
  "next_gam_id s = Suc (foldr max (map gam_id (gamifications s)) 0)"

section \<open>The handlers\<close>

text \<open>The answer of \<open>register\<close> and \<open>login\<close>: the token's identity and the user.\<close>

record auth_response =
  token_identity :: string
  auth_user :: user_view

text \<open>\<open>POST /api/register\<close>: the three fields must be truthy; the e-mail is looked
  up (409 when taken); the user and its \<open>Gamification(user=user)\<close> row are added and
  committed; the token carries the stored e-mail.\<close>

definition register_body ::
  "(string \<Rightarrow> string) \<Rightarrow> datetime \<Rightarrow> jval \<Rightarrow> db \<Rightarrow> error + (auth_response \<times> db)" where
  "register_body hash now data s =
     sbind (req_get data ''name'') (\<lambda>nm.
     sbind (if nm = None \<or> \<not> truthy (the nm) then Inr False else
            sbind (req_get data ''email'') (\<lambda>em.
            if em = None \<or> \<not> truthy (the em) then Inr False else
            sbind (req_get data ''password'') (\<lambda>pw. Inr (pw \<noteq> None \<and> truthy (the pw))))) (\<lambda>ok.
     if \<not> ok then Inl (Client_error 400 ''Missing required fields'') else
     sbind (sbind (py_getitem data ''email'') (text_column False)) (\<lambda>e.
     if find_user s e \<noteq> None then Inl (Client_error 409 ''Email already registered'') else
     sbind (py_getitem data ''name'') (\<lambda>nv.
     sbind (sbind (py_getitem data ''password'') (set_password hash)) (\<lambda>h.
     sbind (text_column False nv) (\<lambda>n.
       (let u = \<lparr>user_id = next_user_id s, user_name = n, email = e, password = h,
                 user_created_at = now\<rparr>
        in Inr (\<lparr>token_identity = email u, auth_user = user_to_dict u\<rparr>,
                s\<lparr>users := users s @ [u],
                  gamifications := gamifications s @ [new_gamification (next_gam_id s) (user_id u)]\<rparr>))))))))"

definition register ::
  "(string \<Rightarrow> string) \<Rightarrow> datetime \<Rightarrow> jval \<Rightarrow> db \<Rightarrow> (error + auth_response) \<times> db" where
  "register hash now data = run_tx (register_body hash now data)"

text \<open>\<open>POST /api/login\<close>: read only; 401 when no user has the e-mail or the
  password does not check.\<close>

definition login_body ::
  "(string \<Rightarrow> string \<Rightarrow> bool) \<Rightarrow> jval \<Rightarrow> db \<Rightarrow> error + (auth_response \<times> db)" where
  "login_body check data s =
     sbind (req_get data ''email'') (\<lambda>em.
     sbind (if em = None \<or> \<not> truthy (the em) then Inr False else
            sbind (req_get data ''password'') (\<lambda>pw. Inr (pw \<noteq> None \<and> truthy (the pw)))) (\<lambda>ok.
     if \<not> ok then Inl (Client_error 400 ''Missing email or password'') else
     sbind (sbind (py_getitem data ''email'') (text_column False)) (\<lambda>e.
     case find_user s e of
       None \<Rightarrow> Inl (Client_error 401 ''Invalid credentials'')
     | Some u \<Rightarrow>
         sbind (sbind (py_getitem data ''password'') (check_password check u)) (\<lambda>good.
           if \<not> good then Inl (Client_error 401 ''Invalid credentials'')
           else Inr (\<lparr>token_identity = email u, auth_user = user_to_dict u\<rparr>, s)))))"

definition login ::
  "(string \<Rightarrow> string \<Rightarrow> bool) \<Rightarrow> jval \<Rightarrow> db \<Rightarrow> (error + auth_response) \<times> db" where
  "login check data = run_tx (login_body check data)"

text \<open>\<open>GET /api/user\<close>: the user and, when it has one, its gamification row with
  its decoded badges.\<close>

definition get_user_body ::
  "string \<Rightarrow> db \<Rightarrow> error + ((user_view \<times> (gamification \<times> jval) option) \<times> db)" where
  "get_user_body e s =
     (case find_user s e of
        None \<Rightarrow> Inl (Client_error 404 ''User not found'')
      | Some u \<Rightarrow>
          (case user_gamification s u of
             None \<Rightarrow> Inr ((user_to_dict u, None), s)
           | Some g \<Rightarrow> sbind (get_badges g) (\<lambda>bs. Inr ((user_to_dict u, Some (g, bs)), s))))"

definition get_user :: "string \<Rightarrow> db \<Rightarrow> (error + (user_view \<times> (gamification \<times> jval) option)) \<times> db" where
  "get_user e = run_tx (get_user_body e)"

section \<open>Lemmas\<close>

lemma next_user_id_fresh: "next_user_id s \<notin> user_id ` set (users s)"
  using foldr_max_ge [of _ "map user_id (users s)"] by (fastforce simp: next_user_id_def)

lemma next_gam_id_fresh: "next_gam_id s \<notin> gam_id ` set (gamifications s)"
  using foldr_max_ge [of _ "map gam_id (gamifications s)"] by (fastforce simp: next_gam_id_def)

lemma find_user_append_new:
  "find_user s e = None \<Longrightarrow> email u = e \<Longrightarrow> find_user (s\<lparr>users := users s @ [u], gamifications := gs\<rparr>) e = Some u"
  by (simp add: find_user_def find_append_None)

text \<open>C8. \<open>register\<close> with a new e-mail and the three fields present adds the user
  (the next id, the hash of the password, the clock as creation time) and its default
  gamification row, and answers a token for the e-mail.\<close>

theorem register_success:
  assumes "data = JObj [(''name'', JStr n), (''email'', JStr e), (''password'', JStr p)]"
    and "n \<noteq> []" "e \<noteq> []" "p \<noteq> []" "find_user s e = None"
  shows "register hash now data s =
           (Inr \<lparr>token_identity = e,
                 auth_user = user_to_dict \<lparr>user_id = next_user_id s, user_name = n, email = e,
                                            password = hash p, user_created_at = now\<rparr>\<rparr>,
            s\<lparr>users := users s @ [\<lparr>user_id = next_user_id s, user_name = n, email = e,
                                   password = hash p, user_created_at = now\<rparr>],
              gamifications := gamifications s @ [new_gamification (next_gam_id s) (next_user_id s)]\<rparr>)"
  using assms by (simp add: register_def register_body_def set_password_def Let_def)

text \<open>\<open>register\<close> with an e-mail that is already registered answers 409 and
  changes nothing.\<close>

theorem register_duplicate:
  assumes "data = JObj [(''name'', JStr n), (''email'', JStr e), (''password'', JStr p)]"
    and "n \<noteq> []" "e \<noteq> []" "p \<noteq> []" "find_user s e \<noteq> None"
  shows "register hash now data s = (Inl (Client_error 409 ''Email already registered''), s)"
  using assms by (simp add: register_def register_body_def)

text \<open>C17. \<open>login\<close> answers a token for the user exactly when the password checks
  against the stored hash, and 401 otherwise; it never changes the database.\<close>

theorem login_checks_password:
  assumes "data = JObj [(''email'', JStr e), (''password'', JStr p)]" "e \<noteq> []" "p \<noteq> []"
    and "find_user s e = Some u"
  shows "login check data s =
           (if check (password u) p then (Inr \<lparr>token_identity = email u, auth_user = user_to_dict u\<rparr>, s)
            else (Inl (Client_error 401 ''Invalid credentials''), s))"
  using assms by (simp add: login_def login_body_def check_password_def run_tx_def)

text \<open>C18. A user who registers can log in with the same e-mail and password, provided the
  password check accepts the hash of a password (Werkzeug's contract).\<close>

theorem register_then_login:
  assumes "\<And>q. check (hash q) q"
    and "n \<noteq> []" "e \<noteq> []" "p \<noteq> []" "find_user s e = None"
  shows "fst (login check (JObj [(''email'', JStr e), (''password'', JStr p)])
               (snd (register hash now (JObj [(''name'', JStr n), (''email'', JStr e), (''password'', JStr p)]) s))) =
         Inr \<lparr>token_identity = e,
              auth_user = \<lparr>uv_id = next_user_id s, uv_name = n, uv_email = e, uv_created_at = now\<rparr>\<rparr>"
  using assms
  by (simp add: register_def register_body_def set_password_def Let_def login_def login_body_def
                check_password_def run_tx_def find_user_append_new user_to_dict_def)


theorem register_success_witness:
  "find_user (db_of [(user.make 1 ''ann'' ''ann@x.org'' ''h:pw'' 0)] [] [new_gamification 1 1]) ''bob@x.org'' = None \<and>
   register (\<lambda>q. ''h:'' @ q) 7 (JObj [(''name'', JStr ''bob''), (''email'', JStr ''bob@x.org''), (''password'', JStr ''secret'')]) (db_of [(user.make 1 ''ann'' ''ann@x.org'' ''h:pw'' 0)] [] [new_gamification 1 1]) =
     (Inr \<lparr>token_identity = ''bob@x.org'',
           auth_user = user_to_dict \<lparr>user_id = next_user_id (db_of [(user.make 1 ''ann'' ''ann@x.org'' ''h:pw'' 0)] [] [new_gamification 1 1]), user_name = ''bob'', email = ''bob@x.org'',
                                      password = ''h:secret'', user_created_at = 7\<rparr>\<rparr>,
      (db_of [(user.make 1 ''ann'' ''ann@x.org'' ''h:pw'' 0)] [] [new_gamification 1 1])\<lparr>users := users (db_of [(user.make 1 ''ann'' ''ann@x.org'' ''h:pw'' 0)] [] [new_gamification 1 1]) @ [\<lparr>user_id = next_user_id (db_of [(user.make 1 ''ann'' ''ann@x.org'' ''h:pw'' 0)] [] [new_gamification 1 1]), user_name = ''bob'', email = ''bob@x.org'',
                               password = ''h:secret'', user_created_at = 7\<rparr>],
         gamifications := gamifications (db_of [(user.make 1 ''ann'' ''ann@x.org'' ''h:pw'' 0)] [] [new_gamification 1 1]) @ [new_gamification (next_gam_id (db_of [(user.make 1 ''ann'' ''ann@x.org'' ''h:pw'' 0)] [] [new_gamification 1 1])) (next_user_id (db_of [(user.make 1 ''ann'' ''ann@x.org'' ''h:pw'' 0)] [] [new_gamification 1 1]))]\<rparr>)"
  using register_success [of "(JObj [(''name'', JStr ''bob''), (''email'', JStr ''bob@x.org''), (''password'', JStr ''secret'')])" "''bob''" "''bob@x.org''" "''secret''" "(db_of [(user.make 1 ''ann'' ''ann@x.org'' ''h:pw'' 0)] [] [new_gamification 1 1])" "(\<lambda>q. ''h:'' @ q)" 7]
  by (simp add: find_user_def user.defs)

theorem register_duplicate_witness:
  "find_user (db_of [(user.make 1 ''ann'' ''ann@x.org'' ''h:pw'' 0)] [] [new_gamification 1 1]) ''ann@x.org'' \<noteq> None \<and>
   register (\<lambda>q. ''h:'' @ q) 7 (JObj [(''name'', JStr ''ann''), (''email'', JStr ''ann@x.org''), (''password'', JStr ''x'')]) (db_of [(user.make 1 ''ann'' ''ann@x.org'' ''h:pw'' 0)] [] [new_gamification 1 1]) =
     (Inl (Client_error 409 ''Email already registered''), (db_of [(user.make 1 ''ann'' ''ann@x.org'' ''h:pw'' 0)] [] [new_gamification 1 1]))"
  using register_duplicate [of "JObj [(''name'', JStr ''ann''), (''email'', JStr ''ann@x.org''), (''password'', JStr ''x'')]"
                               "''ann''" "''ann@x.org''" "''x''" "(db_of [(user.make 1 ''ann'' ''ann@x.org'' ''h:pw'' 0)] [] [new_gamification 1 1])" "(\<lambda>q. ''h:'' @ q)" 7]
  by (simp add: find_user_def user.defs)

theorem login_checks_password_witness:
  "find_user (db_of [(user.make 1 ''ann'' ''ann@x.org'' ''h:pw'' 0)] [] [new_gamification 1 1]) ''ann@x.org'' = Some (user.make 1 ''ann'' ''ann@x.org'' ''h:pw'' 0) \<and>
   login (\<lambda>h q. h = ''h:'' @ q) (JObj [(''email'', JStr ''ann@x.org''), (''password'', JStr ''pw'')]) (db_of [(user.make 1 ''ann'' ''ann@x.org'' ''h:pw'' 0)] [] [new_gamification 1 1]) =
     (Inr \<lparr>token_identity = ''ann@x.org'', auth_user = user_to_dict (user.make 1 ''ann'' ''ann@x.org'' ''h:pw'' 0)\<rparr>, (db_of [(user.make 1 ''ann'' ''ann@x.org'' ''h:pw'' 0)] [] [new_gamification 1 1])) \<and>
   login (\<lambda>h q. h = ''h:'' @ q) (JObj [(''email'', JStr ''ann@x.org''), (''password'', JStr ''nope'')]) (db_of [(user.make 1 ''ann'' ''ann@x.org'' ''h:pw'' 0)] [] [new_gamification 1 1]) =
     (Inl (Client_error 401 ''Invalid credentials''), (db_of [(user.make 1 ''ann'' ''ann@x.org'' ''h:pw'' 0)] [] [new_gamification 1 1]))"
  using login_checks_password [of "JObj [(''email'', JStr ''ann@x.org''), (''password'', JStr ''pw'')]"
                                  "''ann@x.org''" "''pw''" "(db_of [(user.make 1 ''ann'' ''ann@x.org'' ''h:pw'' 0)] [] [new_gamification 1 1])" "(user.make 1 ''ann'' ''ann@x.org'' ''h:pw'' 0)" "(\<lambda>h q. h = ''h:'' @ q)"]
        login_checks_password [of "JObj [(''email'', JStr ''ann@x.org''), (''password'', JStr ''nope'')]"
                                  "''ann@x.org''" "''nope''" "(db_of [(user.make 1 ''ann'' ''ann@x.org'' ''h:pw'' 0)] [] [new_gamification 1 1])" "(user.make 1 ''ann'' ''ann@x.org'' ''h:pw'' 0)" "(\<lambda>h q. h = ''h:'' @ q)"]
  by (simp add: find_user_def user.defs)

theorem register_then_login_witness:
  "(\<forall>q. (\<lambda>h q. h = ''h:'' @ q) ((\<lambda>q. ''h:'' @ q) q) q) \<and> find_user (db_of [(user.make 1 ''ann'' ''ann@x.org'' ''h:pw'' 0)] [] [new_gamification 1 1]) ''bob@x.org'' = None \<and>
   fst (login (\<lambda>h q. h = ''h:'' @ q) (JObj [(''email'', JStr ''bob@x.org''), (''password'', JStr ''secret'')])
          (snd (register (\<lambda>q. ''h:'' @ q) 7 (JObj [(''name'', JStr ''bob''), (''email'', JStr ''bob@x.org''), (''password'', JStr ''secret'')]) (db_of [(user.make 1 ''ann'' ''ann@x.org'' ''h:pw'' 0)] [] [new_gamification 1 1])))) =
   Inr \<lparr>token_identity = ''bob@x.org'',
        auth_user = \<lparr>uv_id = next_user_id (db_of [(user.make 1 ''ann'' ''ann@x.org'' ''h:pw'' 0)] [] [new_gamification 1 1]), uv_name = ''bob'', uv_email = ''bob@x.org'', uv_created_at = 7\<rparr>\<rparr>"
  using register_then_login [of "(\<lambda>h q. h = ''h:'' @ q)" "(\<lambda>q. ''h:'' @ q)" "''bob''" "''bob@x.org''" "''secret''" "(db_of [(user.make 1 ''ann'' ''ann@x.org'' ''h:pw'' 0)] [] [new_gamification 1 1])" 7]
  by (simp add: find_user_def user.defs)

end
