(* ===== verification/Sessions.thy ===== *)
theory Sessions
  imports Gamification Subjects
begin

text \<open>
  Study sessions, reflections and moods (app.py lines 144--202 and 588--915):
  \<open>get_sessions\<close>, \<open>record_session\<close>, \<open>get_reflections\<close>,
  \<open>record_reflection\<close>, \<open>record_mood\<close> and \<open>get_moods\<close>. \<open>record_session\<close> is
  the one handler that writes two tables: it appends the session and adds its duration to
  the user's \<open>Gamification.total_minutes_studied\<close>. \<open>ORDER BY date DESC\<close> is a
  stable sort by descending date over the table's row order (SQLite leaves the order of
  equal dates unspecified; the model fixes one). The rate limit of \<open>record_mood\<close>
  (\<open>10 per hour\<close>) is not modelled.
\<close>

section \<open>Values and keys\<close>

text \<open>A request value bound as an SQL parameter: a list or an object cannot be bound,
  and an integer outside 64 bits raises \<open>OverflowError\<close>; the statement fails.\<close>

fun bind_param :: "jval \<Rightarrow> error + jval" where
  "bind_param (JInt i) = sbind (sql_int i) (\<lambda>j. Inr (JInt j))"
| "bind_param (JArr _) = Inl (Server_error DatabaseError)"
| "bind_param (JObj _) = Inl (Server_error DatabaseError)"
| "bind_param v = Inr v"

text \<open>\<open>data.get(k)\<close> as the value of a nullable column: a missing key is \<open>None\<close>.\<close>

definition opt_value :: "jval option \<Rightarrow> jval" where
  "opt_value v = (case v of None \<Rightarrow> JNull | Some w \<Rightarrow> w)"

definition next_session_id :: "db \<Rightarrow> nat" where
  "next_session_id s = Suc (foldr max (map session_id (study_sessions s)) 0)"

definition next_reflection_id :: "db \<Rightarrow> nat" where
  "next_reflection_id s = Suc (foldr max (map reflection_id (reflections s)) 0)"

definition next_mood_id :: "db \<Rightarrow> nat" where
  "next_mood_id s = Suc (foldr max (map mood_id (study_moods s)) 0)"

section \<open>Study sessions\<close>

text \<open>\<open>StudySession.query.filter_by(user_id=user.id).order_by(StudySession.date.desc())\<close>.\<close>

definition user_sessions :: "db \<Rightarrow> nat \<Rightarrow> study_session list" where
  "user_sessions s uid =
     sort_key (\<lambda>x. - session_date x) (filter (\<lambda>x. session_user_id x = uid) (study_sessions s))"

definition get_sessions_body :: "string \<Rightarrow> db \<Rightarrow> error + ((study_session list \<times> nat) \<times> db)" where
  "get_sessions_body e s =
     (case find_user s e of
        None \<Rightarrow> Inl (Client_error 404 ''User not found'')
      | Some u \<Rightarrow> Inr ((user_sessions s (user_id u), length (user_sessions s (user_id u))), s))"

definition get_sessions :: "string \<Rightarrow> db \<Rightarrow> (error + (study_session list \<times> nat)) \<times> db" where
  "get_sessions e = run_tx (get_sessions_body e)"

text \<open>\<open>POST /api/sessions\<close>: the keyword arguments of \<open>StudySession(...)\<close> in order,
  then \<open>user.gamification.total_minutes_studied += session.duration_minutes\<close> (a user
  without a gamification row makes it raise \<open>AttributeError\<close> on \<open>None\<close>), then the
  commit, which binds the session's \<open>subject_id\<close>, \<open>duration_minutes\<close> and
  \<open>pomodoro_count\<close> (the \<open>INSERT\<close>, taken first), then the new
  \<open>total_minutes_studied\<close> (the \<open>UPDATE\<close>), the integers within 64 bits;
  \<open>date\<close> takes its default, the clock.\<close>

definition record_session_body ::
  "datetime \<Rightarrow> string \<Rightarrow> jval \<Rightarrow> db \<Rightarrow> error + (study_session \<times> db)" where
  "record_session_body now e data s =
     (case find_user s e of
        None \<Rightarrow> Inl (Client_error 404 ''User not found'')
      | Some u \<Rightarrow>
          sbind (req_get data ''subject_id'') (\<lambda>sid.
          sbind (sbind (req_get_default data ''duration_minutes'' (JInt 25)) py_int) (\<lambda>dur.
          sbind (sbind (req_get_default data ''pomodoro_count'' (JInt 1)) py_int) (\<lambda>pc.
          (case user_gamification s u of
             None \<Rightarrow> Inl (Server_error AttributeError)
           | Some g \<Rightarrow>
               sbind (bind_param (opt_value sid)) (\<lambda>sid'.
               sbind (sql_int dur) (\<lambda>_.
               sbind (sql_int pc) (\<lambda>_.
               sbind (sql_int (total_minutes_studied g + dur)) (\<lambda>_.
                 (let x = \<lparr>session_id = next_session_id s, session_user_id = user_id u,
                           session_subject_id = sid', duration_minutes = dur, session_date = now,
                           pomodoro_count = pc\<rparr>;
                      g' = g\<lparr>total_minutes_studied := total_minutes_studied g + dur\<rparr>
                  in Inr (x, (store u g' s)\<lparr>study_sessions := study_sessions s @ [x]\<rparr>)))))))))))"

definition record_session :: "datetime \<Rightarrow> string \<Rightarrow> jval \<Rightarrow> db \<Rightarrow> (error + study_session) \<times> db" where
  "record_session now e data = run_tx (record_session_body now e data)"

section \<open>Reflections\<close>

definition user_reflections :: "db \<Rightarrow> nat \<Rightarrow> reflection list" where
  "user_reflections s uid =
     sort_key (\<lambda>x. - reflection_date x) (filter (\<lambda>x. reflection_user_id x = uid) (reflections s))"

definition get_reflections_body :: "string \<Rightarrow> db \<Rightarrow> error + ((reflection list \<times> nat) \<times> db)" where
  "get_reflections_body e s =
     (case find_user s e of
        None \<Rightarrow> Inl (Client_error 404 ''User not found'')
      | Some u \<Rightarrow> Inr ((user_reflections s (user_id u), length (user_reflections s (user_id u))), s))"

definition get_reflections :: "string \<Rightarrow> db \<Rightarrow> (error + (reflection list \<times> nat)) \<times> db" where
  "get_reflections e = run_tx (get_reflections_body e)"

text \<open>\<open>POST /api/reflections\<close>: \<open>reason_idx\<close> goes through \<open>int()\<close> and nothing
  else (no range check beyond the 64 bits of the commit); the text column
  \<open>reason_text\<close> is nullable.\<close>

definition record_reflection_body ::
  "datetime \<Rightarrow> string \<Rightarrow> jval \<Rightarrow> db \<Rightarrow> error + (reflection \<times> db)" where
  "record_reflection_body now e data s =
     (case find_user s e of
        None \<Rightarrow> Inl (Client_error 404 ''User not found'')
      | Some u \<Rightarrow>
          sbind (req_get data ''subject_id'') (\<lambda>sid.
          sbind (sbind (req_get_default data ''reason_idx'' (JInt 0)) py_int) (\<lambda>ri.
          sbind (req_get_default data ''reason_text'' (JStr [])) (\<lambda>rt.
          sbind (bind_param (opt_value sid)) (\<lambda>sid'.
          sbind (sql_int ri) (\<lambda>_.
          sbind (text_column True rt) (\<lambda>rt'.
            (let x = \<lparr>reflection_id = next_reflection_id s, reflection_user_id = user_id u,
                      reflection_subject_id = sid', reason_idx = ri, reason_text = rt',
                      reflection_date = now\<rparr>
             in Inr (x, s\<lparr>reflections := reflections s @ [x]\<rparr>)))))))))"

definition record_reflection :: "datetime \<Rightarrow> string \<Rightarrow> jval \<Rightarrow> db \<Rightarrow> (error + reflection) \<times> db" where
  "record_reflection now e data = run_tx (record_reflection_body now e data)"

section \<open>Moods\<close>

definition mood_values :: "string list" where
  "mood_values = [''tired'', ''normal'', ''energetic'']"

text \<open>\<open>if not data.get('mood') or data.get('mood') not in [...]\<close>: only one of the three
  strings passes (\<open>==\<close> between a string and any other JSON value is false).\<close>

definition valid_mood :: "jval option \<Rightarrow> string option" where
  "valid_mood v = (case v of Some (JStr m) \<Rightarrow> if m \<in> set mood_values then Some m else None | _ \<Rightarrow> None)"

text \<open>\<open>POST /api/v1/moods\<close>: the mood is validated before the user is read, and a missing
  user raises on \<open>user.id\<close>. \<open>duration_minutes\<close>, \<open>effectiveness\<close> and
  \<open>session_id\<close> are stored as given (no \<open>int()\<close>, no range check). The answer is
  the new row's id.\<close>

definition record_mood_body :: "datetime \<Rightarrow> string \<Rightarrow> jval \<Rightarrow> db \<Rightarrow> error + (nat \<times> db)" where
  "record_mood_body now e data s =
     sbind (req_get data ''mood'') (\<lambda>mv.
     (case valid_mood mv of
        None \<Rightarrow> Inl (Client_error 400 ''Invalid mood value'')
      | Some m \<Rightarrow>
          (case find_user s e of
             None \<Rightarrow> Inl (Server_error AttributeError)
           | Some u \<Rightarrow>
               sbind (req_get_default data ''duration_minutes'' (JInt 0)) (\<lambda>dur.
               sbind (req_get_default data ''effectiveness'' (JInt 3)) (\<lambda>eff.
               sbind (req_get data ''session_id'') (\<lambda>sid.
               sbind (bind_param dur) (\<lambda>dur'.
               sbind (bind_param eff) (\<lambda>eff'.
               sbind (bind_param (opt_value sid)) (\<lambda>sid'.
                 (let x = \<lparr>mood_id = next_mood_id s, mood_user_id = user_id u, mood = m,
                           mood_time = now, mood_duration_minutes = dur', effectiveness = eff',
                           mood_session_id = sid'\<rparr>
                  in Inr (mood_id x, s\<lparr>study_moods := study_moods s @ [x]\<rparr>)))))))))))"

definition record_mood :: "datetime \<Rightarrow> string \<Rightarrow> jval \<Rightarrow> db \<Rightarrow> (error + nat) \<times> db" where
  "record_mood now e data = run_tx (record_mood_body now e data)"

text \<open>\<open>request.args.get('days', 7, type=int)\<close>: a query parameter that \<open>int()\<close>
  rejects falls back to the default.\<close>

definition days_param :: "string option \<Rightarrow> int \<Rightarrow> int" where
  "days_param arg d =
     (case arg of None \<Rightarrow> d | Some t \<Rightarrow> (case py_int_of_string t of None \<Rightarrow> d | Some n \<Rightarrow> n))"

text \<open>\<open>GET /api/v1/moods\<close>: the cutoff \<open>utcnow() - timedelta(days=days)\<close> is computed
  before \<open>user.id\<close> is read; the moods of the user at or after it, latest first.\<close>

definition get_moods_body ::
  "datetime \<Rightarrow> string \<Rightarrow> string option \<Rightarrow> db \<Rightarrow> error + ((study_mood list \<times> nat) \<times> db)" where
  "get_moods_body now e arg s =
     (case minus_days now (days_param arg 7) of
        None \<Rightarrow> Inl (Server_error OverflowError)
      | Some cutoff \<Rightarrow>
          (case find_user s e of
             None \<Rightarrow> Inl (Server_error AttributeError)
           | Some u \<Rightarrow>
               (let ms = sort_key (\<lambda>x. - mood_time x)
                           (filter (\<lambda>x. mood_user_id x = user_id u \<and> cutoff \<le> mood_time x) (study_moods s))
                in Inr ((ms, length ms), s))))"

definition get_moods :: "datetime \<Rightarrow> string \<Rightarrow> string option \<Rightarrow> db \<Rightarrow> (error + (study_mood list \<times> nat)) \<times> db" where
  "get_moods now e arg = run_tx (get_moods_body now e arg)"

text \<open>The invariant that ties the two tables \<open>record_session\<close> writes: each user's
  \<open>total_minutes_studied\<close> is the sum of the durations of the user's sessions.\<close>

definition session_minutes :: "db \<Rightarrow> nat \<Rightarrow> int" where
  "session_minutes s uid = sum_list (map duration_minutes (filter (\<lambda>x. session_user_id x = uid) (study_sessions s)))"

definition minutes_inv :: "db \<Rightarrow> bool" where
  "minutes_inv s \<longleftrightarrow> list_all (\<lambda>g. total_minutes_studied g = session_minutes s (gam_user_id g)) (gamifications s)"

section \<open>Lemmas\<close>

lemma record_session_body_Inr:
  "record_session_body now e data s = Inr (r, s') \<Longrightarrow>
   \<exists>u g. find_user s e = Some u \<and> user_gamification s u = Some g \<and> session_user_id r = user_id u \<and>
     s' = (store u (g\<lparr>total_minutes_studied := total_minutes_studied g + duration_minutes r\<rparr>) s)
            \<lparr>study_sessions := study_sessions s @ [r]\<rparr>"
  by (auto simp: record_session_body_def sbind_eq_Inr Let_def split: option.splits)

lemma session_minutes_append:
  "study_sessions s' = study_sessions s @ [x] \<Longrightarrow>
   session_minutes s' uid = session_minutes s uid + (if session_user_id x = uid then duration_minutes x else 0)"
  by (simp add: session_minutes_def)

lemma session_minutes_store [simp]: "session_minutes (store u g s) uid = session_minutes s uid"
  by (simp add: session_minutes_def store_def put_gamification_def)

lemma minutes_inv_record_session:
  assumes inv: "minutes_inv s" and ok: "record_session_body now e data s = Inr (r, s')"
  shows "minutes_inv s'"
proof -
  obtain u g where u: "find_user s e = Some u" and g: "user_gamification s u = Some g"
    and own: "session_user_id r = user_id u"
    and s': "s' = (store u (g\<lparr>total_minutes_studied := total_minutes_studied g + duration_minutes r\<rparr>) s)
                   \<lparr>study_sessions := study_sessions s @ [r]\<rparr>"
    using record_session_body_Inr [OF ok] by blast
  have gu: "gam_user_id g = user_id u" by (rule user_gamification_owner [OF g])
  have gt: "total_minutes_studied g = session_minutes s (user_id u)"
    using inv user_gamification_in_set [OF g] gu by (auto simp: minutes_inv_def list_all_iff)
  show ?thesis
    unfolding minutes_inv_def list_all_iff
  proof
    fix h assume "h \<in> set (gamifications s')"
    then obtain h0 where h0: "h0 \<in> set (gamifications s)"
      and h: "h = (if gam_user_id h0 = user_id u
                   then g\<lparr>total_minutes_studied := total_minutes_studied g + duration_minutes r\<rparr> else h0)"
      by (auto simp: s' store_def put_gamification_def set_update_rows)
    have sm: "session_minutes s' uid =
                session_minutes s uid + (if session_user_id r = uid then duration_minutes r else 0)" for uid
      by (rule session_minutes_append) (simp add: s' store_def put_gamification_def)
    show "total_minutes_studied h = session_minutes s' (gam_user_id h)"
      using inv h0 gt gu own
      by (auto simp: h sm minutes_inv_def list_all_iff)
  qed
qed

text \<open>C9. \<open>record_session\<close> appends the session (the next id, the clock as date, the
  defaults for the missing fields) and adds its duration to the user's
  \<open>total_minutes_studied\<close>, in one commit.\<close>

theorem record_session_adds_minutes:
  assumes "find_user s e = Some u" "user_gamification s u = Some g"
    and "in_int64 d" "in_int64 (total_minutes_studied g + d)"
  shows "record_session now e (JObj [(''duration_minutes'', JInt d)]) s =
           (Inr \<lparr>session_id = next_session_id s, session_user_id = user_id u, session_subject_id = JNull,
                 duration_minutes = d, session_date = now, pomodoro_count = 1\<rparr>,
            (store u (g\<lparr>total_minutes_studied := total_minutes_studied g + d\<rparr>) s)
              \<lparr>study_sessions := study_sessions s @
                 [\<lparr>session_id = next_session_id s, session_user_id = user_id u, session_subject_id = JNull,
                   duration_minutes = d, session_date = now, pomodoro_count = 1\<rparr>]\<rparr>)"
  using assms
  by (simp add: record_session_def record_session_body_def req_get_default_def opt_value_def Let_def
                in_int64_iff)

text \<open>C19. \<open>get_sessions\<close> answers exactly the user's sessions, latest first, with their
  count, and changes nothing.\<close>

theorem get_sessions_latest_first:
  assumes "find_user s e = Some u"
  shows "\<exists>ss. get_sessions e s = (Inr (ss, length ss), s) \<and>
              sorted (map (\<lambda>x. - session_date x) ss) \<and>
              mset ss = mset (filter (\<lambda>x. session_user_id x = user_id u) (study_sessions s))"
  using assms by (simp add: get_sessions_def get_sessions_body_def user_sessions_def)

text \<open>C20. \<open>record_mood\<close> answers 400 for a mood other than the three strings before it
  looks at the user (so even a missing user gets 400), and \<open>get_moods\<close> with a
  \<open>days\<close> parameter beyond \<open>timedelta\<close>'s range answers 500 (\<open>OverflowError\<close>);
  neither changes the database.\<close>

theorem mood_handlers_errors:
  assumes "valid_mood (map_of (rev kvs) ''mood'') = None"
    and "days_param arg 7 > 999999999"
  shows "record_mood now e (JObj kvs) s = (Inl (Client_error 400 ''Invalid mood value''), s) \<and>
         get_moods now e arg s = (Inl (Server_error OverflowError), s)"
  using assms
  by (simp add: record_mood_def record_mood_body_def get_moods_def get_moods_body_def minus_days_def)


theorem record_session_adds_minutes_witness:
  "find_user (db_of [(user.make 1 ''ann'' ''ann@x.org'' ''h'' 0)] [] [new_gamification 1 1]) ''ann@x.org'' = Some (user.make 1 ''ann'' ''ann@x.org'' ''h'' 0) \<and> user_gamification (db_of [(user.make 1 ''ann'' ''ann@x.org'' ''h'' 0)] [] [new_gamification 1 1]) (user.make 1 ''ann'' ''ann@x.org'' ''h'' 0) = Some (new_gamification 1 1) \<and>
   in_int64 40 \<and> in_int64 (total_minutes_studied (new_gamification 1 1) + 40) \<and>
   total_minutes_studied (the (user_gamification (snd (record_session 5 ''ann@x.org'' (JObj [(''duration_minutes'', JInt 40)]) (db_of [(user.make 1 ''ann'' ''ann@x.org'' ''h'' 0)] [] [new_gamification 1 1]))) (user.make 1 ''ann'' ''ann@x.org'' ''h'' 0))) = 40"
  using record_session_adds_minutes [of "(db_of [(user.make 1 ''ann'' ''ann@x.org'' ''h'' 0)] [] [new_gamification 1 1])" "''ann@x.org''" "(user.make 1 ''ann'' ''ann@x.org'' ''h'' 0)" "new_gamification 1 1" 40 5]
  by (simp add: find_user_def user_gamification_def user.defs store_def put_gamification_def new_gamification_def in_int64_iff)

theorem get_sessions_latest_first_witness:
  "find_user ((db_of [(user.make 1 ''ann'' ''ann@x.org'' ''h'' 0)] [] [new_gamification 1 1])\<lparr>study_sessions := [\<lparr>session_id = 1, session_user_id = 1, session_subject_id = JNull, duration_minutes = 25, session_date = 10, pomodoro_count = 1\<rparr>, \<lparr>session_id = 2, session_user_id = 1, session_subject_id = JInt 1, duration_minutes = 50, session_date = 20, pomodoro_count = 2\<rparr>]\<rparr>) ''ann@x.org'' = Some (user.make 1 ''ann'' ''ann@x.org'' ''h'' 0) \<and>
   get_sessions ''ann@x.org'' ((db_of [(user.make 1 ''ann'' ''ann@x.org'' ''h'' 0)] [] [new_gamification 1 1])\<lparr>study_sessions := [\<lparr>session_id = 1, session_user_id = 1, session_subject_id = JNull, duration_minutes = 25, session_date = 10, pomodoro_count = 1\<rparr>, \<lparr>session_id = 2, session_user_id = 1, session_subject_id = JInt 1, duration_minutes = 50, session_date = 20, pomodoro_count = 2\<rparr>]\<rparr>) = (Inr ([\<lparr>session_id = 2, session_user_id = 1, session_subject_id = JInt 1, duration_minutes = 50, session_date = 20, pomodoro_count = 2\<rparr>, \<lparr>session_id = 1, session_user_id = 1, session_subject_id = JNull, duration_minutes = 25, session_date = 10, pomodoro_count = 1\<rparr>], 2), ((db_of [(user.make 1 ''ann'' ''ann@x.org'' ''h'' 0)] [] [new_gamification 1 1])\<lparr>study_sessions := [\<lparr>session_id = 1, session_user_id = 1, session_subject_id = JNull, duration_minutes = 25, session_date = 10, pomodoro_count = 1\<rparr>, \<lparr>session_id = 2, session_user_id = 1, session_subject_id = JInt 1, duration_minutes = 50, session_date = 20, pomodoro_count = 2\<rparr>]\<rparr>))"
  using get_sessions_latest_first [of "((db_of [(user.make 1 ''ann'' ''ann@x.org'' ''h'' 0)] [] [new_gamification 1 1])\<lparr>study_sessions := [\<lparr>session_id = 1, session_user_id = 1, session_subject_id = JNull, duration_minutes = 25, session_date = 10, pomodoro_count = 1\<rparr>, \<lparr>session_id = 2, session_user_id = 1, session_subject_id = JInt 1, duration_minutes = 50, session_date = 20, pomodoro_count = 2\<rparr>]\<rparr>)" "''ann@x.org''" "(user.make 1 ''ann'' ''ann@x.org'' ''h'' 0)"]
  by (simp add: find_user_def user_gamification_def user.defs get_sessions_def get_sessions_body_def user_sessions_def)

theorem mood_handlers_errors_witness:
  "valid_mood (map_of (rev [(''mood'', JStr ''sleepy'')]) ''mood'') = None \<and>
   days_param (Some ''1000000000'') 7 > 999999999 \<and>
   record_mood 5 ''nobody@x.org'' (JObj [(''mood'', JStr ''sleepy'')]) (db_of [(user.make 1 ''ann'' ''ann@x.org'' ''h'' 0)] [] [new_gamification 1 1]) = (Inl (Client_error 400 ''Invalid mood value''), (db_of [(user.make 1 ''ann'' ''ann@x.org'' ''h'' 0)] [] [new_gamification 1 1])) \<and>
   get_moods 5 ''nobody@x.org'' (Some ''1000000000'') (db_of [(user.make 1 ''ann'' ''ann@x.org'' ''h'' 0)] [] [new_gamification 1 1]) = (Inl (Server_error OverflowError), (db_of [(user.make 1 ''ann'' ''ann@x.org'' ''h'' 0)] [] [new_gamification 1 1]))"
  using mood_handlers_errors [of "[(''mood'', JStr ''sleepy'')]" "Some ''1000000000''" 5 "''nobody@x.org''" "(db_of [(user.make 1 ''ann'' ''ann@x.org'' ''h'' 0)] [] [new_gamification 1 1])"]
  by (simp add: valid_mood_def mood_values_def days_param_def py_int_of_string_def strip_space_def
                py_space_def parse_unsigned_def digit_val_def)

end
