(* ===== verification/Analytics.thy ===== *)
theory Analytics
  imports Sessions
begin

text \<open>
  The analytics handlers (app.py lines 705--789 and 842--912), \<open>get_sync_status\<close> and
  \<open>api_info\<close> (lines 985--1028). \<open>get_analytics_summary\<close> aggregates the user's
  subjects, sessions and reflections; Python's float division is exact rational division
  here, with its \<open>ZeroDivisionError\<close>. \<open>get_study_heatmap\<close> folds the sessions
  into a dictionary of dictionaries; the keys \<open>strftime('%Y-%m-%d')\<close> and
  \<open>strftime('%H')\<close> are represented by the day number and the hour, which they
  determine and are determined by. The dictionaries are association lists in insertion
  order (\<open>upd_with\<close>, Python's \<open>if k not in d: d[k] = v0\<close> followed by an update).
\<close>

section \<open>The summary\<close>

text \<open>\<open>a / b\<close> on numbers: \<open>ZeroDivisionError\<close> when \<open>b\<close> is zero.\<close>

definition py_div :: "rat \<Rightarrow> rat \<Rightarrow> error + rat" where
  "py_div a b = (if b = 0 then Inl (Server_error ZeroDivisionError) else Inr (a / b))"

record priority_stat =
  ps_count :: nat
  ps_avg_completion :: rat

text \<open>One entry of \<open>priority_stats\<close>: \<open>sum(completed) / sum(chapters) * 100 if
  priority_subjects else 0\<close>.\<close>

definition priority_stat_of :: "subject list \<Rightarrow> string \<Rightarrow> error + priority_stat" where
  "priority_stat_of ss p =
     (let ps = filter (\<lambda>x. priority x = p) ss in
      if ps = [] then Inr \<lparr>ps_count = 0, ps_avg_completion = 0\<rparr>
      else sbind (py_div (of_int (sum_list (map completed_chapters ps))) (of_int (sum_list (map chapters ps))))
             (\<lambda>q. Inr \<lparr>ps_count = length ps, ps_avg_completion = q * 100\<rparr>))"

text \<open>\<open>for priority in ['low', 'medium', 'high']\<close>.\<close>

fun priority_stats :: "subject list \<Rightarrow> string list \<Rightarrow> error + (string \<times> priority_stat) list" where
  "priority_stats ss [] = Inr []"
| "priority_stats ss (p # ps) =
     sbind (priority_stat_of ss p) (\<lambda>st. sbind (priority_stats ss ps) (\<lambda>rest. Inr ((p, st) # rest)))"

definition priority_names :: "string list" where
  "priority_names = [''low'', ''medium'', ''high'']"

record summary =
  total_subjects :: nat
  total_chapters :: int
  sum_completed_chapters :: int
  overall_completion_percentage :: rat
  total_study_minutes :: int
  total_sessions :: nat
  avg_session_minutes :: rat
  total_reflections :: nat
  priority_breakdown :: "(string \<times> priority_stat) list"

text \<open>\<open>GET /api/analytics/summary\<close>: the subjects are all of the user's rows
  (\<open>filter_by(user_id=user.id)\<close>, deleted or not), the sessions and reflections too.\<close>

definition get_analytics_summary_body :: "string \<Rightarrow> db \<Rightarrow> error + (summary \<times> db)" where
  "get_analytics_summary_body e s =
     (case find_user s e of
        None \<Rightarrow> Inl (Client_error 404 ''User not found'')
      | Some u \<Rightarrow>
          (let ss = filter (\<lambda>x. subject_user_id x = user_id u) (subjects s);
               xs = filter (\<lambda>x. session_user_id x = user_id u) (study_sessions s);
               rs = filter (\<lambda>x. reflection_user_id x = user_id u) (reflections s);
               tc = sum_list (map chapters ss);
               cc = sum_list (map completed_chapters ss);
               avg = (if 0 < tc then of_int cc / of_int tc * 100 else 0);
               tm = sum_list (map duration_minutes xs)
           in sbind (priority_stats ss priority_names) (\<lambda>pst.
                Inr (\<lparr>total_subjects = length ss, total_chapters = tc, sum_completed_chapters = cc,
                      overall_completion_percentage = py_round1 avg, total_study_minutes = tm,
                      total_sessions = length xs,
                      avg_session_minutes = (if 0 < length xs then py_round1 (of_int tm / of_nat (length xs)) else 0),
                      total_reflections = length rs, priority_breakdown = pst\<rparr>, s))))"

definition get_analytics_summary :: "string \<Rightarrow> db \<Rightarrow> (error + summary) \<times> db" where
  "get_analytics_summary e = run_tx (get_analytics_summary_body e)"

section \<open>The heatmap\<close>

text \<open>\<open>if k not in d: d[k] = v0\<close>, then \<open>d[k] = f(d[k])\<close>, on an insertion-ordered
  dictionary.\<close>

primrec upd_with :: "'v \<Rightarrow> 'k \<Rightarrow> ('v \<Rightarrow> 'v) \<Rightarrow> ('k \<times> 'v) list \<Rightarrow> ('k \<times> 'v) list" where
  "upd_with v k f [] = [(k, f v)]"
| "upd_with v k f (p # ps) = (if fst p = k then (k, f (snd p)) # ps else p # upd_with v k f ps)"

type_synonym heatmap = "(int \<times> (int \<times> int) list) list"

text \<open>One iteration of \<open>for session in sessions\<close>.\<close>

definition heat_step :: "heatmap \<Rightarrow> study_session \<Rightarrow> heatmap" where
  "heat_step hm x =
     upd_with [] (date_of (session_date x))
       (upd_with 0 (hour_of (session_date x)) (\<lambda>m. m + duration_minutes x)) hm"

definition heatmap_of :: "study_session list \<Rightarrow> heatmap" where
  "heatmap_of xs = foldl heat_step [] xs"

definition get_study_heatmap_body :: "string \<Rightarrow> db \<Rightarrow> error + ((heatmap \<times> nat) \<times> db)" where
  "get_study_heatmap_body e s =
     (case find_user s e of
        None \<Rightarrow> Inl (Client_error 404 ''User not found'')
      | Some u \<Rightarrow>
          (let xs = filter (\<lambda>x. session_user_id x = user_id u) (study_sessions s)
           in Inr ((heatmap_of xs, length xs), s)))"

definition get_study_heatmap :: "string \<Rightarrow> db \<Rightarrow> (error + (heatmap \<times> nat)) \<times> db" where
  "get_study_heatmap e = run_tx (get_study_heatmap_body e)"

text \<open>\<open>heatmap[d][h]\<close>, and what it should hold: the total duration of the sessions
  on day \<open>d\<close> in hour \<open>h\<close>, absent when there are none.\<close>

definition heat_cell :: "heatmap \<Rightarrow> int \<Rightarrow> int \<Rightarrow> int option" where
  "heat_cell hm d h = (case map_of hm d of None \<Rightarrow> None | Some hrs \<Rightarrow> map_of hrs h)"

definition heat_total :: "study_session list \<Rightarrow> int \<Rightarrow> int \<Rightarrow> int option" where
  "heat_total xs d h =
     (let ys = filter (\<lambda>x. date_of (session_date x) = d \<and> hour_of (session_date x) = h) xs
      in if ys = [] then None else Some (sum_list (map duration_minutes ys)))"

section \<open>Failure analytics, sync status and version information\<close>

text \<open>
  \<open>GET /api/v1/analytics/failure\<close>: after the cutoff is computed, the first query names
  \<open>Reflection.subject_idx\<close>, which the model class does not have, so the handler raises
  \<open>AttributeError\<close> whatever the database holds; the later queries (with
  \<open>Reflection.time\<close>, also missing, and MySQL's \<open>func.hour\<close>) are never reached.
\<close>

definition get_failure_analytics_body ::
  "datetime \<Rightarrow> string \<Rightarrow> string option \<Rightarrow> db \<Rightarrow> error + (unit \<times> db)" where
  "get_failure_analytics_body now e arg s =
     (case minus_days now (days_param arg 30) of
        None \<Rightarrow> Inl (Server_error OverflowError)
      | Some cutoff \<Rightarrow> Inl (Server_error AttributeError))"

definition get_failure_analytics :: "datetime \<Rightarrow> string \<Rightarrow> string option \<Rightarrow> db \<Rightarrow> (error + unit) \<times> db" where
  "get_failure_analytics now e arg = run_tx (get_failure_analytics_body now e arg)"

text \<open>\<open>GET /api/v1/sync/status\<close>: status \<open>synced\<close> and the clock, always 200.\<close>

definition get_sync_status :: "datetime \<Rightarrow> string \<times> datetime" where
  "get_sync_status now = (''synced'', now)"

text \<open>\<open>GET /api/v1/info\<close>: a constant JSON document.\<close>

definition api_info :: jval where
  "api_info =
     JObj [(''version'', JStr ''1.0.0''),
           (''features'', JArr (map JStr [''Subject management'', ''Study sessions with mood tracking'',
              ''Gamification with achievements'', ''Reflections and analytics'', ''Failure analysis'',
              ''Weekly auto-planner'', ''Offline-first sync''])),
           (''rate_limits'', JObj [(''global'', JStr ''200 per day, 50 per hour''), (''moods'', JStr ''10 per hour''),
              (''analytics'', JStr ''20 per hour''), (''planner'', JStr ''5 per hour'')])]"

section \<open>Lemmas\<close>

lemma map_of_upd_with:
  "map_of (upd_with v k f ps) = (map_of ps)(k \<mapsto> f (case map_of ps k of None \<Rightarrow> v | Some w \<Rightarrow> w))"
  by (induction ps) (auto simp: fun_eq_iff)

lemma heat_cell_step:
  "heat_cell (heat_step hm x) d h =
     (if date_of (session_date x) = d \<and> hour_of (session_date x) = h
      then Some ((case heat_cell hm d h of None \<Rightarrow> 0 | Some m \<Rightarrow> m) + duration_minutes x)
      else heat_cell hm d h)"
  by (auto simp: heat_cell_def heat_step_def map_of_upd_with split: option.splits)

lemma heat_total_snoc:
  "heat_total (xs @ [x]) d h =
     (if date_of (session_date x) = d \<and> hour_of (session_date x) = h
      then Some ((case heat_total xs d h of None \<Rightarrow> 0 | Some m \<Rightarrow> m) + duration_minutes x)
      else heat_total xs d h)"
  by (auto simp: heat_total_def Let_def)

text \<open>C21. The heatmap loop computes, for every day and hour, the total duration of the
  user's sessions in that hour, and has no entry where there are none.\<close>

theorem heatmap_cells:
  "heat_cell (heatmap_of xs) d h = heat_total xs d h"
proof (induction xs rule: rev_induct)
  case Nil
  then show ?case by (simp add: heatmap_of_def heat_cell_def heat_total_def)
next
  case (snoc x xs)
  then show ?case by (simp add: heatmap_of_def heat_cell_step heat_total_snoc)
qed

lemma priority_stat_of_Inl: "priority_stat_of ss p = Inl err \<Longrightarrow> err = Server_error ZeroDivisionError"
  by (auto simp: priority_stat_of_def py_div_def Let_def sbind_eq_Inl split: if_splits)

lemma priority_stats_Inl: "priority_stats ss ps = Inl err \<Longrightarrow> err = Server_error ZeroDivisionError"
  by (induction ps) (auto simp: sbind_eq_Inl dest: priority_stat_of_Inl)

lemma priority_stats_fails:
  "p \<in> set ps \<Longrightarrow> priority_stat_of ss p = Inl err \<Longrightarrow> \<exists>err'. priority_stats ss ps = Inl err'"
  by (induction ps) (auto simp: sbind_eq_Inl sbind_def split: sum.splits)

lemma priority_stat_of_zero:
  assumes "x \<in> set ss" "priority x = p" "\<forall>y\<in>set ss. priority y = p \<longrightarrow> chapters y = 0"
  shows "priority_stat_of ss p = Inl (Server_error ZeroDivisionError)"
proof -
  have "sum_list (map chapters (filter (\<lambda>y. priority y = p) ss)) = 0"
    using assms(3) by (induction ss) auto
  moreover have "filter (\<lambda>y. priority y = p) ss \<noteq> []"
    using assms(1,2) by (auto simp: filter_empty_conv)
  ultimately show ?thesis by (simp add: priority_stat_of_def py_div_def Let_def)
qed

text \<open>C22. \<open>get_analytics_summary\<close> answers 500 (\<open>ZeroDivisionError\<close>) for a user
  who has a subject of priority low, medium or high whose subjects of that priority all
  have zero chapters: the per-priority average divides by their chapter total.\<close>

theorem analytics_zero_chapters:
  assumes "find_user s e = Some u"
    and "x \<in> set (subjects s)" "subject_user_id x = user_id u" "priority x \<in> set priority_names"
    and "\<forall>y\<in>set (subjects s). subject_user_id y = user_id u \<longrightarrow> priority y = priority x \<longrightarrow> chapters y = 0"
  shows "get_analytics_summary e s = (Inl (Server_error ZeroDivisionError), s)"
proof -
  let ?ss = "filter (\<lambda>y. subject_user_id y = user_id u) (subjects s)"
  have "priority_stat_of ?ss (priority x) = Inl (Server_error ZeroDivisionError)"
    using assms(2,3,5) by (intro priority_stat_of_zero [of x]) auto
  then obtain err where "priority_stats ?ss priority_names = Inl err"
    using priority_stats_fails assms(4) by blast
  moreover have "err = Server_error ZeroDivisionError"
    using calculation by (rule priority_stats_Inl)
  ultimately show ?thesis
    using assms(1) by (simp add: get_analytics_summary_def get_analytics_summary_body_def Let_def)
qed

theorem analytics_zero_chapters_witness:
  "find_user (db_of [(user.make 1 ''ann'' ''ann@x.org'' ''h'' 0)] [(new_subject 1 1 ''Maths'' 0 ''hard'' ''high'' 100 0)] [new_gamification 1 1]) ''ann@x.org'' = Some (user.make 1 ''ann'' ''ann@x.org'' ''h'' 0) \<and> (new_subject 1 1 ''Maths'' 0 ''hard'' ''high'' 100 0) \<in> set (subjects (db_of [(user.make 1 ''ann'' ''ann@x.org'' ''h'' 0)] [(new_subject 1 1 ''Maths'' 0 ''hard'' ''high'' 100 0)] [new_gamification 1 1])) \<and> priority (new_subject 1 1 ''Maths'' 0 ''hard'' ''high'' 100 0) \<in> set priority_names \<and>
   get_analytics_summary ''ann@x.org'' (db_of [(user.make 1 ''ann'' ''ann@x.org'' ''h'' 0)] [(new_subject 1 1 ''Maths'' 0 ''hard'' ''high'' 100 0)] [new_gamification 1 1]) = (Inl (Server_error ZeroDivisionError), (db_of [(user.make 1 ''ann'' ''ann@x.org'' ''h'' 0)] [(new_subject 1 1 ''Maths'' 0 ''hard'' ''high'' 100 0)] [new_gamification 1 1]))"
  using analytics_zero_chapters [of "(db_of [(user.make 1 ''ann'' ''ann@x.org'' ''h'' 0)] [(new_subject 1 1 ''Maths'' 0 ''hard'' ''high'' 100 0)] [new_gamification 1 1])" "''ann@x.org''" "(user.make 1 ''ann'' ''ann@x.org'' ''h'' 0)" "(new_subject 1 1 ''Maths'' 0 ''hard'' ''high'' 100 0)"]
  by (simp add: find_user_def user.defs new_subject_def priority_names_def)

end
