(* ===== verification/Spec2Isabelle.thy ===== *)
theory Spec2Isabelle
  imports Planner Gamification Subjects Auth Sessions Analytics
begin

text \<open>
  \<^bold>\<open>A verification library for the Smart Study Planner backend (src/app.py).\<close>

  \<^bold>\<open>The program.\<close> One Flask application. SQLAlchemy models (\<open>User\<close>,
  \<open>Subject\<close>, \<open>Gamification\<close>, \<open>StudySession\<close>, \<open>Reflection\<close>,
  \<open>StudyMood\<close>) are stored in SQLite; JWT-authenticated route handlers read the
  requesting user by the token's e-mail (\<open>User.query.filter_by(email=...).first()\<close>),
  read or change a few rows inside \<open>try\<close>, \<open>commit\<close> on success and
  \<open>rollback\<close> in \<open>except\<close>, and answer JSON. The components interact only through
  the database: \<open>register\<close> creates the user with its gamification row,
  \<open>record_session\<close> writes a session and the user's minute counter, the analytics
  read what the sessions, reflections and subjects routes wrote, and the weekly planner
  \<open>generate_weekly_plan\<close> ranks the subjects the subject routes maintain.

  \<^bold>\<open>Theories.\<close>
  \<^item> \<open>Prelude\<close>: the clock (a \<open>datetime\<close> is an \<open>int\<close> of microseconds;
    \<open>timedelta.days\<close> is floor division by \<open>us_per_day\<close>; \<open>minus_days\<close> is
    \<open>now - timedelta(days=d)\<close> with its \<open>OverflowError\<close> outside \<open>datetime\<close>'s
    range; \<open>date_of\<close>/\<open>hour_of\<close> the day and hour), JSON request values
    (\<open>jval\<close>, \<open>truthy\<close>, \<open>req_get\<close>, \<open>req_get_default\<close> for
    \<open>data.get\<close>), Python's \<open>int()\<close> (\<open>py_int\<close>), \<open>==\<close> and \<open>in\<close>, the
    exceptions and HTTP errors (\<open>error\<close>), sequencing of statements that may raise
    (\<open>sbind\<close>), and shared lemmas on lists and \<open>find\<close>.
  \<^item> \<open>Models\<close>: the six model classes as records, the database \<open>db\<close> as a record
    of tables (row lists in row-id order), \<open>find_user\<close>, \<open>user_gamification\<close>
    and the \<open>try\<close>/\<open>commit\<close>/\<open>rollback\<close> discipline \<open>run_tx\<close>: a failing
    body leaves the database as it was.
  \<^item> \<open>Planner\<close>: \<open>generate_weekly_plan\<close> (lines 917--980): \<open>subject_score\<close>,
    CPython's reverse stable sort \<open>py_sorted_reverse\<close>, the loop \<open>distribute\<close>,
    the pure core \<open>generate_plan\<close> and the handler; \<open>plan_spec\<close> is the abstract
    specification the loop refines.
  \<^item> \<open>Json\<close>: \<open>json.dumps\<close> and \<open>json.loads\<close> (a recursive-descent parser with
    fuel \<open>length s + 1\<close>; \<open>json_loads_dumps\<close> shows the fuel suffices on every
    text \<open>json_dumps\<close> writes, so it returns there, and \<open>get_badges_dumps\<close> that
    \<open>get_badges\<close> reads back what \<open>add_badge\<close> stores).
  \<^item> \<open>Gamification\<close>: \<open>get_badges\<close>, \<open>add_badge\<close>, \<open>gain_xp\<close>,
    \<open>streak_step\<close> and the five handlers of lines 425--584, with \<open>gam_inv\<close>.
  \<^item> \<open>Subjects\<close>: \<open>Subject.to_dict\<close> and the four handlers of lines 297--420,
    with SQLite's text affinity (\<open>text_column\<close>) and \<open>subjects_inv\<close>.
  \<^item> \<open>Auth\<close>: \<open>register\<close>, \<open>login\<close>, \<open>get_user\<close> (lines 208--292);
    Werkzeug's hash and check are the parameters \<open>hash\<close>, \<open>check\<close>; a token is
    represented by its identity.
  \<^item> \<open>Sessions\<close>: the session, reflection and mood handlers (lines 588--848), the
    binding of request values to integer columns (\<open>bind_param\<close>), and
    \<open>minutes_inv\<close>, which ties \<open>total_minutes_studied\<close> to the sessions.
  \<^item> \<open>Analytics\<close>: \<open>get_analytics_summary\<close>, \<open>get_study_heatmap\<close> (the
    dictionary loop as a \<open>foldl\<close> of \<open>heat_step\<close> over insertion-ordered association
    lists), \<open>get_failure_analytics\<close>, \<open>get_sync_status\<close>, \<open>api_info\<close>.
  \<^item> This theory: the application as a state machine. \<open>app_request\<close> names every
    modelled route with its arguments, \<open>app_step\<close> runs its handler (the planner and
    the read-only routes leave the database unchanged), and \<open>reachable\<close> is the
    inductive set of databases reachable from the empty one. \<open>app_inv\<close> is the
    cross-table invariant, proved for every reachable database by rule induction over
    per-handler frame lemmas (\<open>gam_frame\<close>, \<open>subject_step_frame\<close>, \<open>read_only_handlers\<close>).

  \<^bold>\<open>What is proved.\<close> Planner (C1--C4, C23--C28): refinement of \<open>plan_spec\<close>,
  the seven day keys, one entry per subject with chapters left, a free Sunday, the entry
  laws, the stable ranking, overdue subjects first, the handler's branches. Gamification
  (C5, C29--C34): the row invariant under every request sequence and each handler's
  behaviour. Subjects (C6, C7, C10, C35--C38): the table invariant, isolation between
  users, each handler's branches, the percentage bounds. Auth (C8, C17, C18):
  registration, the password check of login, register then login. Sessions (C9, C19,
  C20): the minute counter update, the order of \<open>get_sessions\<close>, the mood errors.
  Analytics (C21, C22): the heatmap equals the per-cell sums, and the
  \<open>ZeroDivisionError\<close> of the priority breakdown. Across components (C11--C16): every
  reachable database satisfies \<open>app_inv\<close>; a registered user is always served by the
  gamification and session routes (liveness: the gamification row exists and its counter
  is the session sum); the summary's minutes equal the counter; a subject just added is
  planned and a deleted one never is; an integer beyond 64 bits is rolled back with a
  500. Success claims carry the
  64-bit hypotheses the commit needs (\<open>in_int64\<close>). Every property with a hypothesis
  has a witness at a concrete database, the cross-component ones at a database reached by
  registering and recording a session.

  \<^bold>\<open>Modelling choices.\<close> Scores and averages are exact rationals (float rounding is
  not modelled). The clock is read once per request (\<open>now\<close>). Tables are lists in
  row-id order, SQLite's scan order; \<open>order_by(date.desc())\<close> is a stable sort by
  descending date. New primary keys are one more than the largest id. Strings are HOL
  strings of 8-bit characters. The isoformat of dates in \<open>to_dict\<close> is not modelled.
  Python integers are unbounded \<open>int\<close>s; the one machine bound the program meets is
  SQLite's 64-bit \<open>INTEGER\<close>, checked where the commit binds an integer written from
  the request or computed from it (\<open>sql_int\<close>, \<open>bind_param\<close>, \<open>text_column\<close>):
  \<open>add_xp\<close>'s \<open>xp\<close> and \<open>level\<close>, the session's duration, pomodoro count and the new
  minute total, \<open>reason_idx\<close>, the subject's integer columns. \<open>update_streak\<close>'s
  \<open>streak + 1\<close> is not checked: the streak grows by one per request, so it cannot
  reach \<open>2^63\<close>. Of two failing bindings in one commit the model reports the first in
  statement order (the session's \<open>INSERT\<close> before the gamification \<open>UPDATE\<close>); both
  answer 500.

  \<^bold>\<open>Not modelled\<close>: CORS, the rate limiter, JWT configuration and expiry, the
  404/500 error handlers, the shell context and \<open>__main__\<close>: framework configuration
  without application logic. The SQL aggregations of \<open>get_failure_analytics\<close> are not
  modelled because they are unreachable: the first query names a column the model does
  not have. Flask's dispatch is represented by \<open>app_step\<close>.
\<close>


section \<open>The application as a state machine\<close>

text \<open>Every modelled route of app.py as a request on the one database: each request
  runs its handler under \<open>run_tx\<close> and the state it leaves is the committed one.
  The password hash, its check and \<open>datetime.fromisoformat\<close> are parameters; the
  planner route and the read-only routes leave the database unchanged.\<close>

datatype app_request =
    Register datetime jval
  | Login jval
  | Get_user string
  | Gam gam_request
  | Get_gamification string
  | Subj subject_request
  | Get_subjects datetime string
  | Plan datetime string
  | Record_session datetime string jval
  | Record_reflection datetime string jval
  | Record_mood datetime string jval
  | Summary string

fun app_step ::
  "(string \<Rightarrow> string) \<Rightarrow> (string \<Rightarrow> string \<Rightarrow> bool) \<Rightarrow> (string \<Rightarrow> datetime option) \<Rightarrow>
   app_request \<Rightarrow> db \<Rightarrow> db" where
  "app_step hash check parse_iso (Register now data) s = snd (register hash now data s)"
| "app_step hash check parse_iso (Login data) s = snd (login check data s)"
| "app_step hash check parse_iso (Get_user e) s = snd (get_user e s)"
| "app_step hash check parse_iso (Gam r) s = gam_step r s"
| "app_step hash check parse_iso (Get_gamification e) s = snd (get_gamification e s)"
| "app_step hash check parse_iso (Subj r) s = subject_step parse_iso r s"
| "app_step hash check parse_iso (Get_subjects now e) s = snd (get_subjects now e s)"
| "app_step hash check parse_iso (Plan now e) s = s"
| "app_step hash check parse_iso (Record_session now e data) s = snd (record_session now e data s)"
| "app_step hash check parse_iso (Record_reflection now e data) s = snd (record_reflection now e data s)"
| "app_step hash check parse_iso (Record_mood now e data) s = snd (record_mood now e data s)"
| "app_step hash check parse_iso (Summary e) s = snd (get_analytics_summary e s)"

text \<open>The databases the application can reach from the empty one.\<close>

inductive reachable ::
  "(string \<Rightarrow> string) \<Rightarrow> (string \<Rightarrow> string \<Rightarrow> bool) \<Rightarrow> (string \<Rightarrow> datetime option) \<Rightarrow> db \<Rightarrow> bool"
  for hash check parse_iso where
  start: "reachable hash check parse_iso (db_of [] [] [])"
| step: "reachable hash check parse_iso s \<Longrightarrow> reachable hash check parse_iso (app_step hash check parse_iso r s)"

text \<open>The cross-table invariant: user ids and e-mails are unique, every user has
  exactly one gamification row and every row belongs to a user, sessions belong to users,
  each gamification row satisfies \<open>gam_inv\<close>, the subjects table satisfies
  \<open>subjects_inv\<close>, and each user's \<open>total_minutes_studied\<close> is the sum of the
  durations of the user's sessions.\<close>

definition app_inv :: "db \<Rightarrow> bool" where
  "app_inv s \<longleftrightarrow>
     distinct (map user_id (users s)) \<and> distinct (map email (users s)) \<and>
     distinct (map gam_user_id (gamifications s)) \<and>
     set (map gam_user_id (gamifications s)) = set (map user_id (users s)) \<and>
     set (map session_user_id (study_sessions s)) \<subseteq> set (map user_id (users s)) \<and>
     db_gam_inv s \<and> subjects_inv s \<and> minutes_inv s"

text \<open>What a gamification request leaves alone.\<close>

definition gam_frame :: "db \<Rightarrow> db \<Rightarrow> bool" where
  "gam_frame s s' \<longleftrightarrow>
     users s' = users s \<and> subjects s' = subjects s \<and> study_sessions s' = study_sessions s \<and>
     reflections s' = reflections s \<and> study_moods s' = study_moods s \<and>
     map (\<lambda>g. (gam_user_id g, total_minutes_studied g)) (gamifications s') =
       map (\<lambda>g. (gam_user_id g, total_minutes_studied g)) (gamifications s)"

section \<open>Preservation of the invariant\<close>

lemma map_update_rows_const_key:
  "(\<And>z. z \<in> set xs \<Longrightarrow> P z \<Longrightarrow> f y = f z) \<Longrightarrow> map f (update_rows P (\<lambda>_. y) xs) = map f xs"
  by (induction xs) auto

lemma distinct_map_eq:
  "distinct (map f xs) \<Longrightarrow> x \<in> set xs \<Longrightarrow> y \<in> set xs \<Longrightarrow> f x = f y \<Longrightarrow> x = y"
  by (auto dest: inj_onD [OF distinct_map [THEN iffD1, THEN conjunct2]])

lemma with_gamification_frame:
  assumes "with_gamification msg e s k = Inr (r, s')"
    and "\<And>u g. user_gamification s u = Some g \<Longrightarrow> k u g = Inr (r, s') \<Longrightarrow> Q s'"
  shows "Q s'"
  using assms by (auto dest!: with_gamification_Inr)

lemma gam_frame_refl [simp]: "gam_frame s s"
  by (simp add: gam_frame_def)

lemma gam_frame_store:
  assumes "distinct (map gam_user_id (gamifications s))" "user_gamification s u = Some g"
    and "gam_user_id g' = gam_user_id g" "total_minutes_studied g' = total_minutes_studied g"
  shows "gam_frame s (store u g' s)"
proof -
  have "z = g" if "z \<in> set (gamifications s)" "gam_user_id z = user_id u" for z
    using distinct_map_eq [OF assms(1) that(1) user_gamification_in_set [OF assms(2)]] that(2)
          user_gamification_owner [OF assms(2)] by simp
  then show ?thesis
    using assms(3,4) by (auto simp: gam_frame_def store_def put_gamification_def intro!: map_update_rows_const_key)
qed

lemma gam_keys_gain_xp:
  "gain_xp x g = (up, g') \<Longrightarrow> gam_user_id g' = gam_user_id g \<and> total_minutes_studied g' = total_minutes_studied g"
  by (auto simp: gain_xp_def Let_def)

lemma gam_keys_streak_step:
  "streak_step now stamp g = Some g' \<Longrightarrow>
   gam_user_id g' = gam_user_id g \<and> total_minutes_studied g' = total_minutes_studied g"
  by (auto simp: streak_step_def Let_def split: option.splits if_splits)

lemma gam_keys_add_badge:
  "add_badge b g = Inr g' \<Longrightarrow> gam_user_id g' = gam_user_id g \<and> total_minutes_studied g' = total_minutes_studied g"
  by (drule add_badge_Inr) auto

lemma add_xp_body_frame: "distinct (map gam_user_id (gamifications s)) \<Longrightarrow> add_xp_body e data s = Inr (r, s') \<Longrightarrow> gam_frame s s'"
  unfolding add_xp_body_def
  by (erule with_gamification_frame)
     (auto simp: sbind_eq_Inr split: sum.splits prod.splits intro!: gam_frame_store dest: gam_keys_gain_xp)

lemma update_streak_body_frame: "distinct (map gam_user_id (gamifications s)) \<Longrightarrow> update_streak_body now stamp e s = Inr (r, s') \<Longrightarrow> gam_frame s s'"
  unfolding update_streak_body_def
  by (erule with_gamification_frame)
     (auto split: option.splits intro!: gam_frame_store dest: gam_keys_streak_step)

lemma award_badge_body_frame: "distinct (map gam_user_id (gamifications s)) \<Longrightarrow> award_badge_body e data s = Inr (r, s') \<Longrightarrow> gam_frame s s'"
  unfolding award_badge_body_def
  by (erule with_gamification_frame)
     (auto split: sum.splits option.splits if_splits intro!: gam_frame_store dest: gam_keys_add_badge)

lemma set_mode_body_frame: "distinct (map gam_user_id (gamifications s)) \<Longrightarrow> set_mode_body e data s = Inr (r, s') \<Longrightarrow> gam_frame s s'"
  unfolding set_mode_body_def
  by (erule with_gamification_frame)
     (auto split: sum.splits jval.splits if_splits intro!: gam_frame_store)

lemma gam_step_frame:
  assumes dist: "distinct (map gam_user_id (gamifications s))"
  shows "gam_frame s (gam_step r s)"
  by (cases r) (auto simp: add_xp_def update_streak_def award_badge_def set_mode_def
                     intro: run_tx_preserves add_xp_body_frame [OF dist] update_streak_body_frame [OF dist]
                            award_badge_body_frame [OF dist] set_mode_body_frame [OF dist])

lemma minutes_inv_pairs:
  "minutes_inv s \<longleftrightarrow>
   list_all (\<lambda>(u, t). t = session_minutes s u) (map (\<lambda>g. (gam_user_id g, total_minutes_studied g)) (gamifications s))"
  by (simp add: minutes_inv_def list_all_iff)

lemma session_minutes_cong:
  "study_sessions s' = study_sessions s \<Longrightarrow> session_minutes s' = session_minutes s"
  by (simp add: session_minutes_def fun_eq_iff)

lemma app_inv_gam_step: "app_inv s \<Longrightarrow> app_inv (gam_step r s)"
proof -
  assume inv: "app_inv s"
  have fr: "gam_frame s (gam_step r s)"
    using inv by (intro gam_step_frame) (simp add: app_inv_def)
  have "map fst (map (\<lambda>g. (gam_user_id g, total_minutes_studied g)) (gamifications (gam_step r s))) =
        map fst (map (\<lambda>g. (gam_user_id g, total_minutes_studied g)) (gamifications s))"
    using fr unfolding gam_frame_def by simp
  then have ids: "map gam_user_id (gamifications (gam_step r s)) = map gam_user_id (gamifications s)"
    by (simp add: comp_def)
  have "db_gam_inv (gam_step r s)" using inv by (simp add: app_inv_def gam_step_inv)
  moreover have "minutes_inv (gam_step r s)"
    using inv fr session_minutes_cong [of "gam_step r s" s]
    by (simp add: app_inv_def gam_frame_def minutes_inv_pairs)
  ultimately show ?thesis
    using inv fr ids by (simp add: app_inv_def gam_frame_def subjects_inv_def)
qed

lemma register_body_Inr:
  "register_body hash now data s = Inr (r, s') \<Longrightarrow>
   \<exists>e n h. find_user s e = None \<and>
     s' = s\<lparr>users := users s @ [\<lparr>user_id = next_user_id s, user_name = n, email = e, password = h,
                                 user_created_at = now\<rparr>],
           gamifications := gamifications s @ [new_gamification (next_gam_id s) (next_user_id s)]\<rparr>"
  by (auto simp: register_body_def sbind_eq_Inr Let_def split: if_splits)

lemma gam_inv_new_gamification [simp]: "gam_inv (new_gamification gid uid)"
  by (simp add: gam_inv_def new_gamification_def json_loads_def skip_ws_def json_delim_def is_digit_def json_ws_def)

lemma new_gamification_keys [simp]:
  "gam_user_id (new_gamification gid uid) = uid" "total_minutes_studied (new_gamification gid uid) = 0"
  by (simp_all add: new_gamification_def)

lemma find_user_None_email: "find_user s e = None \<Longrightarrow> e \<notin> email ` set (users s)"
  by (auto simp: find_user_def find_None_iff)

lemma session_minutes_absent:
  "uid \<notin> set (map session_user_id (study_sessions s)) \<Longrightarrow> session_minutes s uid = 0"
  unfolding session_minutes_def by (subst filter_False) auto

lemma app_inv_register_body:
  assumes inv: "app_inv s" and ok: "register_body hash now data s = Inr (r, s')"
  shows "app_inv s'"
proof -
  obtain e n h where e: "find_user s e = None"
    and s': "s' = s\<lparr>users := users s @ [\<lparr>user_id = next_user_id s, user_name = n, email = e, password = h,
                                            user_created_at = now\<rparr>],
                   gamifications := gamifications s @ [new_gamification (next_gam_id s) (next_user_id s)]\<rparr>"
    using register_body_Inr [OF ok] by blast
  have fresh: "next_user_id s \<notin> set (map user_id (users s))"
    using next_user_id_fresh [of s] by simp
  have "session_minutes s (next_user_id s) = 0"
    using inv fresh by (intro session_minutes_absent) (auto simp: app_inv_def)
  moreover have "session_minutes s' = session_minutes s"
    by (rule session_minutes_cong) (simp add: s')
  ultimately have "minutes_inv s'"
    using inv by (simp add: s' app_inv_def minutes_inv_def)
  moreover have "db_gam_inv s'" "subjects_inv s'"
    using inv by (auto simp: s' app_inv_def db_gam_inv_def subjects_inv_def)
  moreover have "next_user_id s \<notin> set (map gam_user_id (gamifications s))"
    using inv fresh by (simp add: app_inv_def)
  moreover have "e \<notin> set (map email (users s))"
    using find_user_None_email [OF e] by simp
  ultimately show ?thesis
    using inv fresh unfolding app_inv_def by (auto simp: s')
qed

lemma gam_inv_add_minutes: "gam_inv g \<Longrightarrow> gam_inv (g\<lparr>total_minutes_studied := m\<rparr>)"
  by (simp add: gam_inv_def split: option.splits)

lemma map_gam_user_id_store:
  "gam_user_id g' = user_id u \<Longrightarrow> map gam_user_id (gamifications (store u g' s)) = map gam_user_id (gamifications s)"
  by (auto simp: store_def put_gamification_def intro!: map_update_rows_const_key)

lemma app_inv_record_session_body:
  assumes inv: "app_inv s" and ok: "record_session_body now e data s = Inr (r, s')"
  shows "app_inv s'"
proof -
  obtain u g where u: "find_user s e = Some u" and g: "user_gamification s u = Some g"
    and own: "session_user_id r = user_id u"
    and s': "s' = (store u (g\<lparr>total_minutes_studied := total_minutes_studied g + duration_minutes r\<rparr>) s)
                   \<lparr>study_sessions := study_sessions s @ [r]\<rparr>"
    using record_session_body_Inr [OF ok] by blast
  have gu: "gam_user_id g = user_id u" by (rule user_gamification_owner [OF g])
  have "db_gam_inv (store u (g\<lparr>total_minutes_studied := total_minutes_studied g + duration_minutes r\<rparr>) s)"
    using inv gam_inv_found [OF _ g] by (intro db_gam_inv_store gam_inv_add_minutes) (auto simp: app_inv_def)
  then have "db_gam_inv s'" by (simp add: s' db_gam_inv_def)
  moreover have "minutes_inv s'"
    using inv ok minutes_inv_record_session by (auto simp: app_inv_def)
  moreover have "map gam_user_id (gamifications s') = map gam_user_id (gamifications s)"
    using gu by (simp add: s' map_gam_user_id_store)
  ultimately show ?thesis
    using inv find_user_in_users [OF u] own by (auto simp: s' app_inv_def subjects_inv_def)
qed

lemma record_reflection_body_Inr:
  "record_reflection_body now e data s = Inr (r, s') \<Longrightarrow> s' = s\<lparr>reflections := reflections s @ [r]\<rparr>"
  by (auto simp: record_reflection_body_def sbind_eq_Inr Let_def split: option.splits)

lemma record_mood_body_Inr:
  "record_mood_body now e data s = Inr (r, s') \<Longrightarrow> s'\<lparr>study_moods := study_moods s\<rparr> = s"
  by (auto simp: record_mood_body_def sbind_def Let_def sql_int_def split: option.splits sum.splits if_splits)

lemma app_inv_activity [simp]:
  "app_inv (s\<lparr>reflections := rs\<rparr>) = app_inv s" "app_inv (s\<lparr>study_moods := ms\<rparr>) = app_inv s"
  by (simp_all add: app_inv_def db_gam_inv_def subjects_inv_def minutes_inv_def session_minutes_def)

lemma subject_step_frame:
  "subject_step parse_iso r s = s\<lparr>subjects := subjects (subject_step parse_iso r s)\<rparr>"
  by (cases r) (auto simp: add_subject_def update_subject_def delete_subject_def
                     intro: run_tx_preserves [where Q = "\<lambda>x. x = s\<lparr>subjects := subjects x\<rparr>"]
                     dest!: add_subject_body_Inr update_subject_body_Inr delete_subject_body_Inr)

lemma app_inv_subject_step: "app_inv s \<Longrightarrow> app_inv (subject_step parse_iso r s)"
proof -
  assume inv: "app_inv s"
  define s' where "s' = subject_step parse_iso r s"
  have fr: "s' = s\<lparr>subjects := subjects s'\<rparr>"
    unfolding s'_def by (rule subject_step_frame)
  have "subjects_inv s'"
    using inv subject_step_inv [of s parse_iso r] by (simp add: s'_def app_inv_def)
  moreover have "users s' = users s" "gamifications s' = gamifications s" "study_sessions s' = study_sessions s"
    by (subst fr, simp)+
  moreover have "session_minutes s' = session_minutes s"
    by (rule session_minutes_cong) fact
  ultimately have "app_inv s'"
    using inv by (simp add: app_inv_def db_gam_inv_def minutes_inv_def)
  then show ?thesis by (simp add: s'_def)
qed

lemma run_tx_readonly: "(\<And>r s'. body s = Inr (r, s') \<Longrightarrow> s' = s) \<Longrightarrow> snd (run_tx body s) = s"
  by (rule run_tx_preserves [where Q = "\<lambda>x. x = s"]) auto

lemma read_only_handlers:
  "snd (login check data s) = s" "snd (get_user e s) = s" "snd (get_gamification e s) = s"
  "snd (get_subjects now e s) = s" "snd (get_analytics_summary e s) = s"
  unfolding login_def get_user_def get_gamification_def get_subjects_def get_analytics_summary_def
  by (rule run_tx_readonly;
      auto simp: login_body_def get_user_body_def get_gamification_body_def get_subjects_body_def
                 get_analytics_summary_body_def sbind_def Let_def
           split: option.splits sum.splits if_splits dest!: with_gamification_Inr)+

lemma app_step_inv: "app_inv s \<Longrightarrow> app_inv (app_step hash check parse_iso r s)"
proof (cases r)
  case (Register now data)
  assume "app_inv s"
  show ?thesis
    unfolding Register app_step.simps register_def
    by (rule run_tx_preserves [where Q = app_inv, OF \<open>app_inv s\<close>]) (rule app_inv_register_body [OF \<open>app_inv s\<close>])
next
  case (Record_session now e data)
  assume "app_inv s"
  show ?thesis
    unfolding Record_session app_step.simps record_session_def
    by (rule run_tx_preserves [where Q = app_inv, OF \<open>app_inv s\<close>]) (rule app_inv_record_session_body [OF \<open>app_inv s\<close>])
next
  case (Record_reflection now e data)
  assume "app_inv s"
  show ?thesis
    unfolding Record_reflection app_step.simps record_reflection_def
    by (rule run_tx_preserves [where Q = app_inv, OF \<open>app_inv s\<close>]) (metis \<open>app_inv s\<close> record_reflection_body_Inr app_inv_activity(1))
next
  case (Record_mood now e data)
  assume "app_inv s"
  show ?thesis
    unfolding Record_mood app_step.simps record_mood_def
    by (rule run_tx_preserves [where Q = app_inv, OF \<open>app_inv s\<close>]) (metis \<open>app_inv s\<close> record_mood_body_Inr app_inv_activity(2))
qed (simp_all add: read_only_handlers app_inv_gam_step app_inv_subject_step)

lemma reachable_app_inv: "reachable hash check parse_iso s \<Longrightarrow> app_inv s"
proof (induction rule: reachable.induct)
  case start
  show ?case by (simp add: app_inv_def db_gam_inv_def subjects_inv_def minutes_inv_def)
next
  case (step s r)
  from step.IH show ?case by (rule app_step_inv)
qed

lemma app_inv_user_gamification:
  assumes "app_inv s" "find_user s e = Some u"
  shows "\<exists>g. user_gamification s u = Some g \<and> gam_inv g"
proof -
  have "user_id u \<in> gam_user_id ` set (gamifications s)"
    using assms find_user_in_users [OF assms(2)] by (simp add: app_inv_def)
  then obtain g where "user_gamification s u = Some g"
    by (cases "user_gamification s u") (auto simp: user_gamification_def find_None_iff)
  with assms(1) show ?thesis by (auto simp: app_inv_def intro: gam_inv_found)
qed

lemma add_subject_commits:
  assumes "find_user s e = Some u"
    and "data = JObj [(''name'', JStr nm), (''chapters'', JInt ch), (''difficulty'', JStr df),
                      (''deadline'', JStr t), (''priority'', JStr pr)]"
    and "nm \<noteq> []" "ch \<noteq> 0" "df \<noteq> []" "t \<noteq> []" "pr \<noteq> []" "parse_iso t = Some dl"
    and "in_int64 ch"
  shows "snd (add_subject parse_iso now e data s) =
           s\<lparr>subjects := subjects s @ [new_subject (next_subject_id s) (user_id u) nm ch df pr dl now]\<rparr>"
  using assms
  by (simp add: add_subject_def add_subject_body_def all_present_JObj subject_required_def Let_def)

lemma delete_subject_commits:
  "delete_subject e sid s = (Inr (), s') \<Longrightarrow> sid \<notin> subject_id ` set (subjects s')"
proof -
  assume "delete_subject e sid s = (Inr (), s')"
  then have "delete_subject_body e sid s = Inr ((), s')"
    unfolding delete_subject_def by (rule run_tx_commit)
  then obtain x where "owned_subject s e sid = Inr (Some x)"
    and "s' = s\<lparr>subjects := filter (\<lambda>y. subject_id y \<noteq> subject_id x) (subjects s)\<rparr>"
    using delete_subject_body_Inr by blast
  then show ?thesis by (auto dest: owned_subject_Some)
qed

section \<open>Cross-component properties\<close>

text \<open>A first user registers and records a thirty-minute session.\<close>

lemma register_first_user:
  "app_step (\<lambda>q. ''h:'' @ q) (\<lambda>h q. h = ''h:'' @ q) (\<lambda>_. Some 0) (Register 0 (JObj [(''name'', JStr ''ann''), (''email'', JStr ''ann@x.org''), (''password'', JStr ''pw'')])) (db_of [] [] []) = (db_of [\<lparr>user_id = 1, user_name = ''ann'', email = ''ann@x.org'', password = ''h:pw'', user_created_at = 0\<rparr>] [] [new_gamification 1 1])"
  by (simp add: register_def run_tx_def register_body_def set_password_def next_user_id_def
                next_gam_id_def find_user_def db_of_def Let_def)

lemma record_first_session:
  "app_step (\<lambda>q. ''h:'' @ q) (\<lambda>h q. h = ''h:'' @ q) (\<lambda>_. Some 0) (Record_session 5 ''ann@x.org'' (JObj [(''duration_minutes'', JInt 30)])) (db_of [\<lparr>user_id = 1, user_name = ''ann'', email = ''ann@x.org'', password = ''h:pw'', user_created_at = 0\<rparr>] [] [new_gamification 1 1]) = ((db_of [\<lparr>user_id = 1, user_name = ''ann'', email = ''ann@x.org'', password = ''h:pw'', user_created_at = 0\<rparr>] [] [((new_gamification 1 1)\<lparr>total_minutes_studied := 30\<rparr>)])\<lparr>study_sessions := [\<lparr>session_id = 1, session_user_id = 1, session_subject_id = JNull, duration_minutes = 30, session_date = 5, pomodoro_count = 1\<rparr>]\<rparr>)"
  by (simp add: record_session_def run_tx_def record_session_body_def req_get_default_def opt_value_def
                next_session_id_def find_user_def user_gamification_def store_def put_gamification_def
                new_gamification_def db_of_def Let_def in_int64_iff)

lemma reachable_first_user: "reachable (\<lambda>q. ''h:'' @ q) (\<lambda>h q. h = ''h:'' @ q) (\<lambda>_. Some 0) (db_of [\<lparr>user_id = 1, user_name = ''ann'', email = ''ann@x.org'', password = ''h:pw'', user_created_at = 0\<rparr>] [] [new_gamification 1 1])"
  using reachable.step [OF reachable.start, where hash = "(\<lambda>q. ''h:'' @ q)" and check = "(\<lambda>h q. h = ''h:'' @ q)" and parse_iso = "(\<lambda>_. Some 0)" and r = "Register 0 (JObj [(''name'', JStr ''ann''), (''email'', JStr ''ann@x.org''), (''password'', JStr ''pw'')])"]
  by (simp only: register_first_user)

lemma reachable_first_session: "reachable (\<lambda>q. ''h:'' @ q) (\<lambda>h q. h = ''h:'' @ q) (\<lambda>_. Some 0) ((db_of [\<lparr>user_id = 1, user_name = ''ann'', email = ''ann@x.org'', password = ''h:pw'', user_created_at = 0\<rparr>] [] [((new_gamification 1 1)\<lparr>total_minutes_studied := 30\<rparr>)])\<lparr>study_sessions := [\<lparr>session_id = 1, session_user_id = 1, session_subject_id = JNull, duration_minutes = 30, session_date = 5, pomodoro_count = 1\<rparr>]\<rparr>)"
  using reachable.step [OF reachable_first_user, where r = "Record_session 5 ''ann@x.org'' (JObj [(''duration_minutes'', JInt 30)])"]
  by (simp only: record_first_session)

text \<open>C11. Every database reachable from the empty one by any sequence of requests satisfies \<open>app_inv\<close>: unique users and e-mails, one gamification row per user, sessions of registered users, well-formed gamification rows and subjects, and minutes totals that agree with the sessions.\<close>

theorem reachable_invariant:
  "reachable hash check parse_iso s \<Longrightarrow> app_inv s"
  by (rule reachable_app_inv)

text \<open>C12. In every reachable database a registered user is served: \<open>GET /api/gamification\<close> answers the row with its badge list, and \<open>POST /api/sessions\<close> with an integer duration commits (the user always has a gamification row).\<close>

theorem registered_user_served:
  assumes "reachable hash check parse_iso s" "find_user s e = Some u"
    and "in_int64 d" "in_int64 (session_minutes s (user_id u) + d)"
  shows "(\<exists>g bs. get_gamification e s = (Inr (g, JArr bs), s)) \<and>
         (\<exists>x s'. record_session now e (JObj [(''duration_minutes'', JInt d)]) s = (Inr x, s'))"
proof -
  obtain g where g: "user_gamification s u = Some g" and gi: "gam_inv g"
    using app_inv_user_gamification [OF reachable_app_inv [OF assms(1)] assms(2)] by blast
  obtain bs where "get_badges g = Inr (JArr bs)"
    using gam_inv_badges [OF gi] by blast
  moreover have "total_minutes_studied g = session_minutes s (user_id u)"
    using reachable_app_inv [OF assms(1)] user_gamification_in_set [OF g] user_gamification_owner [OF g]
    by (auto simp: app_inv_def minutes_inv_def list_all_iff)
  ultimately show ?thesis
    using assms(2,3,4) g
    by (simp add: get_gamification_def get_gamification_body_def record_session_def run_tx_def
                  record_session_body_def opt_value_def req_get_default_def Let_def in_int64_iff)
qed

text \<open>C13. In every reachable database the analytics summary's \<open>total_study_minutes\<close> (the sum over the user's sessions) equals the user's \<open>total_minutes_studied\<close> counter that \<open>record_session\<close> maintains.\<close>

theorem summary_minutes_match:
  assumes "reachable hash check parse_iso s" "find_user s e = Some u"
    and "user_gamification s u = Some g" "get_analytics_summary e s = (Inr sm, s')"
  shows "total_study_minutes sm = total_minutes_studied g"
proof -
  have "minutes_inv s" using reachable_app_inv [OF assms(1)] by (simp add: app_inv_def)
  then have "total_minutes_studied g = session_minutes s (user_id u)"
    using user_gamification_in_set [OF assms(3)] user_gamification_owner [OF assms(3)]
    by (auto simp: minutes_inv_def list_all_iff)
  then show ?thesis
    using assms(2,4)
    by (auto simp: get_analytics_summary_def get_analytics_summary_body_def run_tx_def sbind_def
                   session_minutes_def Let_def split: sum.splits)
qed

text \<open>C14. A subject added with a positive number of chapters appears in the next weekly plan of its user: the planner route then answers a generated plan containing the subject's entry.\<close>

theorem added_subject_is_planned:
  assumes "find_user s e = Some u"
    and "data = JObj [(''name'', JStr nm), (''chapters'', JInt ch), (''difficulty'', JStr df),
                      (''deadline'', JStr t), (''priority'', JStr pr)]"
    and "nm \<noteq> []" "0 < ch" "df \<noteq> []" "t \<noteq> []" "pr \<noteq> []" "parse_iso t = Some dl"
    and "in_int64 ch"
  shows "\<exists>p n. generate_weekly_plan now' e (snd (add_subject parse_iso now e data s)) = Inr (Plan_generated p n) \<and>
           plan_entry_of (new_subject (next_subject_id s) (user_id u) nm ch df pr dl now) \<in> set (plan_entries p)"
proof -
  let ?x = "new_subject (next_subject_id s) (user_id u) nm ch df pr dl now"
  let ?s' = "s\<lparr>subjects := subjects s @ [?x]\<rparr>"
  have s': "snd (add_subject parse_iso now e data s) = ?s'"
    using assms by (intro add_subject_commits) auto
  have act: "?x \<in> set (active_subjects ?s' (user_id u))"
    by (simp add: active_subjects_def new_subject_def)
  have "0 < chapters_left ?x"
    using assms(4) by (simp add: chapters_left_def new_subject_def)
  then have "plan_entry_of ?x \<in># mset (plan_entries (generate_plan now' (active_subjects ?s' (user_id u))))"
    using act by (simp only: mset_plan_entries_generate_plan) (auto simp: image_iff)
  then show ?thesis
    using assms(1) act by (auto simp: s' generate_weekly_plan_def find_user_def Let_def)
qed

text \<open>C15. After \<open>delete_subject\<close> succeeds, no weekly plan of any user contains an entry for the deleted id.\<close>

theorem deleted_subject_not_planned:
  assumes "delete_subject e sid s = (Inr (), s')"
    and "generate_weekly_plan now e' s' = Inr (Plan_generated p n)"
  shows "sid \<notin> pe_subject_id ` set (plan_entries p)"
proof
  assume "sid \<in> pe_subject_id ` set (plan_entries p)"
  then obtain pe where pe: "pe \<in> set (plan_entries p)" "pe_subject_id pe = sid" by blast
  obtain u where "find_user s' e' = Some u" and p: "p = generate_plan now (active_subjects s' (user_id u))"
    using assms(2) by (auto simp: generate_weekly_plan_def Let_def split: option.splits if_splits)
  then obtain x where "x \<in> set (active_subjects s' (user_id u))" "0 < chapters_left x" "pe = plan_entry_of x"
    using in_plan_entries_generate_plan pe(1) by blast
  then show False
    using delete_subject_commits [OF assms(1)] pe(2) plan_entry_of_laws
    by (auto simp: active_subjects_def)
qed

text \<open>C16. A request whose integer does not fit SQLite's 64-bit \<open>INTEGER\<close> is not
  stored: the commit's binding raises \<open>OverflowError\<close>, the handler rolls back and
  answers 500. This holds for \<open>add_xp\<close> (the new total \<open>xp\<close>), \<open>record_session\<close>
  (the duration) and \<open>add_subject\<close> (the chapters), although each accepted the value
  through \<open>int()\<close>.\<close>

theorem oversized_integer_rolls_back:
  assumes "find_user s e = Some u" "user_gamification s u = Some g" "\<not> in_int64 n"
    and "nm \<noteq> []" "df \<noteq> []" "t \<noteq> []" "pr \<noteq> []" "parse_iso t = Some dl"
  shows "add_xp e (JObj [(''xp'', JInt (n - xp g))]) s = (Inl (Server_error OverflowError), s) \<and>
         record_session now e (JObj [(''duration_minutes'', JInt n)]) s = (Inl (Server_error OverflowError), s) \<and>
         add_subject parse_iso now e (JObj [(''name'', JStr nm), (''chapters'', JInt n), (''difficulty'', JStr df),
           (''deadline'', JStr t), (''priority'', JStr pr)]) s = (Inl (Server_error OverflowError), s)"
proof -
  have "n \<noteq> 0" using assms(3) by (auto simp: in_int64_iff)
  then show ?thesis
    using assms
    by (simp add: add_xp_def add_xp_body_def gain_xp_def record_session_def record_session_body_def
                  req_get_default_def opt_value_def add_subject_def add_subject_body_def all_present_JObj
                  subject_required_def run_tx_def Let_def)
qed

theorem reachable_invariant_witness:
  "reachable (\<lambda>q. ''h:'' @ q) (\<lambda>h q. h = ''h:'' @ q) (\<lambda>_. Some 0) ((db_of [\<lparr>user_id = 1, user_name = ''ann'', email = ''ann@x.org'', password = ''h:pw'', user_created_at = 0\<rparr>] [] [((new_gamification 1 1)\<lparr>total_minutes_studied := 30\<rparr>)])\<lparr>study_sessions := [\<lparr>session_id = 1, session_user_id = 1, session_subject_id = JNull, duration_minutes = 30, session_date = 5, pomodoro_count = 1\<rparr>]\<rparr>) \<and> app_inv ((db_of [\<lparr>user_id = 1, user_name = ''ann'', email = ''ann@x.org'', password = ''h:pw'', user_created_at = 0\<rparr>] [] [((new_gamification 1 1)\<lparr>total_minutes_studied := 30\<rparr>)])\<lparr>study_sessions := [\<lparr>session_id = 1, session_user_id = 1, session_subject_id = JNull, duration_minutes = 30, session_date = 5, pomodoro_count = 1\<rparr>]\<rparr>)"
  using reachable_first_session reachable_invariant [OF reachable_first_session] by simp

theorem registered_user_served_witness:
  "reachable (\<lambda>q. ''h:'' @ q) (\<lambda>h q. h = ''h:'' @ q) (\<lambda>_. Some 0) (db_of [\<lparr>user_id = 1, user_name = ''ann'', email = ''ann@x.org'', password = ''h:pw'', user_created_at = 0\<rparr>] [] [new_gamification 1 1]) \<and> find_user (db_of [\<lparr>user_id = 1, user_name = ''ann'', email = ''ann@x.org'', password = ''h:pw'', user_created_at = 0\<rparr>] [] [new_gamification 1 1]) ''ann@x.org'' = Some \<lparr>user_id = 1, user_name = ''ann'', email = ''ann@x.org'', password = ''h:pw'', user_created_at = 0\<rparr> \<and>
   in_int64 30 \<and> in_int64 (session_minutes (db_of [\<lparr>user_id = 1, user_name = ''ann'', email = ''ann@x.org'', password = ''h:pw'', user_created_at = 0\<rparr>] [] [new_gamification 1 1]) 1 + 30) \<and>
   (\<exists>g bs. get_gamification ''ann@x.org'' (db_of [\<lparr>user_id = 1, user_name = ''ann'', email = ''ann@x.org'', password = ''h:pw'', user_created_at = 0\<rparr>] [] [new_gamification 1 1]) = (Inr (g, JArr bs), (db_of [\<lparr>user_id = 1, user_name = ''ann'', email = ''ann@x.org'', password = ''h:pw'', user_created_at = 0\<rparr>] [] [new_gamification 1 1]))) \<and>
   (\<exists>x s'. record_session 5 ''ann@x.org'' (JObj [(''duration_minutes'', JInt 30)]) (db_of [\<lparr>user_id = 1, user_name = ''ann'', email = ''ann@x.org'', password = ''h:pw'', user_created_at = 0\<rparr>] [] [new_gamification 1 1]) = (Inr x, s'))"
  using reachable_first_user
        registered_user_served [OF reachable_first_user, where e = "''ann@x.org''" and u = "\<lparr>user_id = 1, user_name = ''ann'', email = ''ann@x.org'', password = ''h:pw'', user_created_at = 0\<rparr>" and now = 5 and d = 30]
  by (simp add: find_user_def session_minutes_def in_int64_iff)

theorem summary_minutes_match_witness:
  "reachable (\<lambda>q. ''h:'' @ q) (\<lambda>h q. h = ''h:'' @ q) (\<lambda>_. Some 0) ((db_of [\<lparr>user_id = 1, user_name = ''ann'', email = ''ann@x.org'', password = ''h:pw'', user_created_at = 0\<rparr>] [] [((new_gamification 1 1)\<lparr>total_minutes_studied := 30\<rparr>)])\<lparr>study_sessions := [\<lparr>session_id = 1, session_user_id = 1, session_subject_id = JNull, duration_minutes = 30, session_date = 5, pomodoro_count = 1\<rparr>]\<rparr>) \<and> find_user ((db_of [\<lparr>user_id = 1, user_name = ''ann'', email = ''ann@x.org'', password = ''h:pw'', user_created_at = 0\<rparr>] [] [((new_gamification 1 1)\<lparr>total_minutes_studied := 30\<rparr>)])\<lparr>study_sessions := [\<lparr>session_id = 1, session_user_id = 1, session_subject_id = JNull, duration_minutes = 30, session_date = 5, pomodoro_count = 1\<rparr>]\<rparr>) ''ann@x.org'' = Some \<lparr>user_id = 1, user_name = ''ann'', email = ''ann@x.org'', password = ''h:pw'', user_created_at = 0\<rparr> \<and>
   user_gamification ((db_of [\<lparr>user_id = 1, user_name = ''ann'', email = ''ann@x.org'', password = ''h:pw'', user_created_at = 0\<rparr>] [] [((new_gamification 1 1)\<lparr>total_minutes_studied := 30\<rparr>)])\<lparr>study_sessions := [\<lparr>session_id = 1, session_user_id = 1, session_subject_id = JNull, duration_minutes = 30, session_date = 5, pomodoro_count = 1\<rparr>]\<rparr>) \<lparr>user_id = 1, user_name = ''ann'', email = ''ann@x.org'', password = ''h:pw'', user_created_at = 0\<rparr> = Some ((new_gamification 1 1)\<lparr>total_minutes_studied := 30\<rparr>) \<and>
   get_analytics_summary ''ann@x.org'' ((db_of [\<lparr>user_id = 1, user_name = ''ann'', email = ''ann@x.org'', password = ''h:pw'', user_created_at = 0\<rparr>] [] [((new_gamification 1 1)\<lparr>total_minutes_studied := 30\<rparr>)])\<lparr>study_sessions := [\<lparr>session_id = 1, session_user_id = 1, session_subject_id = JNull, duration_minutes = 30, session_date = 5, pomodoro_count = 1\<rparr>]\<rparr>) =
     (Inr \<lparr>total_subjects = 0, total_chapters = 0, sum_completed_chapters = 0, overall_completion_percentage = 0,
           total_study_minutes = 30, total_sessions = 1, avg_session_minutes = 30, total_reflections = 0,
           priority_breakdown = [(''low'', \<lparr>ps_count = 0, ps_avg_completion = 0\<rparr>),
                                 (''medium'', \<lparr>ps_count = 0, ps_avg_completion = 0\<rparr>),
                                 (''high'', \<lparr>ps_count = 0, ps_avg_completion = 0\<rparr>)]\<rparr>, ((db_of [\<lparr>user_id = 1, user_name = ''ann'', email = ''ann@x.org'', password = ''h:pw'', user_created_at = 0\<rparr>] [] [((new_gamification 1 1)\<lparr>total_minutes_studied := 30\<rparr>)])\<lparr>study_sessions := [\<lparr>session_id = 1, session_user_id = 1, session_subject_id = JNull, duration_minutes = 30, session_date = 5, pomodoro_count = 1\<rparr>]\<rparr>)) \<and>
   total_study_minutes \<lparr>total_subjects = 0, total_chapters = 0, sum_completed_chapters = 0,
           overall_completion_percentage = 0, total_study_minutes = 30, total_sessions = 1,
           avg_session_minutes = 30, total_reflections = 0,
           priority_breakdown = [(''low'', \<lparr>ps_count = 0, ps_avg_completion = 0\<rparr>),
                                 (''medium'', \<lparr>ps_count = 0, ps_avg_completion = 0\<rparr>),
                                 (''high'', \<lparr>ps_count = 0, ps_avg_completion = 0\<rparr>)]\<rparr> =
     total_minutes_studied ((new_gamification 1 1)\<lparr>total_minutes_studied := 30\<rparr>)"
proof -
  have f: "find_user ((db_of [\<lparr>user_id = 1, user_name = ''ann'', email = ''ann@x.org'', password = ''h:pw'', user_created_at = 0\<rparr>] [] [((new_gamification 1 1)\<lparr>total_minutes_studied := 30\<rparr>)])\<lparr>study_sessions := [\<lparr>session_id = 1, session_user_id = 1, session_subject_id = JNull, duration_minutes = 30, session_date = 5, pomodoro_count = 1\<rparr>]\<rparr>) ''ann@x.org'' = Some \<lparr>user_id = 1, user_name = ''ann'', email = ''ann@x.org'', password = ''h:pw'', user_created_at = 0\<rparr>" by (simp add: find_user_def)
  have g: "user_gamification ((db_of [\<lparr>user_id = 1, user_name = ''ann'', email = ''ann@x.org'', password = ''h:pw'', user_created_at = 0\<rparr>] [] [((new_gamification 1 1)\<lparr>total_minutes_studied := 30\<rparr>)])\<lparr>study_sessions := [\<lparr>session_id = 1, session_user_id = 1, session_subject_id = JNull, duration_minutes = 30, session_date = 5, pomodoro_count = 1\<rparr>]\<rparr>) \<lparr>user_id = 1, user_name = ''ann'', email = ''ann@x.org'', password = ''h:pw'', user_created_at = 0\<rparr> = Some ((new_gamification 1 1)\<lparr>total_minutes_studied := 30\<rparr>)" by (simp add: user_gamification_def new_gamification_def)
  have a: "get_analytics_summary ''ann@x.org'' ((db_of [\<lparr>user_id = 1, user_name = ''ann'', email = ''ann@x.org'', password = ''h:pw'', user_created_at = 0\<rparr>] [] [((new_gamification 1 1)\<lparr>total_minutes_studied := 30\<rparr>)])\<lparr>study_sessions := [\<lparr>session_id = 1, session_user_id = 1, session_subject_id = JNull, duration_minutes = 30, session_date = 5, pomodoro_count = 1\<rparr>]\<rparr>) =
     (Inr \<lparr>total_subjects = 0, total_chapters = 0, sum_completed_chapters = 0, overall_completion_percentage = 0,
           total_study_minutes = 30, total_sessions = 1, avg_session_minutes = 30, total_reflections = 0,
           priority_breakdown = [(''low'', \<lparr>ps_count = 0, ps_avg_completion = 0\<rparr>),
                                 (''medium'', \<lparr>ps_count = 0, ps_avg_completion = 0\<rparr>),
                                 (''high'', \<lparr>ps_count = 0, ps_avg_completion = 0\<rparr>)]\<rparr>, ((db_of [\<lparr>user_id = 1, user_name = ''ann'', email = ''ann@x.org'', password = ''h:pw'', user_created_at = 0\<rparr>] [] [((new_gamification 1 1)\<lparr>total_minutes_studied := 30\<rparr>)])\<lparr>study_sessions := [\<lparr>session_id = 1, session_user_id = 1, session_subject_id = JNull, duration_minutes = 30, session_date = 5, pomodoro_count = 1\<rparr>]\<rparr>))"
    by (simp add: get_analytics_summary_def run_tx_def get_analytics_summary_body_def find_user_def
                  priority_names_def priority_stat_of_def py_round1_def Let_def)
  show ?thesis
    using reachable_first_session f g a summary_minutes_match [OF reachable_first_session f g a] by simp
qed

theorem added_subject_is_planned_witness:
  "find_user (db_of [\<lparr>user_id = 1, user_name = ''ann'', email = ''ann@x.org'', password = ''h:pw'', user_created_at = 0\<rparr>] [] [new_gamification 1 1]) ''ann@x.org'' = Some \<lparr>user_id = 1, user_name = ''ann'', email = ''ann@x.org'', password = ''h:pw'', user_created_at = 0\<rparr> \<and> in_int64 3 \<and>
   (\<exists>p n. generate_weekly_plan 9 ''ann@x.org'' (snd (add_subject (\<lambda>_. Some 0) 0 ''ann@x.org'' (JObj [(''name'', JStr ''Maths''), (''chapters'', JInt 3), (''difficulty'', JStr ''hard''), (''deadline'', JStr ''2026-12-01''), (''priority'', JStr ''high'')]) (db_of [\<lparr>user_id = 1, user_name = ''ann'', email = ''ann@x.org'', password = ''h:pw'', user_created_at = 0\<rparr>] [] [new_gamification 1 1]))) = Inr (Plan_generated p n) \<and>
      plan_entry_of (new_subject (next_subject_id (db_of [\<lparr>user_id = 1, user_name = ''ann'', email = ''ann@x.org'', password = ''h:pw'', user_created_at = 0\<rparr>] [] [new_gamification 1 1])) 1 ''Maths'' 3 ''hard'' ''high'' 0 0) \<in> set (plan_entries p))"
  using added_subject_is_planned [where s = "(db_of [\<lparr>user_id = 1, user_name = ''ann'', email = ''ann@x.org'', password = ''h:pw'', user_created_at = 0\<rparr>] [] [new_gamification 1 1])" and e = "''ann@x.org''" and u = "\<lparr>user_id = 1, user_name = ''ann'', email = ''ann@x.org'', password = ''h:pw'', user_created_at = 0\<rparr>" and data = "(JObj [(''name'', JStr ''Maths''), (''chapters'', JInt 3), (''difficulty'', JStr ''hard''), (''deadline'', JStr ''2026-12-01''), (''priority'', JStr ''high'')])"
          and nm = "''Maths''" and ch = 3 and df = "''hard''" and t = "''2026-12-01''" and pr = "''high''"
          and parse_iso = "(\<lambda>_. Some 0)" and dl = 0 and now' = 9 and now = 0]
  by (simp add: find_user_def in_int64_iff)

theorem deleted_subject_not_planned_witness:
  "delete_subject ''ann@x.org'' 1 (db_of [\<lparr>user_id = 1, user_name = ''ann'', email = ''ann@x.org'', password = ''h:pw'', user_created_at = 0\<rparr>] [(new_subject 1 1 ''Maths'' 3 ''hard'' ''high'' 100 0), (new_subject 2 1 ''Maths'' 3 ''hard'' ''high'' 100 0)] [new_gamification 1 1]) = (Inr (), (db_of [\<lparr>user_id = 1, user_name = ''ann'', email = ''ann@x.org'', password = ''h:pw'', user_created_at = 0\<rparr>] [(new_subject 2 1 ''Maths'' 3 ''hard'' ''high'' 100 0)] [new_gamification 1 1])) \<and>
   generate_weekly_plan 0 ''ann@x.org'' (db_of [\<lparr>user_id = 1, user_name = ''ann'', email = ''ann@x.org'', password = ''h:pw'', user_created_at = 0\<rparr>] [(new_subject 2 1 ''Maths'' 3 ''hard'' ''high'' 100 0)] [new_gamification 1 1]) = Inr (Plan_generated (generate_plan 0 [(new_subject 2 1 ''Maths'' 3 ''hard'' ''high'' 100 0)]) 1) \<and>
   1 \<notin> pe_subject_id ` set (plan_entries (generate_plan 0 [(new_subject 2 1 ''Maths'' 3 ''hard'' ''high'' 100 0)]))"
proof -
  have d: "delete_subject ''ann@x.org'' 1 (db_of [\<lparr>user_id = 1, user_name = ''ann'', email = ''ann@x.org'', password = ''h:pw'', user_created_at = 0\<rparr>] [(new_subject 1 1 ''Maths'' 3 ''hard'' ''high'' 100 0), (new_subject 2 1 ''Maths'' 3 ''hard'' ''high'' 100 0)] [new_gamification 1 1]) = (Inr (), (db_of [\<lparr>user_id = 1, user_name = ''ann'', email = ''ann@x.org'', password = ''h:pw'', user_created_at = 0\<rparr>] [(new_subject 2 1 ''Maths'' 3 ''hard'' ''high'' 100 0)] [new_gamification 1 1]))"
    by (simp add: delete_subject_def run_tx_def delete_subject_body_def owned_subject_def find_user_def
                  new_subject_def db_of_def)
  have g: "generate_weekly_plan 0 ''ann@x.org'' (db_of [\<lparr>user_id = 1, user_name = ''ann'', email = ''ann@x.org'', password = ''h:pw'', user_created_at = 0\<rparr>] [(new_subject 2 1 ''Maths'' 3 ''hard'' ''high'' 100 0)] [new_gamification 1 1]) = Inr (Plan_generated (generate_plan 0 [(new_subject 2 1 ''Maths'' 3 ''hard'' ''high'' 100 0)]) 1)"
    by (simp add: generate_weekly_plan_def find_user_def active_subjects_def new_subject_def)
  show ?thesis using d g deleted_subject_not_planned [OF d g] by blast
qed


theorem oversized_integer_rolls_back_witness:
  "find_user (db_of [\<lparr>user_id = 1, user_name = ''ann'', email = ''ann@x.org'', password = ''h:pw'', user_created_at = 0\<rparr>] [] [new_gamification 1 1]) ''ann@x.org'' = Some \<lparr>user_id = 1, user_name = ''ann'', email = ''ann@x.org'', password = ''h:pw'', user_created_at = 0\<rparr> \<and>
   user_gamification (db_of [\<lparr>user_id = 1, user_name = ''ann'', email = ''ann@x.org'', password = ''h:pw'', user_created_at = 0\<rparr>] [] [new_gamification 1 1]) \<lparr>user_id = 1, user_name = ''ann'', email = ''ann@x.org'', password = ''h:pw'', user_created_at = 0\<rparr> = Some (new_gamification 1 1) \<and> \<not> in_int64 (2 ^ 63) \<and>
   add_xp ''ann@x.org'' (JObj [(''xp'', JInt (2 ^ 63 - xp (new_gamification 1 1)))]) (db_of [\<lparr>user_id = 1, user_name = ''ann'', email = ''ann@x.org'', password = ''h:pw'', user_created_at = 0\<rparr>] [] [new_gamification 1 1]) = (Inl (Server_error OverflowError), (db_of [\<lparr>user_id = 1, user_name = ''ann'', email = ''ann@x.org'', password = ''h:pw'', user_created_at = 0\<rparr>] [] [new_gamification 1 1])) \<and>
   record_session 5 ''ann@x.org'' (JObj [(''duration_minutes'', JInt (2 ^ 63))]) (db_of [\<lparr>user_id = 1, user_name = ''ann'', email = ''ann@x.org'', password = ''h:pw'', user_created_at = 0\<rparr>] [] [new_gamification 1 1]) = (Inl (Server_error OverflowError), (db_of [\<lparr>user_id = 1, user_name = ''ann'', email = ''ann@x.org'', password = ''h:pw'', user_created_at = 0\<rparr>] [] [new_gamification 1 1])) \<and>
   add_subject (\<lambda>_. Some 0) 5 ''ann@x.org'' (JObj [(''name'', JStr ''Maths''), (''chapters'', JInt (2 ^ 63)),
     (''difficulty'', JStr ''hard''), (''deadline'', JStr ''2026-12-01''), (''priority'', JStr ''high'')]) (db_of [\<lparr>user_id = 1, user_name = ''ann'', email = ''ann@x.org'', password = ''h:pw'', user_created_at = 0\<rparr>] [] [new_gamification 1 1]) =
     (Inl (Server_error OverflowError), (db_of [\<lparr>user_id = 1, user_name = ''ann'', email = ''ann@x.org'', password = ''h:pw'', user_created_at = 0\<rparr>] [] [new_gamification 1 1]))"
  using oversized_integer_rolls_back [where s = "(db_of [\<lparr>user_id = 1, user_name = ''ann'', email = ''ann@x.org'', password = ''h:pw'', user_created_at = 0\<rparr>] [] [new_gamification 1 1])" and e = "''ann@x.org''" and u = "\<lparr>user_id = 1, user_name = ''ann'', email = ''ann@x.org'', password = ''h:pw'', user_created_at = 0\<rparr>"
          and g = "new_gamification 1 1" and n = "2 ^ 63" and nm = "''Maths''" and df = "''hard''"
          and t = "''2026-12-01''" and pr = "''high''" and parse_iso = "\<lambda>_. Some 0" and dl = 0 and now = 5]
  by (simp add: find_user_def user_gamification_def in_int64_iff)

end
